(* ===== verification/Prelude.thy ===== *)
theory Prelude
  imports Main
begin

text \<open>
  Shared vocabulary of the fundflow backend model. A request body field is a
  \<open>string option\<close>: \<open>None\<close> is JavaScript's \<open>undefined\<close> (the key is absent
  from the JSON body), \<open>Some s\<close> a string value. JavaScript strings are
  sequences of UTF-16 code units; the model restricts them to the Latin-1 range
  (code units 0 to 255), which is exactly HOL's \<open>char\<close>, so \<open>length\<close> is
  JavaScript's \<open>.length\<close>. Account ids are \<open>nat\<close> (MySQL AUTO_INCREMENT),
  HTTP statuses are \<open>nat\<close>. The collections \<open>handler_defs\<close> and
  \<open>store_simps\<close> gather the unfolding rules of the request handlers and the
  evaluation rules of the stores, so that component proofs say
  \<open>simp add: handler_defs\<close>.
\<close>

type_synonym uid = nat
type_synonym status = nat
type_synonym field = "string option"

text \<open>A response is the status passed to \<open>res.status\<close> and the body passed to
  \<open>res.send\<close>; each route group has its own body type.\<close>

type_synonym 'b response = "status \<times> 'b"

text \<open>The errors a handler can catch: MySQL errors, the errors of
  \<open>jwt.verify\<close>, a failing \<open>Bun.password.verify\<close>, and the ReferenceError
  raised by reading an undeclared variable.\<close>

datatype db_error = Connection_Error | Wrong_Value_Count

datatype jwt_error = JsonWebTokenError | TokenExpiredError

datatype js_error =
    Db_Error db_error
  | Jwt_Error jwt_error
  | Hash_Error
  | Reference_Error string

named_theorems handler_defs "definitions of the HTTP request handlers"
named_theorems store_simps "evaluation rules of the store operations"

text \<open>JavaScript truthiness of a body field: \<open>undefined\<close> and \<open>''\<close> are falsy.\<close>

definition js_truthy :: "field \<Rightarrow> bool" where
  "js_truthy v = (case v of None \<Rightarrow> False | Some s \<Rightarrow> s \<noteq> [])"

lemma js_truthy_simps [simp]:
  "js_truthy None = False"
  "js_truthy (Some s) = (s \<noteq> [])"
  by (simp_all add: js_truthy_def)

lemma js_truthy_iff: "js_truthy v \<longleftrightarrow> (\<exists>s. v = Some s \<and> s \<noteq> [])"
  by (cases v) auto

text \<open>The string behind a truthy field.\<close>

definition fval :: "field \<Rightarrow> string" where
  "fval v = (case v of None \<Rightarrow> [] | Some s \<Rightarrow> s)"

lemma fval_Some [simp]: "fval (Some s) = s"
  by (simp add: fval_def)

subsection \<open>Generic list lemmas shared by the components\<close>

lemma filter_length_one_conv:
  "length (filter P xs) = Suc 0 \<longleftrightarrow> (\<exists>x. filter P xs = [x])"
  by (cases "filter P xs") auto

lemma filter_empty_conv_all: "filter P xs = [] \<longleftrightarrow> (\<forall>x\<in>set xs. \<not> P x)"
  by (induction xs) auto

lemma distinct_map_filter_unique:
  assumes "distinct (map f xs)" "x \<in> set xs" "f x = k"
  shows "filter (\<lambda>y. f y = k) xs = [x]"
  using assms by (induction xs) (auto simp: filter_empty_conv_all image_iff)

lemma distinct_map_append_single:
  "distinct (map f (xs @ [x])) \<longleftrightarrow> distinct (map f xs) \<and> f x \<notin> f ` set xs"
  by auto

end
