(* ===== verification/Js_Strings.thy ===== *)
theory Js_Strings
  imports Prelude
begin

text \<open>
  The string operations the authentication routes apply to request fields
  (src/src/routes/auth.js): the e-mail regular expression of \<open>/register\<close>
  (line 88), the slug \<open>username.replace(/\s+/g, '_').toLowerCase()\<close> (lines
  112 and 202), the e-mail detection of \<open>/login\<close> (line 163) and
  \<open>email.split('@')[0]\<close> of \<open>/login/google\<close> (line 201). JavaScript's
  \<open>\s\<close>, \<open>indexOf\<close>, \<open>lastIndexOf\<close> and \<open>toLowerCase\<close> are written out on
  Latin-1 code units, where they are exact.
\<close>

subsection \<open>Character classes\<close>

text \<open>JavaScript \<open>\s\<close> restricted to code units below 256: tab, line feed,
  vertical tab, form feed, carriage return, space and no-break space.\<close>

definition is_js_space :: "char \<Rightarrow> bool" where
  "is_js_space c \<longleftrightarrow>
     c = CHR 0x09 \<or> c = CHR 0x0A \<or> c = CHR 0x0B \<or> c = CHR 0x0C \<or> c = CHR 0x0D \<or>
     c = CHR 0x20 \<or> c = CHR 0xA0"

text \<open>The class \<open>[^\s@]\<close> of the e-mail pattern.\<close>

definition re_plain :: "char \<Rightarrow> bool" where
  "re_plain c \<longleftrightarrow> \<not> is_js_space c \<and> c \<noteq> CHR ''@''"

subsection \<open>The registration e-mail pattern\<close>

text \<open>
  \<open>/^[^\s@]+@[^\s@]+\.[^\s@]+$/.test(email)\<close>. Since \<open>[^\s@]\<close> excludes
  \<open>@\<close>, a match has exactly one \<open>@\<close>: the matcher splits there, checks the
  local part, and asks for a dot strictly inside the domain part.
\<close>

definition email_re :: "string \<Rightarrow> bool" where
  "email_re s =
     (let a = takeWhile (\<lambda>c. c \<noteq> CHR ''@'') s;
          r = dropWhile (\<lambda>c. c \<noteq> CHR ''@'') s
      in a \<noteq> [] \<and> list_all re_plain a \<and>
         (case r of
            [] \<Rightarrow> False
          | _ # d \<Rightarrow> list_all re_plain d \<and> CHR ''.'' \<in> set (butlast (tl d))))"

text \<open>The language of the pattern, read off the regular expression.\<close>

definition email_lang :: "string \<Rightarrow> bool" where
  "email_lang s \<longleftrightarrow>
     (\<exists>a b c. s = a @ CHR ''@'' # b @ CHR ''.'' # c \<and>
        a \<noteq> [] \<and> b \<noteq> [] \<and> c \<noteq> [] \<and>
        list_all re_plain a \<and> list_all re_plain b \<and> list_all re_plain c)"

subsection \<open>The user url slug\<close>

text \<open>\<open>replace(/\s+/g, '_')\<close>: every maximal run of white space becomes one
  underscore.\<close>

function collapse_ws :: "string \<Rightarrow> string" where
  "collapse_ws [] = []"
| "collapse_ws (c # cs) =
     (if is_js_space c then CHR ''_'' # collapse_ws (dropWhile is_js_space cs)
      else c # collapse_ws cs)"
  by pat_completeness auto
termination
  by (relation "measure length") (auto simp: le_imp_less_Suc length_dropWhile_le)

text \<open>\<open>toLowerCase\<close> on Latin-1: A-Z and the capitals U+00C0 to U+00DE
  except the multiplication sign U+00D7 move down by 32.\<close>

definition js_lower :: "char \<Rightarrow> char" where
  "js_lower c =
     (let n = (of_char c :: nat)
      in if (65 \<le> n \<and> n \<le> 90) \<or> (192 \<le> n \<and> n \<le> 222 \<and> n \<noteq> 215)
         then char_of (n + 32) else c)"

definition to_lower :: "string \<Rightarrow> string" where
  "to_lower s = map js_lower s"

definition user_url :: "string \<Rightarrow> string" where
  "user_url u = to_lower (collapse_ws u)"

subsection \<open>indexOf, lastIndexOf and the login e-mail test\<close>

definition index_of :: "char \<Rightarrow> string \<Rightarrow> int" where
  "index_of c s = (if c \<in> set s then int (length (takeWhile (\<lambda>x. x \<noteq> c) s)) else -1)"

definition last_index_of :: "char \<Rightarrow> string \<Rightarrow> int" where
  "last_index_of c s =
     (if c \<in> set s then int (length s) - 1 - int (length (takeWhile (\<lambda>x. x \<noteq> c) (rev s)))
      else -1)"

text \<open>\<open>username.includes('@') && username.includes('.') &&
  username.indexOf('@') < username.lastIndexOf('.')\<close>.\<close>

definition login_is_email :: "string \<Rightarrow> bool" where
  "login_is_email u \<longleftrightarrow>
     CHR ''@'' \<in> set u \<and> CHR ''.'' \<in> set u \<and>
     index_of (CHR ''@'') u < last_index_of (CHR ''.'') u"

text \<open>\<open>email.split('@')[0]\<close>: the text before the first \<open>@\<close>.\<close>

definition split_at_first :: "char \<Rightarrow> string \<Rightarrow> string" where
  "split_at_first c s = takeWhile (\<lambda>x. x \<noteq> c) s"

subsection \<open>Lemmas on the scanners\<close>

lemma takeWhile_not_at:
  assumes "c \<notin> set a"
  shows "takeWhile (\<lambda>x. x \<noteq> c) (a @ c # r) = a"
    and "dropWhile (\<lambda>x. x \<noteq> c) (a @ c # r) = c # r"
  using assms by (induction a) auto

lemma takeWhile_neq_length_le:
  "length (takeWhile (\<lambda>x. x \<noteq> d) (xs @ d # ys)) \<le> length xs"
  by (induction xs) auto

lemma list_all_re_plain_no_at: "list_all re_plain a \<Longrightarrow> CHR ''@'' \<notin> set a"
  by (auto simp: re_plain_def list_all_iff)

lemma index_of_first:
  "c \<notin> set a \<Longrightarrow> index_of c (a @ c # r) = int (length a)"
  by (simp add: index_of_def takeWhile_not_at)

lemma last_index_of_ge:
  "last_index_of c (xs @ c # ys) \<ge> int (length xs)"
proof -
  have "length (takeWhile (\<lambda>x. x \<noteq> c) (rev ys @ c # rev xs)) \<le> length (rev ys)"
    by (rule takeWhile_neq_length_le)
  then show ?thesis by (simp add: last_index_of_def)
qed

lemma char_eq_code: "c = d \<longleftrightarrow> (of_char c :: nat) = of_char d"
  by simp

lemma is_js_space_code:
  "is_js_space c \<longleftrightarrow> (of_char c :: nat) \<in> {9, 10, 11, 12, 13, 32, 160}"
  unfolding is_js_space_def by (simp only: char_eq_code[of c]) simp

lemma js_lower_not_space: "\<not> is_js_space c \<Longrightarrow> \<not> is_js_space (js_lower c)"
  by (auto simp: js_lower_def Let_def is_js_space_code)

lemma js_lower_idem [simp]: "js_lower (js_lower c) = js_lower c"
  by (auto simp: js_lower_def Let_def)

lemma collapse_ws_no_space: "c \<in> set (collapse_ws s) \<Longrightarrow> \<not> is_js_space c"
  by (induction s rule: collapse_ws.induct)
    (auto simp: is_js_space_def split: if_splits)

lemma collapse_ws_id: "\<forall>c\<in>set s. \<not> is_js_space c \<Longrightarrow> collapse_ws s = s"
  by (induction s) auto

lemma email_lang_split:
  assumes "email_lang s"
  obtains a b c where "s = a @ CHR ''@'' # b @ CHR ''.'' # c"
    "a \<noteq> []" "b \<noteq> []" "c \<noteq> []"
    "list_all re_plain a" "list_all re_plain b" "list_all re_plain c"
  using assms unfolding email_lang_def by blast

lemma email_lang_imp_re: "email_lang s \<Longrightarrow> email_re s"
proof -
  assume "email_lang s"
  then obtain a b c where s: "s = a @ CHR ''@'' # b @ CHR ''.'' # c"
    and ne: "a \<noteq> []" "b \<noteq> []" "c \<noteq> []"
    and pl: "list_all re_plain a" "list_all re_plain b" "list_all re_plain c"
    by (rule email_lang_split)
  have noat: "CHR ''@'' \<notin> set a" using pl(1) by (rule list_all_re_plain_no_at)
  have dot: "CHR ''.'' \<in> set (butlast (tl (b @ CHR ''.'' # c)))"
    using ne(2,3) by (cases b) (auto simp: butlast_append)
  have dot_plain: "re_plain (CHR ''.'')" by (simp add: re_plain_def is_js_space_def)
  show ?thesis
    using ne(1) pl dot dot_plain
    unfolding email_re_def s Let_def takeWhile_not_at[OF noat]
    by simp
qed

lemma email_re_imp_lang: "email_re s \<Longrightarrow> email_lang s"
proof -
  assume re: "email_re s"
  define a where "a = takeWhile (\<lambda>c. c \<noteq> CHR ''@'') s"
  define r where "r = dropWhile (\<lambda>c. c \<noteq> CHR ''@'') s"
  have s: "s = a @ r" by (simp add: a_def r_def)
  have re': "a \<noteq> [] \<and> list_all re_plain a \<and>
      (case r of [] \<Rightarrow> False | _ # d \<Rightarrow> list_all re_plain d \<and> CHR ''.'' \<in> set (butlast (tl d)))"
    using re unfolding email_re_def Let_def a_def[symmetric] r_def[symmetric] .
  then have a: "a \<noteq> []" "list_all re_plain a" by simp_all
  from re' obtain x d where r: "r = x # d"
    by (cases r) auto
  have x: "x = CHR ''@''"
    using r hd_dropWhile[of "\<lambda>c. c \<noteq> CHR ''@''" s] unfolding r_def by fastforce
  from re' have d: "list_all re_plain d" "CHR ''.'' \<in> set (butlast (tl d))"
    by (simp_all add: r)
  obtain p q where pq: "butlast (tl d) = p @ CHR ''.'' # q"
    using d(2) by (blast dest: split_list)
  have tl_ne: "tl d \<noteq> []" using d(2) by auto
  then have d_ne: "d \<noteq> []" by auto
  have tl_eq: "tl d = p @ CHR ''.'' # q @ [last (tl d)]"
    using append_butlast_last_id[OF tl_ne] pq by simp
  have d_eq: "d = (hd d # p) @ CHR ''.'' # (q @ [last (tl d)])"
    using d_ne tl_eq by (metis append_Cons list.collapse)
  show ?thesis
    unfolding email_lang_def
  proof (intro exI conjI)
    show "s = a @ CHR ''@'' # (hd d # p) @ CHR ''.'' # (q @ [last (tl d)])"
      using s r x d_eq by simp
    show "list_all re_plain (hd d # p)" "list_all re_plain (q @ [last (tl d)])"
      using d(1) d_eq by (metis list_all_append list.pred_inject(2))+
  qed (use a in auto)
qed

subsection \<open>Properties\<close>

text \<open>The matcher accepts exactly the strings of the pattern's language:
  a non-empty local part, one \<open>@\<close>, a non-empty part, a dot, a non-empty
  part, none of them holding white space or \<open>@\<close>.\<close>

theorem email_re_iff_lang: "email_re s \<longleftrightarrow> email_lang s"
  using email_lang_imp_re email_re_imp_lang by blast

lemma email_re_imp_login_is_email:
  assumes "email_re s"
  shows "login_is_email s"
proof -
  from assms have "email_lang s" by (rule email_re_imp_lang)
  then obtain a b c where s: "s = a @ CHR ''@'' # b @ CHR ''.'' # c"
    and pl: "list_all re_plain a" "list_all re_plain b"
    by (rule email_lang_split)
  have noat: "CHR ''@'' \<notin> set a" using pl(1) by (rule list_all_re_plain_no_at)
  have "index_of (CHR ''@'') s = int (length a)"
    unfolding s by (rule index_of_first[OF noat])
  moreover have "last_index_of (CHR ''.'') s \<ge> int (length (a @ CHR ''@'' # b))"
    unfolding s using last_index_of_ge[where c = "CHR ''.''" and xs = "a @ CHR ''@'' # b" and ys = c] by simp
  ultimately show ?thesis
    unfolding login_is_email_def s by simp
qed

text \<open>C4: every e-mail the registration accepts is recognised as an e-mail by
  the login route, so an account can always log in with its e-mail.\<close>

theorem registered_email_is_login_email:
  assumes "email_re s"
  shows "login_is_email s"
  using assms by (rule email_re_imp_login_is_email)

theorem registered_email_is_login_email_witness:
  "email_re ''a@b.com'' \<and> login_is_email ''a@b.com''"
proof -
  have h: "email_re ''a@b.com''"
    by (simp add: email_re_def re_plain_def is_js_space_def)
  show ?thesis using h registered_email_is_login_email[OF h] by simp
qed

text \<open>C5: the url slug derived from a username holds no white space and is
  already in lower case, and deriving it again changes nothing.\<close>

theorem user_url_normal_form:
  "(\<forall>c\<in>set (user_url u). \<not> is_js_space c \<and> js_lower c = c) \<and> user_url (user_url u) = user_url u"
proof -
  have sp: "\<forall>c\<in>set (user_url u). \<not> is_js_space c"
    using collapse_ws_no_space js_lower_not_space
    by (fastforce simp: user_url_def to_lower_def)
  then have "collapse_ws (user_url u) = user_url u" by (rule collapse_ws_id)
  then show ?thesis using sp
    by (auto simp: user_url_def to_lower_def)
qed

theorem user_url_normal_form_witness:
  "user_url ''Big  Bob'' = ''big_bob'' \<and> user_url ''big_bob'' = ''big_bob''"
proof -
  have u: "user_url ''Big  Bob'' = ''big_bob''"
    by (simp add: user_url_def to_lower_def js_lower_def is_js_space_def Let_def)
      (subst char_eq_code, simp)
  show ?thesis using user_url_normal_form[of "''Big  Bob''"] unfolding u by simp
qed

end
