(* ===== verification/Tokens.thy ===== *)
theory Tokens
  imports Prelude
begin

text \<open>
  The two libraries the authentication routes call for their cryptography,
  modelled from their documented contracts (they are not code of this
  repository): \<open>jsonwebtoken\<close> (\<open>jwt.sign\<close>, \<open>jwt.verify\<close>) and
  \<open>Bun.password\<close> (\<open>hash\<close>, \<open>verify\<close>). Both are symbolic: a token records
  the secret it was signed with and its claims, a digest records its salt and
  the password, so that verification is exact (no forgeries, no collisions).
  Times are seconds, as in the JWT claims \<open>iat\<close> and \<open>exp\<close>; the server
  clock is in milliseconds (\<open>Date.now()\<close>) and \<open>secs\<close> converts, as
  \<open>Math.floor(Date.now() / 1000)\<close> does inside \<open>jsonwebtoken\<close>.
\<close>

subsection \<open>Signed tokens\<close>

record claims =
  cl_id :: uid
  cl_iat :: nat
  cl_exp :: "nat option"

text \<open>A value presented as a token: one signed with some key, or any other
  string (a truncated or forged value).\<close>

datatype token = Signed string claims | Malformed string

definition secs :: "nat \<Rightarrow> nat" where
  "secs now_ms = now_ms div 1000"

text \<open>\<open>jwt.sign({ id }, secret, { expiresIn })\<close>: \<open>iat\<close> is the current
  second; \<open>exp\<close> is \<open>iat + ttl\<close> when an expiry is given, absent otherwise.\<close>

definition jwt_sign :: "string \<Rightarrow> uid \<Rightarrow> nat \<Rightarrow> nat option \<Rightarrow> token" where
  "jwt_sign key i now_s ttl =
     Signed key \<lparr>cl_id = i, cl_iat = now_s, cl_exp = map_option (\<lambda>t. now_s + t) ttl\<rparr>"

text \<open>\<open>jwt.verify(token, secret)\<close>: a bad signature or a malformed token
  throws \<open>JsonWebTokenError\<close>; a token whose \<open>exp\<close> is not after the current
  second throws \<open>TokenExpiredError\<close> (the library tests
  \<open>clockTimestamp >= payload.exp\<close>); a token without \<open>exp\<close> never expires.\<close>

definition jwt_verify :: "string \<Rightarrow> nat \<Rightarrow> token \<Rightarrow> jwt_error + claims" where
  "jwt_verify key now_s tok =
     (case tok of
        Malformed _ \<Rightarrow> Inl JsonWebTokenError
      | Signed k c \<Rightarrow>
          if k \<noteq> key then Inl JsonWebTokenError
          else (case cl_exp c of
                  None \<Rightarrow> Inr c
                | Some e \<Rightarrow> if e \<le> now_s then Inl TokenExpiredError else Inr c))"

subsection \<open>Password digests\<close>

text \<open>A stored \<open>hashPassword\<close> column value: a bcrypt digest made by
  \<open>Bun.password.hash(password, { algorithm: 'bcrypt' })\<close> with a random salt,
  or a raw string that is no digest (what \<open>/login/google\<close> stores).\<close>

datatype digest = Bcrypt nat string | Raw string

definition bun_hash :: "nat \<Rightarrow> string \<Rightarrow> digest" where
  "bun_hash salt pw = Bcrypt salt pw"

text \<open>\<open>Bun.password.verify(password, hash)\<close> compares against a bcrypt
  digest and throws on a value whose algorithm it cannot recognise.\<close>

definition bun_verify :: "string \<Rightarrow> digest \<Rightarrow> js_error + bool" where
  "bun_verify pw d = (case d of Bcrypt _ p \<Rightarrow> Inr (p = pw) | Raw _ \<Rightarrow> Inl Hash_Error)"

subsection \<open>Lemmas\<close>

lemma jwt_verify_sign:
  "jwt_verify key now (jwt_sign key i t ttl) =
     (case ttl of
        None \<Rightarrow> Inr \<lparr>cl_id = i, cl_iat = t, cl_exp = None\<rparr>
      | Some d \<Rightarrow> if t + d \<le> now then Inl TokenExpiredError
                 else Inr \<lparr>cl_id = i, cl_iat = t, cl_exp = Some (t + d)\<rparr>)"
  by (cases ttl) (simp_all add: jwt_sign_def jwt_verify_def)

lemma jwt_verify_Inr:
  "jwt_verify key now tok = Inr c \<Longrightarrow>
     tok = Signed key c \<and> (\<forall>e. cl_exp c = Some e \<longrightarrow> now < e)"
  by (auto simp: jwt_verify_def split: token.splits option.splits if_splits)

lemma jwt_verify_other_key:
  "k \<noteq> key \<Longrightarrow> jwt_verify key now (Signed k c) = Inl JsonWebTokenError"
  by (simp add: jwt_verify_def)

lemma bun_verify_hash [simp]: "bun_verify p (bun_hash salt q) = Inr (q = p)"
  by (simp add: bun_verify_def bun_hash_def)

lemma secs_le_mono: "a \<le> b \<Longrightarrow> secs a \<le> secs b"
  by (simp add: secs_def div_le_mono)

subsection \<open>Properties\<close>

text \<open>A token signed with the server secret verifies to exactly the
  claims it was signed with: for ever when no expiry was given, and exactly
  until its expiry second otherwise; a token signed with another key never
  verifies.\<close>

theorem jwt_sign_verify_roundtrip:
  "jwt_verify key now (jwt_sign key i t None) = Inr \<lparr>cl_id = i, cl_iat = t, cl_exp = None\<rparr> \<and>
   (jwt_verify key now (jwt_sign key i t (Some d)) = Inr \<lparr>cl_id = i, cl_iat = t, cl_exp = Some (t + d)\<rparr>
      \<longleftrightarrow> now < t + d) \<and>
   (k \<noteq> key \<longrightarrow> jwt_verify key now (jwt_sign k i t ttl) = Inl JsonWebTokenError)"
  by (simp add: jwt_verify_def jwt_sign_def)

theorem jwt_sign_verify_roundtrip_witness:
  "jwt_verify ''k'' 10 (jwt_sign ''other'' 1 5 None) = Inl JsonWebTokenError \<and>
   jwt_verify ''k'' 10 (jwt_sign ''k'' 1 5 (Some 3600)) = Inr \<lparr>cl_id = 1, cl_iat = 5, cl_exp = Some 3605\<rparr>"
  using jwt_sign_verify_roundtrip[of "''k''" 10 1 5 3600 "''other''" None] by simp

end
