(* ===== verification/User_Store.thy ===== *)
theory User_Store
  imports Tokens
begin

text \<open>
  The MySQL \<open>users\<close> relation and the five statements src/src/routes/auth.js
  sends to it through \<open>db.getPromise().query\<close>. A query either fails (the
  connection is down, or the statement is rejected by the server) or returns
  its rows in table order. Column equality is exact string equality (a binary
  collation; the schema is not part of the repository). \<open>INSERT\<close> assigns the
  AUTO_INCREMENT id, sets \<open>verifiedEmail\<close> to its default false, and reports
  one affected row; \<open>UPDATE\<close> reports the rows its \<open>WHERE\<close> matched (the
  driver's default found-rows flag). The \<open>role\<close> column is not modelled: no
  route of the authentication subsystem writes or tests it.
\<close>

record user_row =
  user_id :: uid
  username :: string
  email :: string
  hashPassword :: digest
  registerDate :: string
  url :: string
  verifiedEmail :: bool
  profilePictureSrc :: string

record users_db =
  rows :: "user_row list"
  next_id :: nat
  online :: bool

definition run_query :: "users_db \<Rightarrow> 'a \<Rightarrow> db_error + 'a" where
  "run_query d x = (if online d then Inr x else Inl Connection_Error)"

text \<open>\<open>SELECT username, email FROM users WHERE email = ? OR username = ?\<close>
  (line 101).\<close>

definition select_email_or_username :: "string \<Rightarrow> string \<Rightarrow> users_db \<Rightarrow> db_error + user_row list" where
  "select_email_or_username e u d =
     run_query d (filter (\<lambda>r. email r = e \<or> username r = u) (rows d))"

text \<open>\<open>SELECT ... FROM users WHERE email = ?\<close> (lines 165 and 197) and
  \<open>... WHERE username = ?\<close> (line 166).\<close>

definition select_by_email :: "string \<Rightarrow> users_db \<Rightarrow> db_error + user_row list" where
  "select_by_email e d = run_query d (filter (\<lambda>r. email r = e) (rows d))"

definition select_by_username :: "string \<Rightarrow> users_db \<Rightarrow> db_error + user_row list" where
  "select_by_username u d = run_query d (filter (\<lambda>r. username r = u) (rows d))"

text \<open>\<open>SELECT email FROM users WHERE id = ?\<close> (line 221).\<close>

definition select_by_id :: "uid \<Rightarrow> users_db \<Rightarrow> db_error + user_row list" where
  "select_by_id i d = run_query d (filter (\<lambda>r. user_id r = i) (rows d))"

text \<open>
  \<open>INSERT INTO users (username, email, hashPassword, registerDate, url,
  profilePictureSrc) VALUES (...)\<close> (lines 113-116 and 203-206). The column
  list has six names; the server rejects the statement when the number of
  values in its \<open>VALUES\<close> tuple differs. The driver formats the statement on
  the client, substituting the parameters for the \<open>?\<close> placeholders in order,
  so the tuple has as many values as the statement text has placeholders.
\<close>

definition insert_user ::
  "nat \<Rightarrow> string \<Rightarrow> string \<Rightarrow> digest \<Rightarrow> string \<Rightarrow> string \<Rightarrow> string \<Rightarrow> users_db \<Rightarrow>
   db_error + (uid \<times> users_db)" where
  "insert_user placeholders u e h date slug pic d =
     (if \<not> online d then Inl Connection_Error
      else if placeholders \<noteq> 6 then Inl Wrong_Value_Count
      else
        let i = next_id d;
            r = \<lparr>user_id = i, username = u, email = e, hashPassword = h,
                 registerDate = date, url = slug, verifiedEmail = False,
                 profilePictureSrc = pic\<rparr>
        in Inr (i, d\<lparr>rows := rows d @ [r], next_id := Suc i\<rparr>))"

text \<open>\<open>UPDATE users SET verifiedEmail = true WHERE id = ?\<close> (line 250):
  the new table and the number of matched rows.\<close>

definition update_verified :: "uid \<Rightarrow> users_db \<Rightarrow> db_error + (nat \<times> users_db)" where
  "update_verified i d =
     run_query d
       (length (filter (\<lambda>r. user_id r = i) (rows d)),
        d\<lparr>rows := map (\<lambda>r. if user_id r = i then r\<lparr>verifiedEmail := True\<rparr> else r) (rows d)\<rparr>)"

subsection \<open>The table's invariant\<close>

text \<open>Ids are distinct and below the AUTO_INCREMENT counter; usernames and
  e-mails are each unique. The schema declares no unique key: uniqueness is
  what the registration route's check is meant to keep.\<close>

definition users_wf :: "users_db \<Rightarrow> bool" where
  "users_wf d \<longleftrightarrow>
     distinct (map user_id (rows d)) \<and> (\<forall>r\<in>set (rows d). user_id r < next_id d) \<and>
     distinct (map username (rows d)) \<and> distinct (map email (rows d))"

text \<open>The part of the invariant the AUTO_INCREMENT counter keeps on its own,
  whatever order requests run in.\<close>

definition ids_wf :: "users_db \<Rightarrow> bool" where
  "ids_wf d \<longleftrightarrow> distinct (map user_id (rows d)) \<and> (\<forall>r\<in>set (rows d). user_id r < next_id d)"

text \<open>How a row may change: not at all, or by setting its verified flag.
  A table grows from another when it keeps every row in place, each changed at
  most in that way, and only appends new rows after them.\<close>

definition row_grows :: "user_row \<Rightarrow> user_row \<Rightarrow> bool" where
  "row_grows r r' \<longleftrightarrow> r' = r \<or> r' = r\<lparr>verifiedEmail := True\<rparr>"

definition verified_mono :: "users_db \<Rightarrow> users_db \<Rightarrow> bool" where
  "verified_mono d d' \<longleftrightarrow> list_all2 row_grows (rows d) (take (length (rows d)) (rows d'))"

subsection \<open>Evaluation rules\<close>

lemma run_query_simps [simp, store_simps]:
  "online d \<Longrightarrow> run_query d x = Inr x"
  "\<not> online d \<Longrightarrow> run_query d x = Inl Connection_Error"
  by (simp_all add: run_query_def)

lemma run_query_Inr [dest]: "run_query d x = Inr y \<Longrightarrow> online d \<and> y = x"
  by (simp add: run_query_def split: if_splits)

lemma insert_user_Inr:
  "insert_user n u e h date slug pic d = Inr (i, d') \<Longrightarrow>
     online d \<and> n = 6 \<and> i = next_id d \<and>
     d' = d\<lparr>rows := rows d @ [\<lparr>user_id = i, username = u, email = e, hashPassword = h,
                 registerDate = date, url = slug, verifiedEmail = False,
                 profilePictureSrc = pic\<rparr>], next_id := Suc i\<rparr>"
  by (auto simp: insert_user_def Let_def split: if_splits)

lemma insert_user_wrong_count [store_simps]:
  "online d \<Longrightarrow> n \<noteq> 6 \<Longrightarrow> insert_user n u e h date slug pic d = Inl Wrong_Value_Count"
  by (simp add: insert_user_def)

lemma update_verified_Inr:
  "update_verified i d = Inr (n, d') \<Longrightarrow>
     online d \<and> n = length (filter (\<lambda>r. user_id r = i) (rows d)) \<and>
     d' = d\<lparr>rows := map (\<lambda>r. if user_id r = i then r\<lparr>verifiedEmail := True\<rparr> else r) (rows d)\<rparr>"
  by (auto simp: update_verified_def run_query_def split: if_splits)

subsection \<open>Lemmas on the invariant\<close>

lemma users_wf_insert:
  assumes wf: "users_wf d"
    and fresh_u: "u \<notin> username ` set (rows d)"
    and fresh_e: "e \<notin> email ` set (rows d)"
    and ins: "insert_user n u e h date slug pic d = Inr (i, d')"
  shows "users_wf d'"
proof -
  from ins have d': "d' = d\<lparr>rows := rows d @ [\<lparr>user_id = next_id d, username = u, email = e,
        hashPassword = h, registerDate = date, url = slug, verifiedEmail = False,
        profilePictureSrc = pic\<rparr>], next_id := Suc (next_id d)\<rparr>"
    by (auto dest: insert_user_Inr)
  have "next_id d \<notin> user_id ` set (rows d)"
    using wf by (auto simp: users_wf_def)
  with wf fresh_u fresh_e show ?thesis
    unfolding d' users_wf_def by (auto simp: less_Suc_eq)
qed

lemma map_set_verified_fields:
  "map user_id (map (\<lambda>r. if P r then r\<lparr>verifiedEmail := True\<rparr> else r) xs) = map user_id xs"
  "map username (map (\<lambda>r. if P r then r\<lparr>verifiedEmail := True\<rparr> else r) xs) = map username xs"
  "map email (map (\<lambda>r. if P r then r\<lparr>verifiedEmail := True\<rparr> else r) xs) = map email xs"
  by (induction xs) simp_all

lemma users_wf_update_verified:
  assumes "users_wf d" "update_verified i d = Inr (n, d')"
  shows "users_wf d'"
proof -
  from assms(2) have d': "d' = d\<lparr>rows := map (\<lambda>r. if user_id r = i then r\<lparr>verifiedEmail := True\<rparr> else r) (rows d)\<rparr>"
    by (auto dest: update_verified_Inr)
  have "\<forall>r\<in>set (rows d'). user_id r < next_id d'"
    using assms(1) unfolding d' users_wf_def by auto
  with assms(1) show ?thesis
    unfolding users_wf_def by (simp del: map_map add: d' map_set_verified_fields)
qed

lemma ids_wf_insert:
  assumes "ids_wf d" "insert_user n u e h date slug pic d = Inr (i, d')"
  shows "ids_wf d'"
proof -
  have "next_id d \<notin> user_id ` set (rows d)"
    using assms(1) by (auto simp: ids_wf_def)
  with assms show ?thesis
    by (auto simp: ids_wf_def less_Suc_eq dest!: insert_user_Inr)
qed

lemma ids_wf_update_verified:
  assumes "ids_wf d" "update_verified i d = Inr (n, d')"
  shows "ids_wf d'"
proof -
  from assms(2) have d': "d' = d\<lparr>rows := map (\<lambda>r. if user_id r = i then r\<lparr>verifiedEmail := True\<rparr> else r) (rows d)\<rparr>"
    by (auto dest: update_verified_Inr)
  have "\<forall>r\<in>set (rows d'). user_id r < next_id d'"
    using assms(1) unfolding d' ids_wf_def by auto
  with assms(1) show ?thesis
    unfolding ids_wf_def by (simp del: map_map add: d' map_set_verified_fields)
qed

lemma verified_mono_refl [simp]: "verified_mono d d"
  by (simp add: verified_mono_def row_grows_def list.rel_refl)

lemma verified_mono_insert:
  "insert_user n u e h date slug pic d = Inr (i, d') \<Longrightarrow> verified_mono d d'"
  by (auto simp: verified_mono_def row_grows_def list.rel_refl dest!: insert_user_Inr)

lemma verified_mono_update:
  "update_verified i d = Inr (n, d') \<Longrightarrow> verified_mono d d'"
  by (auto simp: verified_mono_def row_grows_def list.rel_map list.rel_refl dest!: update_verified_Inr)

end
