(* ===== verification/Middleware.thy ===== *)
theory Middleware
  imports Tokens
begin

text \<open>
  The request identity middleware \<open>verifyUserLogged\<close>
  (src/controllers/verifyUserLogged, required by auth.js, projectStats.js and
  projectReviews.js but not part of the staged sources), modelled from the
  specification (section 4.9): it takes the bearer token of the request,
  verifies it with the server secret at the current second, and either rejects
  the request with status 401 before the route runs or passes the decoded
  numeric id on as \<open>req.userId\<close>. The routes that use it are written as
  \<open>case verify_user_logged ... of Inl st \<Rightarrow> (reject with st) | Inr uid \<Rightarrow> ...\<close>.
\<close>

definition verify_user_logged :: "token option \<Rightarrow> string \<Rightarrow> nat \<Rightarrow> status + uid" where
  "verify_user_logged tok key now_ms =
     (case tok of
        None \<Rightarrow> Inl 401
      | Some t \<Rightarrow>
          (case jwt_verify key (secs now_ms) t of
             Inl _ \<Rightarrow> Inl 401
           | Inr c \<Rightarrow> Inr (cl_id c)))"

lemma verify_user_logged_Inr:
  "verify_user_logged tok key now_ms = Inr i \<Longrightarrow>
     \<exists>c. tok = Some (Signed key c) \<and> cl_id c = i \<and>
         (\<forall>e. cl_exp c = Some e \<longrightarrow> secs now_ms < e)"
  by (auto simp: verify_user_logged_def dest!: jwt_verify_Inr split: option.splits sum.splits)

lemma verify_user_logged_Inl:
  "verify_user_logged tok key now_ms = Inl st \<Longrightarrow> st = 401"
  by (auto simp: verify_user_logged_def split: option.splits sum.splits)

lemma verify_user_logged_sign:
  "verify_user_logged (Some (jwt_sign key i t None)) key now_ms = Inr i"
  by (simp add: verify_user_logged_def jwt_verify_sign)

end
