(* ===== verification/Auth_Routes.thy ===== *)
theory Auth_Routes
  imports Js_Strings User_Store Middleware
begin

text \<open>
  The handlers of src/src/routes/auth.js. The server state is the users table,
  the signing secret \<open>process.env.ACCESS_TOKEN_SECRET\<close>, the clock
  \<open>Date.now()\<close> in milliseconds, and the verification e-mails handed to the
  mail service (recipient and code). What the code draws at random or reads
  from the environment is a parameter of the handler: the bcrypt salt, the
  avatar number \<open>Math.floor(Math.random() * 6)\<close>, the date string of
  \<open>toLocaleDateString\<close>, and the Google token-introspection service.
  A handler returns the response it sends and the new state; a thrown error is
  the 500 response of the handler's \<open>catch\<close>. Registration is split at its
  \<open>await\<close> points into the check (validation and \<open>SELECT\<close>) and the
  insertion, so that interleavings can be stated (theory Register_Race).
\<close>

record server =
  db :: users_db
  secret :: string
  clock :: nat
  mailbox :: "(string \<times> token) list"

text \<open>Response bodies: \<open>{ token, userUrl }\<close>, \<open>{ message }\<close>,
  \<open>{ message, errorValues }\<close> (a key mapped to \<open>undefined\<close> is dropped by
  JSON serialisation), \<open>{ message, errorCode }\<close> / \<open>{ message, error }\<close>
  carrying the caught error, a plain text body, and the middleware's
  rejection.\<close>

datatype auth_body =
    Token_Url token string
  | Message string
  | Message_Values string "(string \<times> field) list"
  | Message_Error string js_error
  | Plain string
  | Unauthorized

text \<open>The body of \<open>/login/google\<close>'s introspection call
  (\<open>https://www.googleapis.com/oauth2/v1/tokeninfo\<close>); \<open>None\<close> is a
  response that is not ok.\<close>

record google_user =
  g_email :: string
  g_id :: string

type_synonym google_api = "string \<Rightarrow> google_user option"

definition avatar_path :: "nat \<Rightarrow> string" where
  "avatar_path k = ''uploads/defaultAvatars/'' @ [char_of (48 + k)] @ ''.svg''"

definition now_s :: "server \<Rightarrow> nat" where
  "now_s s = secs (clock s)"

subsection \<open>POST /auth/register\<close>

text \<open>What the check hands to the insertion: the validated fields.\<close>

record reg_pending =
  rp_username :: string
  rp_email :: string
  rp_password :: string

definition register_failed :: "js_error \<Rightarrow> auth_body response" where
  "register_failed err = (500, Message_Error ''Something went wrong during registration!'' err)"

text \<open>Lines 73-108: the field checks in order, then the uniqueness query; a
  row found is reported by comparing the first row's fields.\<close>

definition register_check ::
  "field \<Rightarrow> field \<Rightarrow> field \<Rightarrow> field \<Rightarrow> users_db \<Rightarrow> auth_body response + reg_pending" where
  "register_check username' email' password confirmationPassword d =
     (if \<not> js_truthy username' \<or> \<not> js_truthy email' \<or> \<not> js_truthy password \<or>
         \<not> js_truthy confirmationPassword then
        Inl (400, Message_Values ''All fields are required!''
          [(''username'', if \<not> js_truthy username' then username' else None),
           (''email'', if \<not> js_truthy email' then email' else None),
           (''password'', if \<not> js_truthy password then password else None),
           (''confirmationPassword'',
              if \<not> js_truthy confirmationPassword then confirmationPassword else None)])
      else
        let u = fval username'; e = fval email'; p = fval password;
            cp = fval confirmationPassword
        in if \<not> email_re e then Inl (400, Message_Values ''Invalid email!'' [(''email'', Some e)])
        else if length p < 8 then
          Inl (400, Message_Values ''Password must be at least 8 characters long!''
                 [(''password'', Some p)])
        else if p \<noteq> cp then
          Inl (400, Message_Values ''Passwords do not match!''
                 [(''password'', Some p), (''confirmationPassword'', Some cp)])
        else
          (case select_email_or_username e u d of
             Inl err \<Rightarrow> Inl (register_failed (Db_Error err))
           | Inr [] \<Rightarrow> Inr \<lparr>rp_username = u, rp_email = e, rp_password = p\<rparr>
           | Inr (r # _) \<Rightarrow>
               Inl (400, Message_Values ''User already exists!''
                 [(''username'', if username r = u then Some u else None),
                  (''email'', if email r = e then Some e else None)])))"

text \<open>Lines 109-123: hash, slug, \<open>INSERT\<close> with six placeholders, token.
  The insert reports one affected row whenever it succeeds, so the 500 branch
  of lines 120-121 is not reachable.\<close>

definition register_insert ::
  "reg_pending \<Rightarrow> nat \<Rightarrow> nat \<Rightarrow> string \<Rightarrow> server \<Rightarrow> auth_body response \<times> server" where
  "register_insert pd salt k date s =
     (let h = bun_hash salt (rp_password pd);
          userUrl = user_url (rp_username pd)
      in case insert_user 6 (rp_username pd) (rp_email pd) h date userUrl (avatar_path k) (db s) of
           Inl err \<Rightarrow> (register_failed (Db_Error err), s)
         | Inr (i, d') \<Rightarrow>
             ((201, Token_Url (jwt_sign (secret s) i (now_s s) None) userUrl), s\<lparr>db := d'\<rparr>))"

definition register ::
  "field \<Rightarrow> field \<Rightarrow> field \<Rightarrow> field \<Rightarrow> nat \<Rightarrow> nat \<Rightarrow> string \<Rightarrow> server \<Rightarrow>
   auth_body response \<times> server" where
  "register username' email' password confirmationPassword salt k date s =
     (case register_check username' email' password confirmationPassword (db s) of
        Inl r \<Rightarrow> (r, s)
      | Inr pd \<Rightarrow> register_insert pd salt k date s)"

subsection \<open>POST /auth/login\<close>

definition auth_failed :: "string \<Rightarrow> string \<Rightarrow> auth_body response" where
  "auth_failed u p =
     (401, Message_Values ''Authentication failed'' [(''username'', Some u), (''password'', Some p)])"

definition login_failed :: "js_error \<Rightarrow> auth_body response" where
  "login_failed err = (500, Message_Error ''Something went wrong during login!'' err)"

text \<open>Lines 157-184. Login changes no state.\<close>

definition login :: "field \<Rightarrow> field \<Rightarrow> server \<Rightarrow> auth_body response" where
  "login username' password s =
     (if \<not> js_truthy username' \<or> \<not> js_truthy password then (400, Plain ''All fields are required!'')
      else
        let u = fval username'; p = fval password;
            q = (if login_is_email u then select_by_email u (db s) else select_by_username u (db s))
        in case q of
             Inl err \<Rightarrow> login_failed (Db_Error err)
           | Inr [r] \<Rightarrow>
               (case bun_verify p (hashPassword r) of
                  Inl err \<Rightarrow> login_failed err
                | Inr True \<Rightarrow> (200, Token_Url (jwt_sign (secret s) (user_id r) (now_s s) None) (url r))
                | Inr False \<Rightarrow> auth_failed u p)
           | Inr _ \<Rightarrow> auth_failed u p)"

subsection \<open>POST /auth/login/google\<close>

text \<open>Lines 186-218. An unknown e-mail is registered on the spot with the
  part before \<open>@\<close> as username and Google's id as \<open>hashPassword\<close>; the
  statement has five placeholders for its six columns.\<close>

definition login_google ::
  "field \<Rightarrow> google_api \<Rightarrow> nat \<Rightarrow> string \<Rightarrow> server \<Rightarrow> auth_body response \<times> server" where
  "login_google token api k date s =
     (if \<not> js_truthy token then ((400, Plain ''No access_token sended!''), s)
      else case api (fval token) of
        None \<Rightarrow> ((401, Plain ''Invalid access_token!''), s)
      | Some g \<Rightarrow>
          (case select_by_email (g_email g) (db s) of
             Inl err \<Rightarrow> (login_failed (Db_Error err), s)
           | Inr [r] \<Rightarrow> ((200, Token_Url (jwt_sign (secret s) (user_id r) (now_s s) None) (url r)), s)
           | Inr _ \<Rightarrow>
               let u = split_at_first (CHR ''@'') (g_email g);
                   userUrl = user_url u
               in case insert_user 5 u (g_email g) (Raw (g_id g)) date userUrl (avatar_path k) (db s) of
                    Inl err \<Rightarrow> (login_failed (Db_Error err), s)
                  | Inr (i, d') \<Rightarrow>
                      ((201, Token_Url (jwt_sign (secret s) i (now_s s) None) userUrl), s\<lparr>db := d'\<rparr>)))"

subsection \<open>POST /auth/verifyEmail and GET /auth/verifyEmail/:code\<close>

text \<open>\<open>resend.emails.send({ to: [rows[0].email], html: ... code ... })\<close>
  (lines 227-233): the message for the recipient carrying the code is handed
  to the mail service, modelled as appended to the server's mailbox. The call
  returns a promise that is not awaited, so the destructured \<open>error\<close> is
  always \<open>undefined\<close>: nothing of the delivery comes back to the route.\<close>

definition resend_send :: "string \<Rightarrow> token \<Rightarrow> server \<Rightarrow> server" where
  "resend_send to code s = s\<lparr>mailbox := mailbox s @ [(to, code)]\<rparr>"

text \<open>Lines 220-241, behind the middleware. The route has no \<open>try\<close>: a
  failing query is an unhandled rejection and no response is sent
  (\<open>None\<close>). \<open>if (!code)\<close> never holds (a signed token is a non-empty string),
  and \<open>resend.emails.send\<close> is not awaited, so \<open>error\<close>, destructured from a
  promise, is always undefined: the mail is handed over and 200 follows.\<close>

definition verify_email_request :: "uid \<Rightarrow> server \<Rightarrow> auth_body response option \<times> server" where
  "verify_email_request i s =
     (case select_by_id i (db s) of
        Inl _ \<Rightarrow> (None, s)
      | Inr [r] \<Rightarrow>
          let code = jwt_sign (secret s) i (now_s s) (Some 3600)
          in (Some (200, Message ''Verification email sent!''), resend_send (email r) code s)
      | Inr _ \<Rightarrow> (Some (404, Message ''User not found!''), s))"

definition verify_email_post :: "token option \<Rightarrow> server \<Rightarrow> auth_body response option \<times> server" where
  "verify_email_post tok s =
     (case verify_user_logged tok (secret s) (clock s) of
        Inl st \<Rightarrow> (Some (st, Unauthorized), s)
      | Inr i \<Rightarrow> verify_email_request i s)"

text \<open>\<open>decoded.exp < Date.now() / 1000\<close> (line 247), exactly, on integers:
  an absent \<open>exp\<close> compares false.\<close>

definition code_expired :: "claims \<Rightarrow> nat \<Rightarrow> bool" where
  "code_expired c now_ms = (case cl_exp c of None \<Rightarrow> False | Some e \<Rightarrow> e * 1000 < now_ms)"

definition verify_failed :: "js_error \<Rightarrow> auth_body response" where
  "verify_failed err = (500, Message_Error ''Error verifying email!'' err)"

text \<open>Lines 243-258. The clock is read twice: \<open>jwt.verify\<close> reads
  \<open>Date.now()\<close> for its own expiry test, and line 247 reads it again; \<open>dt\<close> is
  the number of milliseconds between the two reads. When no row matched,
  line 252 reads the undeclared \<open>err\<close> while building its response; the
  ReferenceError is caught by the handler's own \<open>catch\<close>, which answers
  500.\<close>

definition verify_email_code :: "token \<Rightarrow> nat \<Rightarrow> server \<Rightarrow> auth_body response \<times> server" where
  "verify_email_code code dt s =
     (case jwt_verify (secret s) (now_s s) code of
        Inl err \<Rightarrow> (verify_failed (Jwt_Error err), s)
      | Inr c \<Rightarrow>
          if code_expired c (clock s + dt) then ((400, Message ''Token expired!''), s)
          else (case update_verified (cl_id c) (db s) of
                  Inl err \<Rightarrow> (verify_failed (Db_Error err), s)
                | Inr (n, d') \<Rightarrow>
                    if n = 0 then (verify_failed (Reference_Error ''err''), s\<lparr>db := d'\<rparr>)
                    else ((200, Message ''Email verified!''), s\<lparr>db := d'\<rparr>)))"

lemma resend_send_simps [simp]:
  "db (resend_send to code s) = db s"
  "secret (resend_send to code s) = secret s"
  "clock (resend_send to code s) = clock s"
  "mailbox (resend_send to code s) = mailbox s @ [(to, code)]"
  by (simp_all add: resend_send_def)

lemmas auth_handler_defs [handler_defs] =
  register_def register_check_def register_insert_def login_def login_google_def
  verify_email_request_def verify_email_post_def verify_email_code_def

end
