(* ===== verification/Auth_Register.thy ===== *)
theory Auth_Register
  imports Auth_Routes
begin

text \<open>
  Properties of \<open>POST /auth/register\<close> (src/src/routes/auth.js, lines
  71-129): the check accepts exactly valid, fresh input; a successful
  registration appends one row and answers 201 with a token for the new id;
  every rejection leaves the state alone; the uniqueness invariant of the
  users table is kept. \<open>sample_server\<close> is a one-account state the witnesses
  run on.
\<close>

definition new_row :: "reg_pending \<Rightarrow> nat \<Rightarrow> nat \<Rightarrow> string \<Rightarrow> uid \<Rightarrow> user_row" where
  "new_row pd salt k date i =
     \<lparr>user_id = i, username = rp_username pd, email = rp_email pd,
      hashPassword = bun_hash salt (rp_password pd), registerDate = date,
      url = user_url (rp_username pd), verifiedEmail = False, profilePictureSrc = avatar_path k\<rparr>"

definition alice_row :: user_row where
  "alice_row =
     \<lparr>user_id = 1, username = ''alice'', email = ''a@b.com'', hashPassword = bun_hash 7 ''longpass1'',
      registerDate = ''01/01/2024'', url = ''alice'', verifiedEmail = False,
      profilePictureSrc = avatar_path 0\<rparr>"

definition sample_server :: server where
  "sample_server =
     \<lparr>db = \<lparr>rows = [alice_row], next_id = 2, online = True\<rparr>, secret = ''k'',
      clock = 1000000, mailbox = []\<rparr>"

subsection \<open>The check\<close>

lemma register_check_Inr:
  assumes "register_check u e p cp d = Inr pd"
  shows "js_truthy u \<and> js_truthy e \<and> js_truthy p \<and> js_truthy cp \<and>
    email_re (fval e) \<and> 8 \<le> length (fval p) \<and> fval p = fval cp \<and> online d \<and>
    fval u \<notin> username ` set (rows d) \<and> fval e \<notin> email ` set (rows d) \<and>
    pd = \<lparr>rp_username = fval u, rp_email = fval e, rp_password = fval p\<rparr>"
  using assms
  by (auto simp: register_check_def select_email_or_username_def run_query_def Let_def
      filter_empty_conv_all split: if_splits sum.splits list.splits)

lemma register_check_fresh:
  assumes "js_truthy u" "js_truthy e" "js_truthy p" "js_truthy cp"
    "email_re (fval e)" "8 \<le> length (fval p)" "fval p = fval cp" "online d"
    "fval u \<notin> username ` set (rows d)" "fval e \<notin> email ` set (rows d)"
  shows "register_check u e p cp d =
    Inr \<lparr>rp_username = fval u, rp_email = fval e, rp_password = fval p\<rparr>"
proof -
  have "filter (\<lambda>r. email r = fval e \<or> username r = fval u) (rows d) = []"
    using assms(9,10) by (force simp: filter_empty_conv_all)
  with assms show ?thesis
    by (simp add: register_check_def select_email_or_username_def Let_def)
qed

lemma register_Inl:
  "register_check u e p cp (db s) = Inl r \<Longrightarrow> register u e p cp salt k date s = (r, s)"
  by (simp add: register_def)

lemma register_insert_online:
  "online (db s) \<Longrightarrow> register_insert pd salt k date s =
     ((201, Token_Url (jwt_sign (secret s) (next_id (db s)) (now_s s) None) (user_url (rp_username pd))),
      s\<lparr>db := (db s)\<lparr>rows := rows (db s) @ [new_row pd salt k date (next_id (db s))],
                      next_id := Suc (next_id (db s))\<rparr>\<rparr>)"
  by (simp add: register_insert_def insert_user_def new_row_def Let_def)

lemma register_check_Inl_status:
  "register_check u e p cp d = Inl r \<Longrightarrow> fst r = 400 \<or> fst r = 500"
  by (auto simp: register_check_def register_failed_def Let_def split: if_splits sum.splits list.splits)

text \<open>A registration answered 201 went through the check and the insert.\<close>

lemma register_201:
  assumes "register u e p cp salt k date s = ((201, Token_Url tok slug), s')"
  shows "\<exists>pd. register_check u e p cp (db s) = Inr pd \<and> online (db s) \<and>
    tok = jwt_sign (secret s) (next_id (db s)) (now_s s) None \<and>
    s' = s\<lparr>db := (db s)\<lparr>rows := rows (db s) @ [new_row pd salt k date (next_id (db s))],
                        next_id := Suc (next_id (db s))\<rparr>\<rparr>"
proof (cases "register_check u e p cp (db s)")
  case (Inl r)
  with assms register_check_Inl_status[OF Inl] show ?thesis by (simp add: register_def)
next
  case (Inr pd)
  show ?thesis
  proof (cases "online (db s)")
    case True
    with Inr assms show ?thesis by (simp add: register_def register_insert_online)
  next
    case False
    with Inr assms show ?thesis
      by (simp add: register_def register_insert_def insert_user_def register_failed_def Let_def)
  qed
qed

subsection \<open>Properties\<close>

lemma register_preserves_wf:
  assumes "users_wf (db s)"
  shows "users_wf (db (snd (register u e p cp salt k date s)))"
proof (cases "register_check u e p cp (db s)")
  case (Inl r)
  with assms show ?thesis by (simp add: register_Inl)
next
  case (Inr pd)
  note ok = register_check_Inr[OF Inr]
  show ?thesis
  proof (cases "insert_user 6 (fval u) (fval e) (bun_hash salt (fval p)) date
                  (user_url (fval u)) (avatar_path k) (db s)")
    case (Inl err)
    with assms Inr ok show ?thesis by (simp add: register_def register_insert_def)
  next
    case (Inr r)
    then obtain i d' where ins: "insert_user 6 (fval u) (fval e) (bun_hash salt (fval p)) date
        (user_url (fval u)) (avatar_path k) (db s) = Inr (i, d')"
      by (cases r) auto
    have "users_wf d'" using users_wf_insert[OF assms _ _ ins] ok by blast
    with ins \<open>register_check u e p cp (db s) = Inr pd\<close> ok show ?thesis
      by (simp add: register_def register_insert_def)
  qed
qed

text \<open>C6: registration keeps the users table well formed: ids distinct and
  below the counter, usernames unique, e-mails unique. (Run one request at a
  time; theory Register_Race shows interleaved requests break it.)\<close>

theorem register_wf:
  assumes "users_wf (db s)"
  shows "users_wf (db (snd (register u e p cp salt k date s)))"
  using assms by (rule register_preserves_wf)

theorem register_wf_witness:
  "users_wf (db sample_server) \<and>
   users_wf (db (snd (register (Some ''alice'') (Some ''c@d.org'') (Some ''password'') (Some ''password'')
                       3 1 ''02/01/2024'' sample_server)))"
proof -
  have h: "users_wf (db sample_server)"
    by (simp add: users_wf_def sample_server_def alice_row_def)
  show ?thesis using h register_wf[OF h] by blast
qed

lemma register_fresh_result:
  assumes "js_truthy u" "js_truthy e" "js_truthy p" "js_truthy cp"
    "email_re (fval e)" "8 \<le> length (fval p)" "fval p = fval cp" "online (db s)"
    "fval u \<notin> username ` set (rows (db s))" "fval e \<notin> email ` set (rows (db s))"
  shows "register u e p cp salt k date s =
     ((201, Token_Url (jwt_sign (secret s) (next_id (db s)) (now_s s) None) (user_url (fval u))),
      s\<lparr>db := (db s)\<lparr>rows := rows (db s) @
           [new_row \<lparr>rp_username = fval u, rp_email = fval e, rp_password = fval p\<rparr>
              salt k date (next_id (db s))],
         next_id := Suc (next_id (db s))\<rparr>\<rparr>)"
  using register_check_fresh[OF assms] assms(8)
  by (simp add: register_def register_insert_online)

text \<open>C7: a successful registration: for valid, fresh input on a reachable
  database, the answer is 201 with a token signed for the next id and the slug
  of the username, and the only change is the new row appended with the
  bcrypt digest of the password, \<open>verifiedEmail\<close> false. This contradicts
  the route's Swagger comment (lines 59-65), which documents success as 200
  with an array of \<open>NewUser\<close>.\<close>

theorem register_success:
  assumes "js_truthy u" "js_truthy e" "js_truthy p" "js_truthy cp"
    "email_re (fval e)" "8 \<le> length (fval p)" "fval p = fval cp" "online (db s)"
    "fval u \<notin> username ` set (rows (db s))" "fval e \<notin> email ` set (rows (db s))"
  shows "register u e p cp salt k date s =
     ((201, Token_Url (jwt_sign (secret s) (next_id (db s)) (now_s s) None) (user_url (fval u))),
      s\<lparr>db := (db s)\<lparr>rows := rows (db s) @
           [new_row \<lparr>rp_username = fval u, rp_email = fval e, rp_password = fval p\<rparr>
              salt k date (next_id (db s))],
         next_id := Suc (next_id (db s))\<rparr>\<rparr>)"
  using assms by (rule register_fresh_result)

theorem register_success_witness:
  "fst (fst (register (Some ''bob'') (Some ''c@d.org'') (Some ''password'') (Some ''password'')
              3 1 ''02/01/2024'' sample_server)) = 201"
proof -
  have "email_re ''c@d.org''" by (simp add: email_re_def re_plain_def is_js_space_def)
  then show ?thesis
    using register_success[of "Some ''bob''" "Some ''c@d.org''" "Some ''password''"
        "Some ''password''" sample_server 3 1 "''02/01/2024''"]
    by (simp add: sample_server_def alice_row_def)
qed

text \<open>C8: registering an e-mail that is already in use, with a username that
  is not, is rejected with 400 "User already exists!", the e-mail flagged and
  the username not, and nothing is written.\<close>

theorem register_duplicate_email:
  assumes "js_truthy u" "js_truthy e" "js_truthy p" "js_truthy cp"
    "email_re (fval e)" "8 \<le> length (fval p)" "fval p = fval cp" "online (db s)"
    "fval e \<in> email ` set (rows (db s))" "fval u \<notin> username ` set (rows (db s))"
  shows "register u e p cp salt k date s =
     ((400, Message_Values ''User already exists!'' [(''username'', None), (''email'', Some (fval e))]), s)"
proof -
  have f: "filter (\<lambda>r. email r = fval e \<or> username r = fval u) (rows (db s)) =
           filter (\<lambda>r. email r = fval e) (rows (db s))"
    using assms(10) by (intro filter_cong) (auto simp: image_iff)
  obtain r rs where hd: "filter (\<lambda>r. email r = fval e) (rows (db s)) = r # rs"
    using assms(9) by (cases "filter (\<lambda>r. email r = fval e) (rows (db s))")
      (auto simp: filter_empty_conv_all)
  then have "r \<in> set (filter (\<lambda>r. email r = fval e) (rows (db s)))" by simp
  then have r: "email r = fval e" "username r \<noteq> fval u"
    using assms(10) by (auto simp: image_iff)
  show ?thesis
    using assms(1-8) f hd r
    by (simp add: register_def register_check_def select_email_or_username_def Let_def)
qed

theorem register_duplicate_email_witness:
  "register (Some ''bob'') (Some ''a@b.com'') (Some ''longpass1'') (Some ''longpass1'') 3 1 ''02/01/2024''
     sample_server =
   ((400, Message_Values ''User already exists!'' [(''username'', None), (''email'', Some ''a@b.com'')]),
    sample_server)"
proof -
  have "email_re ''a@b.com''" by (simp add: email_re_def re_plain_def is_js_space_def)
  then show ?thesis
    using register_duplicate_email[of "Some ''bob''" "Some ''a@b.com''" "Some ''longpass1''"
        "Some ''longpass1''" sample_server 3 1 "''02/01/2024''"]
    by (simp add: sample_server_def alice_row_def)
qed

text \<open>A password shorter than eight characters is never accepted: whatever
  the other fields hold, the answer is 400 and the state is unchanged.\<close>

theorem register_short_password:
  "length (fval p) < 8 \<Longrightarrow> \<exists>b. register u e p cp salt k date s = ((400, b), s)"
  by (auto simp: register_def register_check_def Let_def)

theorem register_short_password_witness:
  "\<exists>b. register (Some ''bob'') (Some ''c@d.org'') (Some ''short'') (Some ''short'') 3 1 ''02/01/2024''
         sample_server = ((400, b), sample_server)"
  by (rule register_short_password) simp


text \<open>On a well-formed table, when the username belongs to one row and the
  e-mail to another, the first row matching either matches exactly one.\<close>

lemma wf_first_match_one_field:
  assumes "users_wf (db s)" "a \<in> set (rows (db s))" "b \<in> set (rows (db s))"
    "username a = u" "email b = e" "a \<noteq> b"
  shows "\<exists>r rs. filter (\<lambda>r. email r = e \<or> username r = u) (rows (db s)) = r # rs \<and>
     r \<in> set (rows (db s)) \<and> (email r = e \<or> username r = u) \<and> \<not> (email r = e \<and> username r = u)"
proof -
  let ?P = "\<lambda>r. email r = e \<or> username r = u"
  have "filter ?P (rows (db s)) \<noteq> []"
    using assms(3,5) by (simp add: filter_empty_conv_all) blast
  then obtain r rs where hd: "filter ?P (rows (db s)) = r # rs"
    by (cases "filter ?P (rows (db s))") simp_all
  have "r \<in> set (filter ?P (rows (db s)))" using hd by simp
  then have r: "r \<in> set (rows (db s))" "?P r" by simp_all
  have inj: "inj_on username (set (rows (db s)))" "inj_on email (set (rows (db s)))"
    using assms(1) by (simp_all add: users_wf_def distinct_map)
  have "\<not> (email r = e \<and> username r = u)"
  proof
    assume eu: "email r = e \<and> username r = u"
    have "r = a" using inj_onD[OF inj(1)] r(1) assms(2,4) eu by simp
    moreover have "r = b" using inj_onD[OF inj(2)] r(1) assms(3,5) eu by simp
    ultimately show False using assms(6) by simp
  qed
  with hd r show ?thesis by blast
qed

text \<open>C9: the duplicate report compares only the first row the query
  returns. When, on a well-formed table, the username belongs to one account
  and the e-mail to another, both fields collide, yet the answer flags exactly
  one of them, whichever row comes first, and nothing is written.\<close>

theorem register_reports_first_row_only:
  assumes "js_truthy u" "js_truthy e" "js_truthy p" "js_truthy cp"
    "email_re (fval e)" "8 \<le> length (fval p)" "fval p = fval cp" "online (db s)"
    "users_wf (db s)" "a \<in> set (rows (db s))" "b \<in> set (rows (db s))"
    "username a = fval u" "email b = fval e" "a \<noteq> b"
  shows "register u e p cp salt k date s \<in>
    {((400, Message_Values ''User already exists!'' [(''username'', Some (fval u)), (''email'', None)]), s),
     ((400, Message_Values ''User already exists!'' [(''username'', None), (''email'', Some (fval e))]), s)}"
proof -
  obtain r rs where hd: "filter (\<lambda>r. email r = fval e \<or> username r = fval u) (rows (db s)) = r # rs"
    and r: "email r = fval e \<or> username r = fval u" "\<not> (email r = fval e \<and> username r = fval u)"
    using wf_first_match_one_field[OF assms(9-14)] by blast
  have "register u e p cp salt k date s =
      ((400, Message_Values ''User already exists!''
         [(''username'', if username r = fval u then Some (fval u) else None),
          (''email'', if email r = fval e then Some (fval e) else None)]), s)"
    using assms(1-8) hd by (simp add: register_def register_check_def select_email_or_username_def)
  then show ?thesis using r by auto
qed

theorem register_reports_first_row_only_witness:
  "register (Some ''alice'') (Some ''c@d.org'') (Some ''longpass1'') (Some ''longpass1'') 3 1 ''x''
     (sample_server\<lparr>db := (db sample_server)\<lparr>rows := [alice_row, alice_row\<lparr>user_id := 2,
        username := ''carol'', email := ''c@d.org''\<rparr>], next_id := 3\<rparr>\<rparr>) \<in>
   {((400, Message_Values ''User already exists!'' [(''username'', Some ''alice''), (''email'', None)]),
     sample_server\<lparr>db := (db sample_server)\<lparr>rows := [alice_row, alice_row\<lparr>user_id := 2,
        username := ''carol'', email := ''c@d.org''\<rparr>], next_id := 3\<rparr>\<rparr>),
    ((400, Message_Values ''User already exists!'' [(''username'', None), (''email'', Some ''c@d.org'')]),
     sample_server\<lparr>db := (db sample_server)\<lparr>rows := [alice_row, alice_row\<lparr>user_id := 2,
        username := ''carol'', email := ''c@d.org''\<rparr>], next_id := 3\<rparr>\<rparr>)}"
proof -
  have "email_re ''c@d.org''" by (simp add: email_re_def re_plain_def is_js_space_def)
  then show ?thesis
    using register_reports_first_row_only[of "Some ''alice''" "Some ''c@d.org''" "Some ''longpass1''"
        "Some ''longpass1''" "sample_server\<lparr>db := (db sample_server)\<lparr>rows := [alice_row, alice_row\<lparr>user_id := 2,
        username := ''carol'', email := ''c@d.org''\<rparr>], next_id := 3\<rparr>\<rparr>" alice_row
        "alice_row\<lparr>user_id := 2, username := ''carol'', email := ''c@d.org''\<rparr>" 3 1 "''x''"]
    by (simp add: sample_server_def alice_row_def users_wf_def)
qed

end
