(* ===== verification/Auth_Login.thy ===== *)
theory Auth_Login
  imports Auth_Register
begin

text \<open>
  Properties of \<open>POST /auth/login\<close> (src/src/routes/auth.js, lines 157-184)
  and \<open>POST /auth/login/google\<close> (lines 186-218): a unique matching row with
  the right password logs in; every authentication failure has the same
  answer, whatever the database holds; a username shaped like an e-mail is
  looked up as an e-mail; the federated route logs in a known e-mail and
  cannot create an account for an unknown one.
\<close>

definition bob_server :: server where
  "bob_server = sample_server\<lparr>db := (db sample_server)\<lparr>rows :=
     [alice_row\<lparr>user_id := 2, username := ''bob@x.io'', email := ''b@c.de''\<rparr>]\<rparr>\<rparr>"

definition google_stub :: google_api where
  "google_stub t = (if t = ''tok'' then Some \<lparr>g_email = ''new@gmail.com'', g_id = ''1234''\<rparr> else None)"

subsection \<open>Local login\<close>

lemma login_email_single:
  assumes "login_is_email x" "filter (\<lambda>r. email r = x) (rows (db s)) = [r]" "online (db s)"
    "hashPassword r = bun_hash salt p" "p \<noteq> []" "x \<noteq> []"
  shows "login (Some x) (Some p) s =
    (200, Token_Url (jwt_sign (secret s) (user_id r) (now_s s) None) (url r))"
  using assms by (simp add: login_def select_by_email_def)

lemma login_username_single:
  assumes "\<not> login_is_email x" "filter (\<lambda>r. username r = x) (rows (db s)) = [r]" "online (db s)"
    "hashPassword r = bun_hash salt p" "p \<noteq> []" "x \<noteq> []"
  shows "login (Some x) (Some p) s =
    (200, Token_Url (jwt_sign (secret s) (user_id r) (now_s s) None) (url r))"
  using assms by (simp add: login_def select_by_username_def)

lemma login_status_401:
  "fst (login u p s) = 401 \<Longrightarrow> login u p s = auth_failed (fval u) (fval p)"
  by (auto simp: login_def login_failed_def auth_failed_def Let_def
      split: if_splits sum.splits list.splits bool.splits)

text \<open>C10: authentication failures do not reveal whether the account exists:
  two login attempts with the same fields that both fail with 401 get the same
  answer, whatever the two databases hold (no such user, several rows, or a
  wrong password). The answer echoes the submitted fields.\<close>

theorem login_failure_uniform:
  assumes "fst (login u p s) = 401" "fst (login u p s') = 401"
  shows "login u p s = login u p s' \<and> login u p s = auth_failed (fval u) (fval p)"
  using login_status_401[OF assms(1)] login_status_401[OF assms(2)] by simp

theorem login_failure_uniform_witness:
  "login (Some ''alice'') (Some ''wrongpass'') sample_server =
   login (Some ''alice'') (Some ''wrongpass'') bob_server \<and>
   login (Some ''alice'') (Some ''wrongpass'') sample_server =
     auth_failed ''alice'' ''wrongpass''"
proof -
  have a: "fst (login (Some ''alice'') (Some ''wrongpass'') sample_server) = 401"
    by (simp add: login_def login_is_email_def select_by_username_def sample_server_def
        alice_row_def auth_failed_def)
  have b: "fst (login (Some ''alice'') (Some ''wrongpass'') bob_server) = 401"
    by (simp add: login_def login_is_email_def select_by_username_def bob_server_def
        sample_server_def alice_row_def auth_failed_def)
  from login_failure_uniform[OF a b] show ?thesis unfolding fval_Some .
qed

text \<open>C11: login takes any username that its \<open>isValidEmail\<close> test reads
  as an e-mail (an \<open>@\<close> followed later by a dot) for an e-mail: unless it
  is also some account's e-mail, the answer is 401 whatever the password. An
  account registered with such a username (registration checks only the
  e-mail field) can therefore never log in by its username.\<close>

theorem login_email_shaped_username:
  assumes "js_truthy u" "js_truthy p" "login_is_email (fval u)" "online (db s)"
    "fval u \<notin> email ` set (rows (db s))"
  shows "login u p s = auth_failed (fval u) (fval p)"
proof -
  have "filter (\<lambda>r. email r = fval u) (rows (db s)) = []"
    using assms(5) by (force simp: filter_empty_conv_all)
  with assms(1-4) show ?thesis
    by (simp add: login_def select_by_email_def)
qed

theorem login_email_shaped_username_witness:
  "login (Some ''bob@x.io'') (Some ''longpass1'') bob_server = auth_failed ''bob@x.io'' ''longpass1''"
proof -
  have "login_is_email ''bob@x.io''" by (simp add: login_is_email_def index_of_def last_index_of_def)
  then show ?thesis
    using login_email_shaped_username[of "Some ''bob@x.io''" "Some ''longpass1''" bob_server]
    by (simp add: bob_server_def sample_server_def alice_row_def)
qed

subsection \<open>Federated login\<close>

lemma login_google_known:
  assumes "js_truthy t" "api (fval t) = Some g" "online (db s)"
    "filter (\<lambda>r. email r = g_email g) (rows (db s)) = [r]"
  shows "login_google t api k date s =
    ((200, Token_Url (jwt_sign (secret s) (user_id r) (now_s s) None) (url r)), s)"
  using assms by (simp add: login_google_def select_by_email_def)

text \<open>C12: federated login of an e-mail with no account (or, against the
  invariant, several) never registers it: the \<open>INSERT\<close> names six columns and
  carries five placeholders, MySQL rejects it, and the route answers 500 with
  the database error and writes nothing, although the specification promises
  that a first federated login creates the account.\<close>

theorem login_google_unknown_fails:
  assumes "js_truthy t" "api (fval t) = Some g" "online (db s)"
    "length (filter (\<lambda>r. email r = g_email g) (rows (db s))) \<noteq> 1"
  shows "login_google t api k date s = (login_failed (Db_Error Wrong_Value_Count), s)"
proof -
  have "\<forall>r. filter (\<lambda>r. email r = g_email g) (rows (db s)) \<noteq> [r]"
    using assms(4) by auto
  with assms(1-3) show ?thesis
    by (auto simp: login_google_def select_by_email_def Let_def insert_user_wrong_count
        split: list.splits)
qed

theorem login_google_unknown_fails_witness:
  "login_google (Some ''tok'') google_stub 0 ''x'' sample_server =
   (login_failed (Db_Error Wrong_Value_Count), sample_server)"
proof (rule login_google_unknown_fails)
  show "google_stub (fval (Some ''tok'')) = Some \<lparr>g_email = ''new@gmail.com'', g_id = ''1234''\<rparr>"
    by (simp add: google_stub_def)
  show "length (filter (\<lambda>r. email r = g_email \<lparr>g_email = ''new@gmail.com'', g_id = ''1234''\<rparr>)
      (rows (db sample_server))) \<noteq> 1"
    by (simp add: sample_server_def alice_row_def)
qed (simp_all add: sample_server_def)

end
