(* ===== verification/Auth_Verify.thy ===== *)
theory Auth_Verify
  imports Auth_Login
begin

text \<open>
  Properties of the e-mail verification handshake (src/src/routes/auth.js,
  lines 220-258): the request hands a one-hour code to the mail service; the
  code, redeemed within the hour, sets \<open>verifiedEmail\<close> and redeeming again
  changes nothing; an expired code is refused without a write. The route's own
  expiry test on line 247 fires only when the expiry instant falls between the
  two clock reads of the route, and any token the server signs is accepted as
  a code, including the non-expiring token of a registration.
\<close>

definition set_verified :: "uid \<Rightarrow> users_db \<Rightarrow> users_db" where
  "set_verified i d =
     d\<lparr>rows := map (\<lambda>r. if user_id r = i then r\<lparr>verifiedEmail := True\<rparr> else r) (rows d)\<rparr>"

subsection \<open>Lemmas\<close>

lemma secs_less_imp: "secs now < e \<Longrightarrow> now < e * 1000"
  by (simp add: secs_def div_less_iff_less_mult)

lemma update_verified_online:
  "online d \<Longrightarrow>
   update_verified i d = Inr (length (filter (\<lambda>r. user_id r = i) (rows d)), set_verified i d)"
  by (simp add: update_verified_def set_verified_def)

lemma set_verified_idem [simp]: "set_verified i (set_verified i d) = set_verified i d"
  by (simp add: set_verified_def comp_def cong: if_cong)

lemma set_verified_online [simp]: "online (set_verified i d) = online d"
  by (simp add: set_verified_def)

lemma filter_id_nonempty: "i \<in> user_id ` set xs \<Longrightarrow> filter (\<lambda>r. user_id r = i) xs \<noteq> []"
  by (auto simp: filter_empty_conv_all)

lemma filter_id_set_verified:
  "length (filter (\<lambda>r. user_id r = i)
      (map (\<lambda>r. if user_id r = i then r\<lparr>verifiedEmail := True\<rparr> else r) xs))
   = length (filter (\<lambda>r. user_id r = i) xs)"
  by (induction xs) auto

lemma set_verified_count:
  "length (filter (\<lambda>r. user_id r = i) (rows (set_verified i d))) =
   length (filter (\<lambda>r. user_id r = i) (rows d))"
  using filter_id_set_verified[of i "rows d"] by (simp add: set_verified_def del: filter_map)

lemma verify_email_request_single:
  "filter (\<lambda>r. user_id r = i) (rows (db s)) = [r] \<Longrightarrow> online (db s) \<Longrightarrow>
   verify_email_request i s =
     (Some (200, Message ''Verification email sent!''),
      s\<lparr>mailbox := mailbox s @ [(email r, jwt_sign (secret s) i (now_s s) (Some 3600))]\<rparr>)"
  by (simp add: verify_email_request_def select_by_id_def)

subsection \<open>Properties\<close>

lemma verify_code_redeem:
  assumes "jwt_verify (secret s) (now_s s) code = Inr c" "\<not> code_expired c (clock s + dt)"
    "online (db s)" "cl_id c \<in> user_id ` set (rows (db s))"
  shows "verify_email_code code dt s =
      ((200, Message ''Email verified!''), s\<lparr>db := set_verified (cl_id c) (db s)\<rparr>) \<and>
    verify_email_code code dt (s\<lparr>db := set_verified (cl_id c) (db s)\<rparr>) =
      ((200, Message ''Email verified!''), s\<lparr>db := set_verified (cl_id c) (db s)\<rparr>)"
proof -
  have ne: "filter (\<lambda>r. user_id r = cl_id c) (rows (db s)) \<noteq> []"
    using filter_id_nonempty[OF assms(4)] .
  show ?thesis
    using assms(1-3) ne
    by (simp add: verify_email_code_def update_verified_online now_s_def set_verified_count)
qed

lemma code_expired_iff:
  "jwt_verify key (secs t) tok = Inr c \<Longrightarrow>
   code_expired c (t + dt) \<longleftrightarrow> (\<exists>e. cl_exp c = Some e \<and> t < e * 1000 \<and> e * 1000 < t + dt)"
  by (auto simp: code_expired_def dest!: jwt_verify_Inr secs_less_imp split: option.splits)

text \<open>C13: redeeming a code the server signed, on an account that exists,
  answers 200 and sets \<open>verifiedEmail\<close> on that account and nothing else;
  redeeming the same code again answers 200 and leaves the table as it is.\<close>

theorem verify_code_sets_verified:
  assumes "jwt_verify (secret s) (now_s s) code = Inr c" "\<not> code_expired c (clock s + dt)"
    "online (db s)" "cl_id c \<in> user_id ` set (rows (db s))"
  shows "verify_email_code code dt s =
      ((200, Message ''Email verified!''), s\<lparr>db := set_verified (cl_id c) (db s)\<rparr>) \<and>
    verify_email_code code dt (s\<lparr>db := set_verified (cl_id c) (db s)\<rparr>) =
      ((200, Message ''Email verified!''), s\<lparr>db := set_verified (cl_id c) (db s)\<rparr>)"
  using assms by (rule verify_code_redeem)

theorem verify_code_sets_verified_witness:
  "verify_email_code (jwt_sign ''k'' 1 999 (Some 3600)) 5 sample_server =
   ((200, Message ''Email verified!''), sample_server\<lparr>db := set_verified 1 (db sample_server)\<rparr>)"
proof -
  have v: "jwt_verify (secret sample_server) (now_s sample_server) (jwt_sign ''k'' 1 999 (Some 3600)) =
      Inr \<lparr>cl_id = 1, cl_iat = 999, cl_exp = Some 4599\<rparr>"
    by (simp add: jwt_verify_sign sample_server_def now_s_def secs_def)
  have x: "\<not> code_expired \<lparr>cl_id = 1, cl_iat = 999, cl_exp = Some 4599\<rparr> (clock sample_server + 5)"
    by (simp add: code_expired_def sample_server_def)
  from verify_code_sets_verified[OF v x] show ?thesis
    by (simp add: sample_server_def alice_row_def)
qed

text \<open>C14: a verification code redeemed once its hour has passed is refused
  with 500 (the library's \<open>TokenExpiredError\<close>, caught) and the table is not
  written.\<close>

theorem verify_code_expired:
  assumes "t + 3600 \<le> now_s s"
  shows "verify_email_code (jwt_sign (secret s) i t (Some 3600)) dt s =
    (verify_failed (Jwt_Error TokenExpiredError), s)"
  using assms by (simp add: verify_email_code_def jwt_verify_sign)

theorem verify_code_expired_witness:
  "verify_email_code (jwt_sign ''k'' 1 0 (Some 3600)) 0 (sample_server\<lparr>clock := 3600000\<rparr>) =
   (verify_failed (Jwt_Error TokenExpiredError), sample_server\<lparr>clock := 3600000\<rparr>)"
proof -
  have "0 + 3600 \<le> now_s (sample_server\<lparr>clock := 3600000\<rparr>)"
    by (simp add: now_s_def secs_def)
  from verify_code_expired[OF this, of 1 0] show ?thesis
    by (simp add: sample_server_def)
qed

text \<open>C15: the route's own expiry test \<open>decoded.exp < Date.now() / 1000\<close>
  answers 400 "Token expired!" exactly when the expiry instant of a code that
  \<open>jwt.verify\<close> accepted falls strictly between the library's clock read and
  the route's, a window of the few milliseconds between them; at any other
  time an expired code is the library's 500.\<close>

theorem code_expired_window:
  assumes "jwt_verify (secret s) (now_s s) code = Inr c"
  shows "fst (verify_email_code code dt s) = (400, Message ''Token expired!'') \<longleftrightarrow>
    (\<exists>e. cl_exp c = Some e \<and> clock s < e * 1000 \<and> e * 1000 < clock s + dt)"
proof -
  have "code_expired c (clock s + dt) \<longleftrightarrow>
      (\<exists>e. cl_exp c = Some e \<and> clock s < e * 1000 \<and> e * 1000 < clock s + dt)"
    using code_expired_iff assms by (simp add: now_s_def)
  with assms show ?thesis
    by (auto simp: verify_email_code_def verify_failed_def split: sum.splits if_splits)
qed

theorem code_expired_window_witness:
  "fst (verify_email_code (jwt_sign ''k'' 1 999 (Some 3600)) 2 (sample_server\<lparr>clock := 4598999\<rparr>)) =
     (400, Message ''Token expired!'')"
proof -
  have h: "jwt_verify (secret (sample_server\<lparr>clock := 4598999\<rparr>)) (now_s (sample_server\<lparr>clock := 4598999\<rparr>))
      (jwt_sign ''k'' 1 999 (Some 3600)) = Inr \<lparr>cl_id = 1, cl_iat = 999, cl_exp = Some 4599\<rparr>"
    by (simp add: jwt_verify_sign secs_def now_s_def sample_server_def)
  show ?thesis using code_expired_window[OF h, of 2] by simp
qed

text \<open>C16: the redemption route accepts any token signed with the server
  secret, not only verification codes: the token a registration answers with,
  which has no expiry, marks the new account's e-mail verified at any time and
  whatever the delay between the clock reads, although no e-mail was ever
  sent.\<close>

theorem login_token_verifies_email:
  assumes "register u e p cp salt k date s = ((201, Token_Url tok slug), s')"
  shows "mailbox s' = mailbox s \<and>
    verify_email_code tok dt (s'\<lparr>clock := now\<rparr>) =
      ((200, Message ''Email verified!''), s'\<lparr>clock := now, db := set_verified (next_id (db s)) (db s')\<rparr>)"
proof -
  obtain pd where reg: "register_check u e p cp (db s) = Inr pd" and ok: "online (db s)"
    and tk: "tok = jwt_sign (secret s) (next_id (db s)) (now_s s) None"
    and s': "s' = s\<lparr>db := (db s)\<lparr>rows := rows (db s) @ [new_row pd salt k date (next_id (db s))],
                      next_id := Suc (next_id (db s))\<rparr>\<rparr>"
    using register_201[OF assms(1)] by blast
  have v: "jwt_verify (secret (s'\<lparr>clock := now\<rparr>)) (now_s (s'\<lparr>clock := now\<rparr>)) tok =
      Inr \<lparr>cl_id = next_id (db s), cl_iat = now_s s, cl_exp = None\<rparr>"
    using s' tk by (simp add: jwt_verify_sign)
  have mem: "next_id (db s) \<in> user_id ` set (rows (db (s'\<lparr>clock := now\<rparr>)))"
    using s' by (simp add: new_row_def)
  have nx: "\<not> code_expired \<lparr>cl_id = next_id (db s), cl_iat = now_s s, cl_exp = None\<rparr>
      (clock (s'\<lparr>clock := now\<rparr>) + dt)"
    by (simp add: code_expired_def)
  from verify_code_redeem[OF v nx] ok s' mem
  show ?thesis by simp
qed

theorem login_token_verifies_email_witness:
  "verify_email_code (jwt_sign ''k'' 2 1000 None) 7
      ((snd (register (Some ''bob'') (Some ''c@d.org'') (Some ''password'') (Some ''password'')
              3 1 ''02/01/2024'' sample_server))\<lparr>clock := 9000000\<rparr>) =
   ((200, Message ''Email verified!''),
    (snd (register (Some ''bob'') (Some ''c@d.org'') (Some ''password'') (Some ''password'')
              3 1 ''02/01/2024'' sample_server))\<lparr>clock := 9000000,
       db := set_verified 2 (db (snd (register (Some ''bob'') (Some ''c@d.org'') (Some ''password'')
              (Some ''password'') 3 1 ''02/01/2024'' sample_server)))\<rparr>)"
proof -
  have "email_re ''c@d.org''" by (simp add: email_re_def re_plain_def is_js_space_def)
  then have r: "register (Some ''bob'') (Some ''c@d.org'') (Some ''password'') (Some ''password'')
              3 1 ''02/01/2024'' sample_server =
      ((201, Token_Url (jwt_sign ''k'' 2 1000 None) ''bob''),
       snd (register (Some ''bob'') (Some ''c@d.org'') (Some ''password'') (Some ''password'')
              3 1 ''02/01/2024'' sample_server))"
    using register_fresh_result[of "Some ''bob''" "Some ''c@d.org''" "Some ''password''"
        "Some ''password''" sample_server 3 1 "''02/01/2024''"]
    by (simp add: sample_server_def alice_row_def now_s_def secs_def user_url_def to_lower_def js_lower_def is_js_space_def Let_def)
  show ?thesis
    using login_token_verifies_email[OF r, of 7 9000000]
    by (simp add: sample_server_def)
qed

text \<open>C17: the verification request of a logged-in account answers 200 and
  hands the account's e-mail a code signed for its id with a one-hour expiry;
  redeemed at any clock before the hour is over, the code sets the flag. The
  same code is also accepted by the identity middleware as a bearer token for
  that hour.\<close>

theorem verify_request_then_redeem:
  assumes "verify_user_logged tok (secret s) (clock s) = Inr i" "online (db s)"
    "filter (\<lambda>r. user_id r = i) (rows (db s)) = [r]"
    "secs now < now_s s + 3600" "clock s \<le> now" "now + dt \<le> (now_s s + 3600) * 1000"
  shows "verify_email_post tok s =
      (Some (200, Message ''Verification email sent!''),
       s\<lparr>mailbox := mailbox s @ [(email r, jwt_sign (secret s) i (now_s s) (Some 3600))]\<rparr>) \<and>
    verify_email_code (jwt_sign (secret s) i (now_s s) (Some 3600)) dt (s\<lparr>clock := now\<rparr>) =
      ((200, Message ''Email verified!''), s\<lparr>clock := now, db := set_verified i (db s)\<rparr>) \<and>
    verify_user_logged (Some (jwt_sign (secret s) i (now_s s) (Some 3600))) (secret s) now = Inr i"
proof -
  have req: "verify_email_post tok s =
      (Some (200, Message ''Verification email sent!''),
       s\<lparr>mailbox := mailbox s @ [(email r, jwt_sign (secret s) i (now_s s) (Some 3600))]\<rparr>)"
    using assms(1-3) by (simp add: verify_email_post_def verify_email_request_single)
  have le: "now_s s \<le> secs now" using assms(5) by (simp add: now_s_def secs_le_mono)
  have v: "jwt_verify (secret (s\<lparr>clock := now\<rparr>)) (now_s (s\<lparr>clock := now\<rparr>))
        (jwt_sign (secret s) i (now_s s) (Some 3600)) =
      Inr \<lparr>cl_id = i, cl_iat = now_s s, cl_exp = Some (now_s s + 3600)\<rparr>"
    using assms(4) le by (simp add: jwt_verify_sign now_s_def)
  have mem: "i \<in> user_id ` set (rows (db s))"
    using assms(3) by (metis (mono_tags, lifting) filter_eq_ConsD image_iff in_set_conv_decomp)
  have red: "verify_email_code (jwt_sign (secret s) i (now_s s) (Some 3600)) dt (s\<lparr>clock := now\<rparr>) =
      ((200, Message ''Email verified!''), s\<lparr>clock := now, db := set_verified i (db s)\<rparr>)"
    using verify_code_redeem[OF v, of dt] assms(2,6) mem by (simp add: code_expired_def)
  have mw: "verify_user_logged (Some (jwt_sign (secret s) i (now_s s) (Some 3600))) (secret s) now = Inr i"
    using assms(4) le by (simp add: verify_user_logged_def jwt_verify_sign)
  from req red mw show ?thesis by blast
qed

theorem verify_request_then_redeem_witness:
  "verify_email_post (Some (jwt_sign ''k'' 1 0 None)) sample_server =
     (Some (200, Message ''Verification email sent!''),
      sample_server\<lparr>mailbox := [(''a@b.com'', jwt_sign ''k'' 1 1000 (Some 3600))]\<rparr>)"
proof -
  have h: "verify_user_logged (Some (jwt_sign ''k'' 1 0 None)) (secret sample_server)
      (clock sample_server) = Inr 1"
    by (simp add: sample_server_def verify_user_logged_sign)
  have "filter (\<lambda>r. user_id r = 1) (rows (db sample_server)) = [alice_row]"
    by (simp add: sample_server_def alice_row_def)
  from verify_request_then_redeem[OF h _ this, of 1000000 0] show ?thesis
    by (simp add: sample_server_def alice_row_def now_s_def secs_def)
qed

end
