(* ===== verification/Server.thy ===== *)
theory Server
  imports Auth_Verify
begin

text \<open>
  The authentication subsystem as a state machine. Each request of
  src/src/routes/auth.js is one atomic step on the server state (the
  handler's effect, its response dropped); the environment may also advance
  the clock and take the database connection down or up. The reachable states
  start from an empty table and are closed under steps; the invariants of the
  users table hold in all of them. Requests run here one at a time; theory
  Register_Race interleaves the two halves of registration.
\<close>

datatype auth_request =
    Register field field field field nat nat string
  | Login field field
  | Login_Google field nat string
  | Verify_Request "token option"
  | Verify_Code token nat
  | Advance nat
  | Set_Online bool

fun auth_step :: "google_api \<Rightarrow> auth_request \<Rightarrow> server \<Rightarrow> server" where
  "auth_step api (Register u e p cp salt k date) s = snd (register u e p cp salt k date s)"
| "auth_step api (Login u p) s = s"
| "auth_step api (Login_Google t k date) s = snd (login_google t api k date s)"
| "auth_step api (Verify_Request tok) s = snd (verify_email_post tok s)"
| "auth_step api (Verify_Code c dt) s = snd (verify_email_code c dt s)"
| "auth_step api (Advance d) s = s\<lparr>clock := clock s + d\<rparr>"
| "auth_step api (Set_Online b) s = s\<lparr>db := (db s)\<lparr>online := b\<rparr>\<rparr>"

definition init_server :: "string \<Rightarrow> nat \<Rightarrow> server" where
  "init_server key t =
     \<lparr>db = \<lparr>rows = [], next_id = 1, online = True\<rparr>, secret = key, clock = t, mailbox = []\<rparr>"

inductive reachable :: "google_api \<Rightarrow> server \<Rightarrow> bool" for api where
  init: "reachable api (init_server key t)"
| step: "reachable api s \<Longrightarrow> reachable api (auth_step api rq s)"

fun auth_run :: "google_api \<Rightarrow> server \<Rightarrow> auth_request list \<Rightarrow> server" where
  "auth_run api s [] = s"
| "auth_run api s (rq # rqs) = auth_run api (auth_step api rq s) rqs"

subsection \<open>What each handler does to the table\<close>

lemma login_google_db: "db (snd (login_google t api k date s)) = db s"
  by (auto simp: login_google_def Let_def dest: insert_user_Inr
      split: option.splits sum.splits list.splits)

lemma verify_email_post_db: "db (snd (verify_email_post tok s)) = db s"
  by (auto simp: verify_email_post_def verify_email_request_def Let_def
      split: sum.splits list.splits)

lemma verify_email_code_db:
  "db (snd (verify_email_code c dt s)) = db s \<or>
   (\<exists>i n. update_verified i (db s) = Inr (n, db (snd (verify_email_code c dt s))))"
  by (auto simp: verify_email_code_def split: sum.splits if_splits)

lemma register_db:
  "db (snd (register u e p cp salt k date s)) = db s \<or>
   (\<exists>n u' e' h dt sl pic i. insert_user n u' e' h dt sl pic (db s) = Inr (i, db (snd (register u e p cp salt k date s))))"
  by (auto simp: register_def register_insert_def Let_def split: sum.splits)

lemma auth_step_wf:
  assumes "users_wf (db s)"
  shows "users_wf (db (auth_step api rq s))"
proof (cases rq)
  case (Register u e p cp salt k date)
  then show ?thesis using register_preserves_wf[OF assms] by simp
next
  case (Verify_Code c dt)
  then show ?thesis
    using verify_email_code_db[of c dt s] users_wf_update_verified[OF assms] assms by auto
qed (use assms in \<open>simp_all add: login_google_db verify_email_post_db users_wf_def\<close>)

lemma reachable_run: "reachable api s \<Longrightarrow> reachable api (auth_run api s rqs)"
  by (induction rqs arbitrary: s) (auto intro: reachable.step)

subsection \<open>Properties\<close>

text \<open>C18: in every state reachable by one-at-a-time requests from an empty
  table, ids are distinct and below the AUTO_INCREMENT counter, and usernames
  and e-mails are each unique.\<close>

theorem reachable_users_wf: "reachable api s \<Longrightarrow> users_wf (db s)"
proof (induction rule: reachable.induct)
  case (init key t)
  show ?case by (simp add: init_server_def users_wf_def)
next
  case (step s rq)
  from step.IH show ?case by (rule auth_step_wf)
qed

theorem reachable_users_wf_witness:
  "users_wf (db (auth_run google_stub (init_server ''k'' 0)
     [Register (Some ''alice'') (Some ''a@b.com'') (Some ''longpass1'') (Some ''longpass1'') 7 0 ''d'',
      Register (Some ''alice'') (Some ''x@y.io'') (Some ''longpass2'') (Some ''longpass2'') 8 1 ''d'',
      Verify_Code (jwt_sign ''k'' 1 0 None) 0]))"
  by (rule reachable_users_wf[OF reachable_run[OF reachable.init]])

text \<open>No request ever removes a row, reorders rows, changes a stored
  field other than setting \<open>verifiedEmail\<close>, or lowers the AUTO_INCREMENT
  counter: a verified e-mail stays verified and an id is never reused.\<close>

theorem auth_step_verified_mono:
  "verified_mono (db s) (db (auth_step api rq s)) \<and> next_id (db s) \<le> next_id (db (auth_step api rq s))"
proof (cases rq)
  case (Register u e p cp salt k date)
  then show ?thesis
    using register_db[of u e p cp salt k date s]
    by (auto dest: verified_mono_insert insert_user_Inr)
next
  case (Verify_Code c dt)
  then show ?thesis
    using verify_email_code_db[of c dt s]
    by (auto dest: verified_mono_update update_verified_Inr)
qed (simp_all add: login_google_db verify_email_post_db verified_mono_def list.rel_refl row_grows_def)

end
