(* ===== verification/Register_Race.thy ===== *)
theory Register_Race
  imports Server
begin

text \<open>
  Concurrent registrations. Node runs each request until its next
  \<open>await\<close>; between the uniqueness query of \<open>/register\<close> (auth.js line 101)
  and its \<open>INSERT\<close> (line 113) other requests run. The concurrent state is
  the server and the registrations that passed their check and have not
  inserted yet; a step starts a registration (its check), finishes a pending
  one (its insertion), or runs any other request atomically. The
  AUTO_INCREMENT counter keeps ids distinct in every interleaving, but the
  uniqueness of usernames and e-mails is lost: the check-then-insert race of
  the specification's section 9.
\<close>

record conc_state =
  srv :: server
  pending :: "reg_pending list"

inductive conc_reach :: "google_api \<Rightarrow> conc_state \<Rightarrow> bool" for api where
  init: "conc_reach api \<lparr>srv = init_server key t, pending = []\<rparr>"
| check: "conc_reach api c \<Longrightarrow> register_check u e p cp (db (srv c)) = Inr pd \<Longrightarrow>
    conc_reach api (c\<lparr>pending := pending c @ [pd]\<rparr>)"
| insert: "conc_reach api c \<Longrightarrow> pd \<in> set (pending c) \<Longrightarrow>
    conc_reach api \<lparr>srv = snd (register_insert pd salt k date (srv c)), pending = remove1 pd (pending c)\<rparr>"
| other: "conc_reach api c \<Longrightarrow> conc_reach api (c\<lparr>srv := auth_step api rq (srv c)\<rparr>)"

subsection \<open>Lemmas\<close>

lemma register_insert_db:
  "db (snd (register_insert pd salt k date s)) = db s \<or>
   (\<exists>n u' e' h dt sl pic i. insert_user n u' e' h dt sl pic (db s) =
      Inr (i, db (snd (register_insert pd salt k date s))))"
  by (auto simp: register_insert_def Let_def split: sum.splits)

lemma register_insert_ids_wf:
  "ids_wf (db s) \<Longrightarrow> ids_wf (db (snd (register_insert pd salt k date s)))"
  using register_insert_db[of pd salt k date s] by (auto dest: ids_wf_insert)

lemma auth_step_ids_wf:
  assumes "ids_wf (db s)"
  shows "ids_wf (db (auth_step api rq s))"
proof (cases rq)
  case (Register u e p cp salt k date)
  then show ?thesis
    using register_db[of u e p cp salt k date s] assms by (auto dest: ids_wf_insert)
next
  case (Verify_Code c dt)
  then show ?thesis
    using verify_email_code_db[of c dt s] assms by (auto dest: ids_wf_update_verified)
qed (use assms in \<open>simp_all add: login_google_db verify_email_post_db ids_wf_def\<close>)

subsection \<open>Properties\<close>

text \<open>In every interleaving of requests, ids stay distinct and below the
  AUTO_INCREMENT counter.\<close>

theorem conc_reach_ids_wf: "conc_reach api c \<Longrightarrow> ids_wf (db (srv c))"
proof (induction rule: conc_reach.induct)
  case (init key t)
  show ?case by (simp add: init_server_def ids_wf_def)
next
  case (check c u e p cp pd)
  then show ?case by simp
next
  case (insert c pd salt k date)
  then show ?case by (simp add: register_insert_ids_wf)
next
  case (other c rq)
  then show ?case by (simp add: auth_step_ids_wf)
qed

theorem conc_reach_ids_wf_witness:
  "ids_wf (db (snd (register_insert
     \<lparr>rp_username = ''carol'', rp_email = ''c@d.org'', rp_password = ''password''\<rparr> 1 0 ''d''
     (init_server ''k'' 0))))"
proof -
  let ?c0 = "\<lparr>srv = init_server ''k'' 0, pending = []\<rparr>"
  let ?p1 = "\<lparr>rp_username = ''carol'', rp_email = ''c@d.org'', rp_password = ''password''\<rparr>"
  have ch: "register_check (Some ''carol'') (Some ''c@d.org'') (Some ''password'') (Some ''password'')
      (db (srv ?c0)) = Inr ?p1"
    by (simp add: register_check_def select_email_or_username_def init_server_def email_re_def
        re_plain_def is_js_space_def)
  have "conc_reach google_stub (?c0\<lparr>pending := [?p1]\<rparr>)"
    using conc_reach.check[OF conc_reach.init ch] by simp
  from conc_reach.insert[OF this, of ?p1 1 0 "''d''"]
  have "conc_reach google_stub \<lparr>srv = snd (register_insert ?p1 1 0 ''d'' (init_server ''k'' 0)), pending = []\<rparr>"
    by simp
  from conc_reach_ids_wf[OF this] show ?thesis by simp
qed

text \<open>C19: two registrations with the same e-mail and different usernames,
  both checked before either inserts, both succeed: the table then holds two
  accounts with one e-mail, so the uniqueness invariant of the one-at-a-time
  machine (C19) does not hold under interleaving.\<close>

theorem register_race_duplicate_email:
  "\<exists>c. conc_reach api c \<and> \<not> users_wf (db (srv c))"
proof -
  let ?c0 = "\<lparr>srv = init_server ''k'' 0, pending = []\<rparr>"
  let ?p1 = "\<lparr>rp_username = ''carol'', rp_email = ''c@d.org'', rp_password = ''password''\<rparr>"
  let ?p2 = "\<lparr>rp_username = ''dave'', rp_email = ''c@d.org'', rp_password = ''password''\<rparr>"
  have em: "email_re ''c@d.org''" by (simp add: email_re_def re_plain_def is_js_space_def)
  have c0: "conc_reach api ?c0" by (rule conc_reach.init)
  have ch1: "register_check (Some ''carol'') (Some ''c@d.org'') (Some ''password'') (Some ''password'')
      (db (srv ?c0)) = Inr ?p1"
    using em by (simp add: register_check_def select_email_or_username_def init_server_def)
  have c1: "conc_reach api (?c0\<lparr>pending := [?p1]\<rparr>)"
    using conc_reach.check[OF c0 ch1] by simp
  have ch2: "register_check (Some ''dave'') (Some ''c@d.org'') (Some ''password'') (Some ''password'')
      (db (srv (?c0\<lparr>pending := [?p1]\<rparr>))) = Inr ?p2"
    using em by (simp add: register_check_def select_email_or_username_def init_server_def)
  have c2: "conc_reach api (?c0\<lparr>pending := [?p1, ?p2]\<rparr>)"
    using conc_reach.check[OF c1 ch2] by simp
  define s3 where "s3 = snd (register_insert ?p1 1 0 ''d'' (init_server ''k'' 0))"
  have c3: "conc_reach api \<lparr>srv = s3, pending = [?p2]\<rparr>"
    using conc_reach.insert[OF c2, of ?p1 1 0 "''d''"] by (simp add: s3_def)
  define s4 where "s4 = snd (register_insert ?p2 2 0 ''d'' s3)"
  have c4: "conc_reach api \<lparr>srv = s4, pending = []\<rparr>"
    using conc_reach.insert[OF c3, of ?p2 2 0 "''d''"] by (simp add: s4_def)
  have "\<not> users_wf (db s4)"
    by (simp add: s4_def s3_def register_insert_online init_server_def users_wf_def new_row_def)
  with c4 show ?thesis by auto
qed

end
