(* ===== verification/Js_Values.thy ===== *)
theory Js_Values
  imports Js_Strings Complex_Main
begin

text \<open>
  JSON request values and JavaScript's \<open>Number()\<close> as the statistics and
  review routes use them. A JavaScript number is modelled as an exact
  rational or NaN; the rounding of IEEE doubles is not modelled. \<open>Number\<close>
  on a string trims JavaScript white space, reads the empty string as 0 and a
  signed decimal numeral (digits with an optional fraction) as its value; any
  other string is NaN. Exponent and hexadecimal numerals and \<open>Infinity\<close>, which
  JavaScript also reads, are outside the model (they come out NaN).
\<close>

datatype jval = JUndef | JNull | JBool bool | JNum rat | JStr string

datatype jsnum = Num rat | NaN

fun jv_truthy :: "jval \<Rightarrow> bool" where
  "jv_truthy JUndef = False"
| "jv_truthy JNull = False"
| "jv_truthy (JBool b) = b"
| "jv_truthy (JNum q) = (q \<noteq> 0)"
| "jv_truthy (JStr s) = (s \<noteq> [])"

definition digit_val :: "char \<Rightarrow> nat option" where
  "digit_val c = (let n = (of_char c :: nat) in if 48 \<le> n \<and> n \<le> 57 then Some (n - 48) else None)"

fun digits_val :: "nat \<Rightarrow> string \<Rightarrow> nat option" where
  "digits_val acc [] = Some acc"
| "digits_val acc (c # cs) =
     (case digit_val c of None \<Rightarrow> None | Some d \<Rightarrow> digits_val (10 * acc + d) cs)"

definition trim_js :: "string \<Rightarrow> string" where
  "trim_js s = rev (dropWhile is_js_space (rev (dropWhile is_js_space s)))"

definition unsigned_decimal :: "string \<Rightarrow> rat option" where
  "unsigned_decimal t =
     (let ip = takeWhile (\<lambda>c. c \<noteq> CHR ''.'') t; rest = dropWhile (\<lambda>c. c \<noteq> CHR ''.'') t
      in case rest of
           [] \<Rightarrow> if ip = [] then None else map_option of_nat (digits_val 0 ip)
         | _ # fp \<Rightarrow>
             if ip = [] \<and> fp = [] then None
             else (case (digits_val 0 ip, digits_val 0 fp) of
                     (Some a, Some b) \<Rightarrow> Some (of_nat a + of_nat b / 10 ^ length fp)
                   | _ \<Rightarrow> None))"

definition parse_number :: "string \<Rightarrow> jsnum" where
  "parse_number s =
     (let t = trim_js s
      in if t = [] then Num 0
         else (case t of
                 c # r \<Rightarrow>
                   if c = CHR ''-'' then (case unsigned_decimal r of Some q \<Rightarrow> Num (- q) | None \<Rightarrow> NaN)
                   else if c = CHR ''+'' then (case unsigned_decimal r of Some q \<Rightarrow> Num q | None \<Rightarrow> NaN)
                   else (case unsigned_decimal t of Some q \<Rightarrow> Num q | None \<Rightarrow> NaN)))"

fun js_number :: "jval \<Rightarrow> jsnum" where
  "js_number JUndef = NaN"
| "js_number JNull = Num 0"
| "js_number (JBool b) = Num (if b then 1 else 0)"
| "js_number (JNum q) = Num q"
| "js_number (JStr s) = parse_number s"

text \<open>\<open>String(n)\<close> / \<open>`${n}`\<close> of a non-negative integer: its decimal digits.\<close>

fun dec_string :: "nat \<Rightarrow> string" where
  "dec_string n = (if n < 10 then [char_of (48 + n)] else dec_string (n div 10) @ [char_of (48 + n mod 10)])"

declare dec_string.simps [simp del]

subsection \<open>Lemmas\<close>

lemma digit_val_char: "d < 10 \<Longrightarrow> digit_val (char_of (48 + d)) = Some d"
  by (simp add: digit_val_def Let_def)

lemma digits_val_append:
  "digits_val acc (xs @ ys) = (case digits_val acc xs of None \<Rightarrow> None | Some a \<Rightarrow> digits_val a ys)"
  by (induction acc xs rule: digits_val.induct) (auto split: option.splits)

lemma digits_val_dec_string: "digits_val 0 (dec_string n) = Some n"
proof (induction n rule: dec_string.induct)
  case (1 n)
  show ?case
  proof (cases "n < 10")
    case True
    then show ?thesis by (simp add: dec_string.simps[of n] digit_val_char)
  next
    case False
    then have "digits_val 0 (dec_string (n div 10)) = Some (n div 10)" using "1.IH" by simp
    with False show ?thesis
      by (simp add: dec_string.simps[of n] digits_val_append digit_val_char)
  qed
qed

lemma dec_string_chars: "c \<in> set (dec_string n) \<Longrightarrow> 48 \<le> (of_char c :: nat) \<and> (of_char c :: nat) \<le> 57"
proof (induction n rule: dec_string.induct)
  case (1 n)
  then show ?case
    by (cases "n < 10") (auto simp: dec_string.simps[of n])
qed

lemma dec_string_ne: "dec_string n \<noteq> []"
  by (simp add: dec_string.simps[of n])

lemma dec_string_no_space: "c \<in> set (dec_string n) \<Longrightarrow> \<not> is_js_space c"
  using dec_string_chars[of c n] by (auto simp: is_js_space_code)

lemma dec_string_no_dot: "CHR ''.'' \<notin> set (dec_string n)"
  using dec_string_chars[of "CHR ''.''" n] by auto

lemma dec_string_hd: "hd (dec_string n) \<noteq> CHR ''-'' \<and> hd (dec_string n) \<noteq> CHR ''+''"
  using dec_string_chars[of "hd (dec_string n)" n] dec_string_ne[of n]
  by (auto simp del: of_char_eq_iff dest: hd_in_set)

lemma trim_js_id: "\<forall>c\<in>set s. \<not> is_js_space c \<Longrightarrow> trim_js s = s"
proof -
  assume h: "\<forall>c\<in>set s. \<not> is_js_space c"
  then have "dropWhile is_js_space s = s" by (cases s) auto
  moreover have "dropWhile is_js_space (rev s) = rev s" using h by (cases "rev s") auto
  ultimately show ?thesis by (simp add: trim_js_def)
qed

text \<open>\<open>Number\<close> reads back the decimal string of every non-negative
  integer, so an id sent in a route path as \<open>String(id)\<close> reaches the
  query as the same number.\<close>

theorem parse_number_dec_string: "parse_number (dec_string n) = Num (of_nat n)"
proof -
  have t: "trim_js (dec_string n) = dec_string n"
    using dec_string_no_space trim_js_id by blast
  have tw: "takeWhile (\<lambda>c. c \<noteq> CHR ''.'') (dec_string n) = dec_string n"
    and dw: "dropWhile (\<lambda>c. c \<noteq> CHR ''.'') (dec_string n) = []"
    using dec_string_no_dot[of n] by (auto simp: takeWhile_eq_all_conv dropWhile_eq_Nil_conv)
  have u: "unsigned_decimal (dec_string n) = Some (of_nat n)"
    by (simp add: unsigned_decimal_def tw dw dec_string_ne digits_val_dec_string)
  obtain c r where cr: "dec_string n = c # r" using dec_string_ne[of n] by (cases "dec_string n") auto
  have "c \<noteq> CHR ''-''" "c \<noteq> CHR ''+''" using dec_string_hd[of n] cr by auto
  moreover have "trim_js (c # r) = c # r" using t cr by simp
  ultimately show ?thesis using u cr by (simp add: parse_number_def)
qed

end
