(* ===== verification/Stats.thy ===== *)
theory Stats
  imports Js_Values Middleware
begin

text \<open>
  The project statistics routes (src/src/routes/projectStats.js) over the
  MongoDB collection of \<open>StatsProjects\<close> documents. The model file
  models/statsProjects is not among the staged sources; its fields are read
  off the routes (\<open>idUser\<close>, \<open>idProject\<close>, \<open>idCategory\<close>, \<open>view\<close>,
  \<open>like\<close>, \<open>dislike\<close>, \<open>funded\<close>, \<open>collaborator\<close>) and taken with the defaults
  false, false, false, 0, false. The collection is a list in natural (insertion)
  order, so \<open>findOne\<close> is the first match; \<open>_id\<close> is a counter. Numbers are
  rationals (theory Js_Values). Mongoose casts a path parameter with
  \<open>Number\<close> (a failed cast throws) and a Boolean path from \<open>true\<close>,
  \<open>false\<close>, 1, 0 and the strings \<open>'true'\<close>, \<open>'false'\<close>, \<open>'1'\<close>, \<open>'0'\<close>,
  \<open>'yes'\<close>, \<open>'no'\<close>; assigning \<open>undefined\<close> or \<open>null\<close> leaves a field that
  reads as false. \<open>GET /:id/stats\<close> calls the controller getProjectStats,
  which is not staged; the route is modelled over the controller as a
  parameter.
\<close>

record stats_doc =
  st_oid :: nat
  st_user :: uid
  st_project :: rat
  st_category :: jval
  st_view :: bool
  st_like :: bool
  st_dislike :: bool
  st_funded :: rat
  st_collaborator :: bool

record stats_coll =
  st_docs :: "stats_doc list"
  st_next :: nat
  st_online :: bool

datatype stats_body =
    Stats_Msg string
  | Stats_Msg_Code string nat
  | Stats_Doc stats_doc
  | Stats_Result stats_doc nat
  | Stats_Percentages "(jval \<times> jsnum) list"
  | Stats_Unauthorized
  | Stats_Object "(string \<times> jval) list"
  | Stats_Text string
  | Stats_Empty

definition internal_error :: "stats_body response" where
  "internal_error = (500, Stats_Msg ''Internal Server Error'')"

definition stats_auth :: "token option \<Rightarrow> string \<Rightarrow> nat \<Rightarrow> stats_body response + uid" where
  "stats_auth tok key now =
     (case verify_user_logged tok key now of Inl st \<Rightarrow> Inl (st, Stats_Unauthorized) | Inr i \<Rightarrow> Inr i)"

definition mg_param :: "string \<Rightarrow> rat option" where
  "mg_param s = (case parse_number s of Num q \<Rightarrow> Some q | NaN \<Rightarrow> None)"

definition mg_bool :: "jval \<Rightarrow> bool option" where
  "mg_bool v =
     (case v of
        JUndef \<Rightarrow> Some False
      | JNull \<Rightarrow> Some False
      | JBool b \<Rightarrow> Some b
      | JNum q \<Rightarrow> if q = 1 then Some True else if q = 0 then Some False else None
      | JStr s \<Rightarrow> if s \<in> {''true'', ''1'', ''yes''} then Some True
                 else if s \<in> {''false'', ''0'', ''no''} then Some False else None)"

definition new_stats :: "uid \<Rightarrow> rat \<Rightarrow> jval \<Rightarrow> stats_doc" where
  "new_stats i q cat =
     \<lparr>st_oid = 0, st_user = i, st_project = q, st_category = cat, st_view = False,
      st_like = False, st_dislike = False, st_funded = 0, st_collaborator = False\<rparr>"

text \<open>\<open>new StatsProjects(...).save()\<close>: a fresh \<open>_id\<close>, appended.\<close>

definition stats_insert :: "stats_doc \<Rightarrow> stats_coll \<Rightarrow> stats_doc \<times> stats_coll" where
  "stats_insert d c =
     (let d' = d\<lparr>st_oid := st_next c\<rparr>
      in (d', c\<lparr>st_docs := st_docs c @ [d'], st_next := Suc (st_next c)\<rparr>))"

text \<open>\<open>doc.save()\<close> of a loaded document: replace it by \<open>_id\<close>.\<close>

definition stats_replace :: "stats_doc \<Rightarrow> stats_coll \<Rightarrow> stats_coll" where
  "stats_replace d c = c\<lparr>st_docs := map (\<lambda>x. if st_oid x = st_oid d then d else x) (st_docs c)\<rparr>"

subsection \<open>Handlers\<close>

text \<open>GET /:id/stats/user/ (lines 8-24).\<close>

definition get_user_stats :: "token option \<Rightarrow> string \<Rightarrow> nat \<Rightarrow> string \<Rightarrow> stats_coll \<Rightarrow> stats_body response" where
  "get_user_stats tok key now pid c =
     (case stats_auth tok key now of
        Inl r \<Rightarrow> r
      | Inr i \<Rightarrow>
          (case parse_number pid of
             NaN \<Rightarrow> (400, Stats_Msg_Code ''Invalid idUser or idProject'' 400)
           | Num q \<Rightarrow>
               if \<not> st_online c then internal_error
               else (case find (\<lambda>d. st_user d = i \<and> st_project d = q) (st_docs c) of
                       None \<Rightarrow> (404, Stats_Msg_Code ''Stats not found'' 404)
                     | Some d \<Rightarrow> (200, Stats_Doc d))))"

text \<open>GET /:id/stats (lines 26-37) calls the controller getProjectStats,
  which is not among the staged sources: it is a parameter \<open>ctrl\<close> taking
  \<open>Number(req.params.id)\<close> (NaN included: the route does not check it) and
  the collection, and rejecting with a database error or resolving to some
  JavaScript value: a primitive, or an array of aggregated documents. The
  route answers 404 when the value is falsy and otherwise sends
  \<open>stats[0]\<close>: the first document of an array, \<open>undefined\<close> (an empty
  body) for an empty array or a number or boolean, the first character of a
  string.\<close>

datatype ctrl_value = Ctrl_Prim jval | Ctrl_Array "(string \<times> jval) list list"

type_synonym stats_ctrl = "jsnum \<Rightarrow> stats_coll \<Rightarrow> db_error + ctrl_value"

fun ctrl_truthy :: "ctrl_value \<Rightarrow> bool" where
  "ctrl_truthy (Ctrl_Prim v) = jv_truthy v"
| "ctrl_truthy (Ctrl_Array xs) = True"

fun ctrl_first :: "ctrl_value \<Rightarrow> stats_body" where
  "ctrl_first (Ctrl_Array (x # xs)) = Stats_Object x"
| "ctrl_first (Ctrl_Array []) = Stats_Empty"
| "ctrl_first (Ctrl_Prim (JStr (ch # cs))) = Stats_Text [ch]"
| "ctrl_first (Ctrl_Prim v) = Stats_Empty"

definition get_project_stats :: "stats_ctrl \<Rightarrow> string \<Rightarrow> stats_coll \<Rightarrow> stats_body response" where
  "get_project_stats ctrl pid c =
     (case ctrl (parse_number pid) c of
        Inl err \<Rightarrow> internal_error
      | Inr stats \<Rightarrow>
          if \<not> ctrl_truthy stats then (404, Stats_Msg ''Stats not found'')
          else (200, ctrl_first stats))"

text \<open>POST /:id/stats (lines 39-62): record a view once per user, project
  and category.\<close>

definition post_view ::
  "token option \<Rightarrow> string \<Rightarrow> nat \<Rightarrow> string \<Rightarrow> jval \<Rightarrow> stats_coll \<Rightarrow> stats_body response \<times> stats_coll" where
  "post_view tok key now pid cat c =
     (case stats_auth tok key now of
        Inl r \<Rightarrow> (r, c)
      | Inr i \<Rightarrow>
          if \<not> jv_truthy cat then ((400, Stats_Msg ''idCategory are required''), c)
          else (case mg_param pid of
                  None \<Rightarrow> (internal_error, c)
                | Some q \<Rightarrow>
                    if \<not> st_online c then (internal_error, c)
                    else (case find (\<lambda>d. st_user d = i \<and> st_project d = q \<and> st_category d = cat)
                                 (st_docs c) of
                            Some _ \<Rightarrow> ((200, Stats_Msg_Code ''User already viewed this project'' 200), c)
                          | None \<Rightarrow>
                              let (d, c') = stats_insert ((new_stats i q cat)\<lparr>st_view := True\<rparr>) c
                              in ((201, Stats_Result d 201), c'))))"

text \<open>PUT /:id/stats/views (lines 64-77). Its \<open>catch (err)\<close> logs the
  undeclared \<open>error\<close>: the ReferenceError escapes the async handler and no
  response is sent (\<open>None\<close>).\<close>

definition put_views ::
  "token option \<Rightarrow> string \<Rightarrow> nat \<Rightarrow> string \<Rightarrow> stats_coll \<Rightarrow> stats_body response option \<times> stats_coll" where
  "put_views tok key now pid c =
     (case stats_auth tok key now of
        Inl r \<Rightarrow> (Some r, c)
      | Inr i \<Rightarrow>
          (case mg_param pid of
             None \<Rightarrow> (None, c)
           | Some q \<Rightarrow>
               if \<not> st_online c then (None, c)
               else (case find (\<lambda>d. st_user d = i \<and> st_project d = q) (st_docs c) of
                       None \<Rightarrow> (Some (404, Stats_Msg ''Stats not found''), c)
                     | Some d \<Rightarrow>
                         let d' = d\<lparr>st_view := True\<rparr> in (Some (200, Stats_Doc d'), stats_replace d' c))))"

text \<open>POST /:id/stats/like (lines 79-93): a new liked document, always.\<close>

definition post_like ::
  "token option \<Rightarrow> string \<Rightarrow> nat \<Rightarrow> string \<Rightarrow> jval \<Rightarrow> stats_coll \<Rightarrow> stats_body response \<times> stats_coll" where
  "post_like tok key now pid cat c =
     (case stats_auth tok key now of
        Inl r \<Rightarrow> (r, c)
      | Inr i \<Rightarrow>
          (case mg_param pid of
             None \<Rightarrow> (internal_error, c)
           | Some q \<Rightarrow>
               if \<not> st_online c then (internal_error, c)
               else let (d, c') = stats_insert ((new_stats i q cat)\<lparr>st_like := True\<rparr>) c
                    in ((201, Stats_Doc d), c')))"

text \<open>PUT /:id/stats (lines 95-121): the three updates in the code's order;
  a value Mongoose cannot cast fails the \<open>save\<close>.\<close>

definition apply_evaluation :: "jval \<Rightarrow> jval \<Rightarrow> stats_doc \<Rightarrow> stats_doc option" where
  "apply_evaluation evaluation status d =
     (if evaluation = JStr ''likes'' then map_option (\<lambda>b. d\<lparr>st_like := b, st_dislike := False\<rparr>) (mg_bool status)
      else if evaluation = JStr ''dislikes'' then
        map_option (\<lambda>b. d\<lparr>st_like := False, st_dislike := b\<rparr>) (mg_bool status)
      else Some d)"

definition apply_fund :: "jval \<Rightarrow> stats_doc \<Rightarrow> stats_doc option" where
  "apply_fund fund d =
     (if jv_truthy fund then
        (case js_number fund of Num q \<Rightarrow> Some (d\<lparr>st_funded := st_funded d + q\<rparr>) | NaN \<Rightarrow> None)
      else Some d)"

definition apply_collaboration :: "jval \<Rightarrow> stats_doc \<Rightarrow> stats_doc" where
  "apply_collaboration co d = (if jv_truthy co then d\<lparr>st_collaborator := True\<rparr> else d)"

definition put_evaluate ::
  "token option \<Rightarrow> string \<Rightarrow> nat \<Rightarrow> string \<Rightarrow> jval \<Rightarrow> jval \<Rightarrow> jval \<Rightarrow> jval \<Rightarrow> stats_coll \<Rightarrow>
   stats_body response \<times> stats_coll" where
  "put_evaluate tok key now pid evaluation fund collaboration status c =
     (case stats_auth tok key now of
        Inl r \<Rightarrow> (r, c)
      | Inr i \<Rightarrow>
          (case mg_param pid of
             None \<Rightarrow> (internal_error, c)
           | Some q \<Rightarrow>
               if \<not> st_online c then (internal_error, c)
               else (case find (\<lambda>d. st_user d = i \<and> st_project d = q) (st_docs c) of
                       None \<Rightarrow> ((404, Stats_Msg_Code ''Stats not found'' 404), c)
                     | Some d \<Rightarrow>
                         (case Option.bind (apply_evaluation evaluation status d) (apply_fund fund) of
                            None \<Rightarrow> (internal_error, c)
                          | Some d1 \<Rightarrow>
                              let d2 = apply_collaboration collaboration d1
                              in ((200, Stats_Result d2 200), stats_replace d2 c)))))"

text \<open>GET /stats/percentageViews (lines 123-159). \<open>$group\<close> by
  \<open>idCategory\<close> (a missing category groups as null) counting the viewed
  documents, groups in order of first appearance; then each group's share of
  all views, times 100, to two decimals (\<open>toFixed(2)\<close>, rounding half up,
  on the exact value). With no view at all, 0/0 is NaN for every group.\<close>

definition mg_key :: "jval \<Rightarrow> jval" where
  "mg_key v = (if v = JUndef then JNull else v)"

fun add_view :: "(jval \<times> nat) list \<Rightarrow> stats_doc \<Rightarrow> (jval \<times> nat) list" where
  "add_view [] d = [(mg_key (st_category d), if st_view d then 1 else 0)]"
| "add_view ((k, n) # gs) d =
     (if k = mg_key (st_category d) then (k, if st_view d then Suc n else n) # gs
      else (k, n) # add_view gs d)"

definition group_views :: "stats_doc list \<Rightarrow> (jval \<times> nat) list" where
  "group_views ds = foldl add_view [] ds"

definition to_fixed2 :: "rat \<Rightarrow> rat" where
  "to_fixed2 q = of_int \<lfloor>q * 100 + 1 / 2\<rfloor> / 100"

definition percentage_views :: "stats_coll \<Rightarrow> stats_body response" where
  "percentage_views c =
     (if \<not> st_online c then internal_error
      else let groups = group_views (st_docs c)
           in if groups = [] then (404, Stats_Msg ''No projects found'')
              else let total = sum_list (map snd groups)
                   in (200, Stats_Percentages
                         (map (\<lambda>(k, v). (k, if total = 0 then NaN
                                             else Num (to_fixed2 (of_nat v / of_nat total * 100))))
                              groups)))"

end
