(* ===== verification/Stats_Props.thy ===== *)
theory Stats_Props
  imports Stats
begin

text \<open>
  The statistics collection as a state machine: the invariant
  \<open>stats_wf\<close> (distinct \<open>_id\<close>s below the counter, no document both
  liked and disliked), every request of projectStats.js as one step
  \<open>stats_step\<close>, the states reachable from an empty collection, and the
  shapes of the writes a caller can make (\<open>stats_write\<close>). The lemmas show
  the invariant in every reachable state, that a request only touches its
  caller's documents, and the behaviour of the write routes on their
  branches, with the findings on \<open>PUT /:id/stats\<close>, \<open>PUT /:id/stats/views\<close>
  and \<open>POST /:id/stats/like\<close>.
\<close>

definition stats_wf :: "stats_coll \<Rightarrow> bool" where
  "stats_wf c \<longleftrightarrow>
     distinct (map st_oid (st_docs c)) \<and> (\<forall>d\<in>set (st_docs c). st_oid d < st_next c) \<and>
     (\<forall>d\<in>set (st_docs c). \<not> (st_like d \<and> st_dislike d))"

datatype stats_request =
    Get_User_Stats "token option" string
  | Post_View "token option" string jval
  | Put_Views "token option" string
  | Post_Like "token option" string jval
  | Put_Evaluate "token option" string jval jval jval jval
  | Get_Percentages
  | Stats_Online bool

fun stats_step :: "string \<Rightarrow> nat \<Rightarrow> stats_request \<Rightarrow> stats_coll \<Rightarrow> stats_coll" where
  "stats_step key now (Get_User_Stats tok pid) c = c"
| "stats_step key now (Post_View tok pid cat) c = snd (post_view tok key now pid cat c)"
| "stats_step key now (Put_Views tok pid) c = snd (put_views tok key now pid c)"
| "stats_step key now (Post_Like tok pid cat) c = snd (post_like tok key now pid cat c)"
| "stats_step key now (Put_Evaluate tok pid ev fund co st) c = snd (put_evaluate tok key now pid ev fund co st c)"
| "stats_step key now Get_Percentages c = c"
| "stats_step key now (Stats_Online b) c = c\<lparr>st_online := b\<rparr>"

fun stats_token :: "stats_request \<Rightarrow> token option" where
  "stats_token (Get_User_Stats tok pid) = tok"
| "stats_token (Post_View tok pid cat) = tok"
| "stats_token (Put_Views tok pid) = tok"
| "stats_token (Post_Like tok pid cat) = tok"
| "stats_token (Put_Evaluate tok pid ev fund co st) = tok"
| "stats_token Get_Percentages = None"
| "stats_token (Stats_Online b) = None"

inductive stats_reachable :: "string \<Rightarrow> stats_coll \<Rightarrow> bool" for key where
  init: "stats_reachable key \<lparr>st_docs = [], st_next = 0, st_online = True\<rparr>"
| step: "stats_reachable key c \<Longrightarrow> stats_reachable key (stats_step key now rq c)"

text \<open>The shapes of a write by the caller \<open>i\<close>: none, an appended document of
  \<open>i\<close>, or one of \<open>i\<close>'s documents replaced by a document with the same
  \<open>_id\<close> and owner.\<close>

definition stats_write :: "uid \<Rightarrow> stats_coll \<Rightarrow> stats_coll \<Rightarrow> bool" where
  "stats_write i c c' \<longleftrightarrow>
     c' = c \<or>
     (\<exists>d. st_user d = i \<and> \<not> (st_like d \<and> st_dislike d) \<and> c' = snd (stats_insert d c)) \<or>
     (\<exists>d d'. d \<in> set (st_docs c) \<and> st_user d = i \<and> st_oid d' = st_oid d \<and> st_user d' = i \<and>
        (\<not> (st_like d \<and> st_dislike d) \<longrightarrow> \<not> (st_like d' \<and> st_dislike d')) \<and>
        c' = stats_replace d' c)"

text \<open>Sample collection: user 1 viewed project 7 in category 3, user 2 liked it
  in category 4.\<close>

definition demo_doc :: stats_doc where
  "demo_doc = \<lparr>st_oid = 0, st_user = 1, st_project = 7, st_category = JNum 3, st_view = True,
     st_like = False, st_dislike = False, st_funded = 10, st_collaborator = False\<rparr>"

definition demo_stats :: stats_coll where
  "demo_stats = \<lparr>st_docs = [demo_doc,
     \<lparr>st_oid = 1, st_user = 2, st_project = 7, st_category = JNum 4, st_view = False,
      st_like = True, st_dislike = False, st_funded = 0, st_collaborator = False\<rparr>],
     st_next = 2, st_online = True\<rparr>"

subsection \<open>Lemmas on the collection\<close>

lemma stats_insert_wf:
  "stats_wf c \<Longrightarrow> \<not> (st_like d \<and> st_dislike d) \<Longrightarrow> stats_wf (snd (stats_insert d c))"
  by (auto simp: stats_wf_def stats_insert_def Let_def less_Suc_eq)

lemma stats_replace_wf:
  assumes "stats_wf c" "st_oid d' \<in> st_oid ` set (st_docs c)" "\<not> (st_like d' \<and> st_dislike d')"
  shows "stats_wf (stats_replace d' c)"
proof -
  have m: "map st_oid (map (\<lambda>x. if st_oid x = st_oid d' then d' else x) xs) = map st_oid xs" for xs
    by (induction xs) auto
  show ?thesis using assms
    by (auto simp: stats_wf_def stats_replace_def m simp del: map_map)
qed

lemma find_SomeD: "find P xs = Some x \<Longrightarrow> x \<in> set xs \<and> P x"
  by (auto simp: find_Some_iff)

lemma filter_replace_other:
  assumes "\<forall>x\<in>set xs. st_oid x = st_oid d' \<longrightarrow> st_user x = i" "st_user d' = i" "j \<noteq> i"
  shows "filter (\<lambda>x. st_user x = j) (map (\<lambda>x. if st_oid x = st_oid d' then d' else x) xs) =
         filter (\<lambda>x. st_user x = j) xs"
  using assms by (induction xs) auto

lemma distinct_oid_user:
  "distinct (map st_oid xs) \<Longrightarrow> d \<in> set xs \<Longrightarrow> \<forall>x\<in>set xs. st_oid x = st_oid d \<longrightarrow> x = d"
  by (induction xs) (auto simp: image_iff)

lemma apply_evaluation_keeps:
  "apply_evaluation ev st d = Some d1 \<Longrightarrow>
   st_oid d1 = st_oid d \<and> st_user d1 = st_user d \<and> (\<not> (st_like d \<and> st_dislike d) \<longrightarrow> \<not> (st_like d1 \<and> st_dislike d1))"
  by (auto simp: apply_evaluation_def split: if_splits)

lemma apply_fund_keeps:
  "apply_fund fund d = Some d1 \<Longrightarrow>
   st_oid d1 = st_oid d \<and> st_user d1 = st_user d \<and> st_like d1 = st_like d \<and> st_dislike d1 = st_dislike d"
  by (auto simp: apply_fund_def split: if_splits jsnum.splits)

lemma stats_auth_Inl: "stats_auth tok key now = Inl r \<Longrightarrow> \<exists>st. verify_user_logged tok key now = Inl st"
  by (auto simp: stats_auth_def split: sum.splits)

lemma stats_auth_Inr: "stats_auth tok key now = Inr i \<longleftrightarrow> verify_user_logged tok key now = Inr i"
  by (auto simp: stats_auth_def split: sum.splits)

lemma post_view_cases:
  assumes "verify_user_logged tok key now = Inr i"
  shows "snd (post_view tok key now pid cat c) = c \<or>
    (\<exists>q. snd (post_view tok key now pid cat c) = snd (stats_insert ((new_stats i q cat)\<lparr>st_view := True\<rparr>) c))"
  using assms by (auto simp: post_view_def stats_auth_def case_prod_unfold Let_def split: option.splits)

lemma post_like_cases:
  assumes "verify_user_logged tok key now = Inr i"
  shows "snd (post_like tok key now pid cat c) = c \<or>
    (\<exists>q. snd (post_like tok key now pid cat c) = snd (stats_insert ((new_stats i q cat)\<lparr>st_like := True\<rparr>) c))"
  using assms by (auto simp: post_like_def stats_auth_def case_prod_unfold Let_def split: option.splits)

lemma put_views_cases:
  assumes "verify_user_logged tok key now = Inr i"
  shows "snd (put_views tok key now pid c) = c \<or>
    (\<exists>q d. find (\<lambda>d. st_user d = i \<and> st_project d = q) (st_docs c) = Some d \<and>
       snd (put_views tok key now pid c) = stats_replace (d\<lparr>st_view := True\<rparr>) c)"
  using assms by (auto simp: put_views_def stats_auth_def Let_def split: option.splits)

lemma put_evaluate_cases:
  assumes "verify_user_logged tok key now = Inr i"
  shows "snd (put_evaluate tok key now pid ev fund co st c) = c \<or>
    (\<exists>q d d1. find (\<lambda>d. st_user d = i \<and> st_project d = q) (st_docs c) = Some d \<and>
       Option.bind (apply_evaluation ev st d) (apply_fund fund) = Some d1 \<and>
       snd (put_evaluate tok key now pid ev fund co st c) = stats_replace (apply_collaboration co d1) c)"
  using assms by (auto simp: put_evaluate_def stats_auth_def Let_def split: option.splits)

lemma stats_write_insert_new:
  "\<not> (st_like d \<and> st_dislike d) \<Longrightarrow> st_user d = i \<Longrightarrow> stats_write i c (snd (stats_insert d c))"
  by (auto simp: stats_write_def)

lemma stats_write_replace:
  assumes "d \<in> set (st_docs c)" "st_user d = i" "st_oid d' = st_oid d" "st_user d' = i"
    "\<not> (st_like d \<and> st_dislike d) \<longrightarrow> \<not> (st_like d' \<and> st_dislike d')"
  shows "stats_write i c (stats_replace d' c)"
  using assms unfolding stats_write_def by blast

lemma post_view_write:
  assumes "verify_user_logged tok key now = Inr i"
  shows "stats_write i c (snd (post_view tok key now pid cat c))"
  using post_view_cases[OF assms, of pid cat c]
proof
  assume "snd (post_view tok key now pid cat c) = c"
  then show ?thesis by (simp add: stats_write_def)
next
  assume "\<exists>q. snd (post_view tok key now pid cat c) =
    snd (stats_insert ((new_stats i q cat)\<lparr>st_view := True\<rparr>) c)"
  then obtain q where e: "snd (post_view tok key now pid cat c) =
    snd (stats_insert ((new_stats i q cat)\<lparr>st_view := True\<rparr>) c)" by blast
  have "stats_write i c (snd (stats_insert ((new_stats i q cat)\<lparr>st_view := True\<rparr>) c))"
    by (rule stats_write_insert_new) (simp_all add: new_stats_def)
  then show ?thesis by (simp only: e)
qed

lemma post_like_write:
  assumes "verify_user_logged tok key now = Inr i"
  shows "stats_write i c (snd (post_like tok key now pid cat c))"
  using post_like_cases[OF assms, of pid cat c]
proof
  assume "snd (post_like tok key now pid cat c) = c"
  then show ?thesis by (simp add: stats_write_def)
next
  assume "\<exists>q. snd (post_like tok key now pid cat c) =
    snd (stats_insert ((new_stats i q cat)\<lparr>st_like := True\<rparr>) c)"
  then obtain q where e: "snd (post_like tok key now pid cat c) =
    snd (stats_insert ((new_stats i q cat)\<lparr>st_like := True\<rparr>) c)" by blast
  have "stats_write i c (snd (stats_insert ((new_stats i q cat)\<lparr>st_like := True\<rparr>) c))"
    by (rule stats_write_insert_new) (simp_all add: new_stats_def)
  then show ?thesis by (simp only: e)
qed

lemma put_views_write:
  assumes "verify_user_logged tok key now = Inr i"
  shows "stats_write i c (snd (put_views tok key now pid c))"
  using put_views_cases[OF assms, of pid c]
proof
  assume "snd (put_views tok key now pid c) = c"
  then show ?thesis by (simp add: stats_write_def)
next
  assume "\<exists>q d. find (\<lambda>d. st_user d = i \<and> st_project d = q) (st_docs c) = Some d \<and>
       snd (put_views tok key now pid c) = stats_replace (d\<lparr>st_view := True\<rparr>) c"
  then obtain q d where f: "find (\<lambda>d. st_user d = i \<and> st_project d = q) (st_docs c) = Some d"
    and e: "snd (put_views tok key now pid c) = stats_replace (d\<lparr>st_view := True\<rparr>) c" by blast
  from find_SomeD[OF f] have "d \<in> set (st_docs c)" "st_user d = i" by auto
  then show ?thesis unfolding e by (intro stats_write_replace) auto
qed

lemma put_evaluate_write:
  assumes "verify_user_logged tok key now = Inr i"
  shows "stats_write i c (snd (put_evaluate tok key now pid ev fund co st c))"
  using put_evaluate_cases[OF assms, of pid ev fund co st c]
proof
  assume "snd (put_evaluate tok key now pid ev fund co st c) = c"
  then show ?thesis by (simp add: stats_write_def)
next
  assume "\<exists>q d d1. find (\<lambda>d. st_user d = i \<and> st_project d = q) (st_docs c) = Some d \<and>
       Option.bind (apply_evaluation ev st d) (apply_fund fund) = Some d1 \<and>
       snd (put_evaluate tok key now pid ev fund co st c) = stats_replace (apply_collaboration co d1) c"
  then obtain q d d1 where f: "find (\<lambda>d. st_user d = i \<and> st_project d = q) (st_docs c) = Some d"
    and b: "Option.bind (apply_evaluation ev st d) (apply_fund fund) = Some d1"
    and e: "snd (put_evaluate tok key now pid ev fund co st c) = stats_replace (apply_collaboration co d1) c"
    by blast
  from b obtain d0 where d0: "apply_evaluation ev st d = Some d0" "apply_fund fund d0 = Some d1"
    by (cases "apply_evaluation ev st d") auto
  from find_SomeD[OF f] have mem: "d \<in> set (st_docs c)" and usr: "st_user d = i" by auto
  note k0 = apply_evaluation_keeps[OF d0(1)] and k1 = apply_fund_keeps[OF d0(2)]
  let ?d2 = "apply_collaboration co d1"
  have "st_oid ?d2 = st_oid d" "st_user ?d2 = i"
    "\<not> (st_like d \<and> st_dislike d) \<longrightarrow> \<not> (st_like ?d2 \<and> st_dislike ?d2)"
    using k0 k1 usr by (simp_all add: apply_collaboration_def)
  from stats_write_replace[OF mem usr this] show ?thesis unfolding e .
qed

lemma stats_step_shape:
  "(st_docs (stats_step key now rq c) = st_docs c \<and> st_next (stats_step key now rq c) = st_next c) \<or>
   (\<exists>i. verify_user_logged (stats_token rq) key now = Inr i \<and> stats_write i c (stats_step key now rq c))"
proof (cases "verify_user_logged (stats_token rq) key now")
  case (Inl st)
  then show ?thesis
    by (cases rq) (auto simp: post_view_def put_views_def post_like_def put_evaluate_def stats_auth_def)
next
  case (Inr i)
  then show ?thesis
    by (cases rq) (auto intro: post_view_write put_views_write post_like_write put_evaluate_write)
qed

lemma stats_write_wf:
  assumes wf: "stats_wf c" and w: "stats_write i c c'"
  shows "stats_wf c'"
  using w unfolding stats_write_def
proof (elim disjE exE conjE)
  assume "c' = c"
  with wf show ?thesis by simp
next
  fix d
  assume "\<not> (st_like d \<and> st_dislike d)" "c' = snd (stats_insert d c)"
  with wf show ?thesis by (simp add: stats_insert_wf)
next
  fix d d'
  assume mem: "d \<in> set (st_docs c)" and oid: "st_oid d' = st_oid d"
    and ld: "\<not> (st_like d \<and> st_dislike d) \<longrightarrow> \<not> (st_like d' \<and> st_dislike d')"
    and e: "c' = stats_replace d' c"
  have "\<not> (st_like d \<and> st_dislike d)" using wf mem by (auto simp: stats_wf_def)
  with ld have "\<not> (st_like d' \<and> st_dislike d')" by blast
  moreover have "st_oid d' \<in> st_oid ` set (st_docs c)" using mem oid by auto
  ultimately show ?thesis using stats_replace_wf[OF wf] e by blast
qed

lemma find_snoc:
  "find P (xs @ [x]) = (case find P xs of None \<Rightarrow> if P x then Some x else None | Some y \<Rightarrow> Some y)"
  by (induction xs) auto

lemma stats_write_frame:
  assumes wf: "stats_wf c" and w: "stats_write i c c'" and ij: "j \<noteq> i"
  shows "filter (\<lambda>d. st_user d = j) (st_docs c') = filter (\<lambda>d. st_user d = j) (st_docs c)"
  using w unfolding stats_write_def
proof (elim disjE exE conjE)
  assume "c' = c"
  then show ?thesis by simp
next
  fix d
  assume "st_user d = i" "c' = snd (stats_insert d c)"
  with ij show ?thesis by (simp add: stats_insert_def Let_def)
next
  fix d d'
  assume mem: "d \<in> set (st_docs c)" and u: "st_user d = i" and oid: "st_oid d' = st_oid d"
    and u': "st_user d' = i" and e: "c' = stats_replace d' c"
  have "\<forall>x\<in>set (st_docs c). st_oid x = st_oid d' \<longrightarrow> st_user x = i"
    using distinct_oid_user[of "st_docs c" d] wf mem oid u by (auto simp: stats_wf_def)
  from filter_replace_other[OF this u' ij] show ?thesis
    by (simp add: e stats_replace_def)
qed

lemma parse_number_7: "parse_number ''7'' = Num 7"
  by (simp add: parse_number_def trim_js_def unsigned_decimal_def digit_val_def is_js_space_def)

lemma stats_step_wf: "stats_wf c \<Longrightarrow> stats_wf (stats_step key now rq c)"
proof -
  assume wf: "stats_wf c"
  from stats_step_shape[of key now rq c] show ?thesis
  proof
    assume "st_docs (stats_step key now rq c) = st_docs c \<and> st_next (stats_step key now rq c) = st_next c"
    with wf show ?thesis by (simp add: stats_wf_def)
  next
    assume "\<exists>i. verify_user_logged (stats_token rq) key now = Inr i \<and> stats_write i c (stats_step key now rq c)"
    with wf show ?thesis by (blast intro: stats_write_wf)
  qed
qed

subsection \<open>Properties\<close>

text \<open>C23: every collection reachable from an empty one by statistics
  requests, in any order and with the connection going down and up, keeps
  distinct document ids below the counter and never holds a document that is
  both liked and disliked.\<close>

theorem stats_reachable_wf: "stats_reachable key c \<Longrightarrow> stats_wf c"
proof (induction rule: stats_reachable.induct)
  case init
  show ?case by (simp add: stats_wf_def)
next
  case (step c now rq)
  from step.IH show ?case by (rule stats_step_wf)
qed

theorem stats_reachable_wf_witness:
  "stats_wf (stats_step ''k'' 0 (Post_Like (Some (jwt_sign ''k'' 1 0 None)) ''7'' (JNum 3))
     \<lparr>st_docs = [], st_next = 0, st_online = True\<rparr>)"
  by (rule stats_reachable_wf[OF stats_reachable.step[OF stats_reachable.init]])

text \<open>C24: on a well-formed collection, a request whose token does not
  resolve to user \<open>j\<close> leaves the documents of \<open>j\<close> exactly as they were.\<close>

theorem stats_step_frame:
  assumes "stats_wf c" "verify_user_logged (stats_token rq) key now \<noteq> Inr j"
  shows "filter (\<lambda>d. st_user d = j) (st_docs (stats_step key now rq c)) = filter (\<lambda>d. st_user d = j) (st_docs c)"
  using stats_step_shape[of key now rq c]
proof
  assume "st_docs (stats_step key now rq c) = st_docs c \<and> st_next (stats_step key now rq c) = st_next c"
  then show ?thesis by simp
next
  assume "\<exists>i. verify_user_logged (stats_token rq) key now = Inr i \<and> stats_write i c (stats_step key now rq c)"
  then obtain i where "verify_user_logged (stats_token rq) key now = Inr i"
    "stats_write i c (stats_step key now rq c)" by blast
  with assms show ?thesis by (metis stats_write_frame)
qed

theorem stats_step_frame_witness:
  "filter (\<lambda>d. st_user d = 2) (st_docs (stats_step ''k'' 0 (Put_Evaluate (Some (jwt_sign ''k'' 1 0 None)) ''7''
      (JStr ''likes'') (JNum 5) JUndef (JBool True)) demo_stats)) =
   filter (\<lambda>d. st_user d = 2) (st_docs demo_stats)"
  by (rule stats_step_frame)
    (simp_all add: stats_wf_def demo_stats_def demo_doc_def verify_user_logged_sign)

text \<open>C25: POST /:id/stats records a view at most once: after an answer 200 or
  201, the same request is answered 200 ``User already viewed this project''
  and changes nothing.\<close>

theorem post_view_idempotent:
  assumes "post_view tok key now pid cat c = ((st, b), c')" "st = 200 \<or> st = 201"
  shows "post_view tok key now pid cat c' = ((200, Stats_Msg_Code ''User already viewed this project'' 200), c')"
  using assms
  by (auto simp: post_view_def stats_auth_def Let_def case_prod_unfold stats_insert_def find_snoc
      internal_error_def new_stats_def dest: verify_user_logged_Inl split: option.splits if_splits sum.splits)

theorem post_view_idempotent_witness:
  "post_view (Some (jwt_sign ''k'' 1 0 None)) ''k'' 0 ''7'' (JNum 5) (snd (post_view (Some (jwt_sign ''k'' 1 0 None)) ''k'' 0 ''7'' (JNum 5) demo_stats)) =
   ((200, Stats_Msg_Code ''User already viewed this project'' 200),
    snd (post_view (Some (jwt_sign ''k'' 1 0 None)) ''k'' 0 ''7'' (JNum 5) demo_stats))"
proof -
  obtain st b c' where e: "post_view (Some (jwt_sign ''k'' 1 0 None)) ''k'' 0 ''7'' (JNum 5) demo_stats = ((st, b), c')"
    by (metis prod.exhaust)
  have "st = 201" using e
    by (simp add: post_view_def stats_auth_def verify_user_logged_sign mg_param_def parse_number_7 demo_stats_def
        demo_doc_def stats_insert_def Let_def)
  then have "post_view (Some (jwt_sign ''k'' 1 0 None)) ''k'' 0 ''7'' (JNum 5) c' =
      ((200, Stats_Msg_Code ''User already viewed this project'' 200), c')"
    using post_view_idempotent[OF e] by simp
  then show ?thesis by (simp only: e snd_conv)
qed

text \<open>C26: PUT /:id/stats adds any number to \<open>funded\<close>: with a truthy
  \<open>fund\<close> that reads as the number \<open>a\<close> and no evaluation or collaboration,
  the caller's document is saved with \<open>funded + a\<close>, also when \<open>a\<close> is
  negative, and the answer is 200.\<close>

theorem put_evaluate_fund:
  assumes "verify_user_logged tok key now = Inr i" "mg_param pid = Some q" "st_online c"
    "find (\<lambda>d. st_user d = i \<and> st_project d = q) (st_docs c) = Some d"
    "ev \<noteq> JStr ''likes''" "ev \<noteq> JStr ''dislikes''" "jv_truthy fund" "js_number fund = Num a"
    "\<not> jv_truthy co"
  shows "put_evaluate tok key now pid ev fund co st c =
    ((200, Stats_Result (d\<lparr>st_funded := st_funded d + a\<rparr>) 200), stats_replace (d\<lparr>st_funded := st_funded d + a\<rparr>) c)"
  using assms
  by (simp add: put_evaluate_def stats_auth_def apply_evaluation_def apply_fund_def apply_collaboration_def Let_def)

theorem put_evaluate_fund_witness:
  "put_evaluate (Some (jwt_sign ''k'' 1 0 None)) ''k'' 0 ''7'' (JStr ''none'') (JNum (-5)) JUndef JUndef demo_stats =
    ((200, Stats_Result (demo_doc\<lparr>st_funded := 5\<rparr>) 200), stats_replace (demo_doc\<lparr>st_funded := 5\<rparr>) demo_stats)"
proof -
  have "put_evaluate (Some (jwt_sign ''k'' 1 0 None)) ''k'' 0 ''7'' (JStr ''none'') (JNum (-5)) JUndef JUndef demo_stats =
    ((200, Stats_Result (demo_doc\<lparr>st_funded := st_funded demo_doc + (-5)\<rparr>) 200),
     stats_replace (demo_doc\<lparr>st_funded := st_funded demo_doc + (-5)\<rparr>) demo_stats)"
    by (rule put_evaluate_fund)
      (auto simp: verify_user_logged_sign mg_param_def parse_number_7 demo_stats_def demo_doc_def)
  then show ?thesis by (simp add: demo_doc_def)
qed

text \<open>C27: when the project id of PUT /:id/stats/views cannot be cast, or the
  database is down, the handler's catch block throws a ReferenceError and
  no response is sent.\<close>

theorem put_views_no_response:
  assumes "verify_user_logged tok key now = Inr i" "mg_param pid = None \<or> \<not> st_online c"
  shows "put_views tok key now pid c = (None, c)"
  using assms by (auto simp: put_views_def stats_auth_def split: option.splits)

theorem put_views_no_response_witness:
  "put_views (Some (jwt_sign ''k'' 1 0 None)) ''k'' 0 ''7'' (demo_stats\<lparr>st_online := False\<rparr>) =
   (None, demo_stats\<lparr>st_online := False\<rparr>)"
  by (rule put_views_no_response) (simp_all add: verify_user_logged_sign)

text \<open>POST /:id/stats/like does not check for an earlier like: the same
  request twice leaves two liked documents of the caller for one project.\<close>

theorem post_like_duplicates:
  "length (filter (\<lambda>d. st_user d = 1 \<and> st_project d = 7 \<and> st_like d)
     (st_docs (snd (post_like (Some (jwt_sign ''k'' 1 0 None)) ''k'' 0 ''7'' (JNum 3)
        (snd (post_like (Some (jwt_sign ''k'' 1 0 None)) ''k'' 0 ''7'' (JNum 3) demo_stats)))))) = 2"
  by (simp add: post_like_def stats_auth_def verify_user_logged_sign mg_param_def parse_number_7 demo_stats_def
      demo_doc_def stats_insert_def new_stats_def Let_def)


text \<open>C28: GET /:id/stats answers 404 exactly when the controller resolves
  to a falsy value (\<open>undefined\<close>, \<open>null\<close>, \<open>false\<close>, 0, the empty
  string); an empty array is truthy, so an empty result is answered 200 with
  an empty body rather than "not found".\<close>

theorem get_project_stats_not_found:
  "(fst (get_project_stats ctrl pid c) = 404 \<longleftrightarrow>
      (\<exists>v. ctrl (parse_number pid) c = Inr v \<and> \<not> ctrl_truthy v)) \<and>
   (ctrl (parse_number pid) c = Inr (Ctrl_Array []) \<longrightarrow> get_project_stats ctrl pid c = (200, Stats_Empty))"
  by (auto simp: get_project_stats_def internal_error_def split: sum.splits)

theorem get_project_stats_not_found_witness:
  "fst (get_project_stats (\<lambda>n c. Inr (Ctrl_Prim JNull)) ''7'' demo_stats) = 404 \<and>
   get_project_stats (\<lambda>n c. Inr (Ctrl_Array [])) ''7'' demo_stats = (200, Stats_Empty)"
  using get_project_stats_not_found[of "\<lambda>n c. Inr (Ctrl_Prim JNull)" "''7''" demo_stats]
    get_project_stats_not_found[of "\<lambda>n c. Inr (Ctrl_Array [])" "''7''" demo_stats]
  by simp

end
