(* ===== verification/Stats_Views.thy ===== *)
theory Stats_Views
  imports Stats_Props
begin

text \<open>
  GET /stats/percentageViews (projectStats.js lines 123-159): the
  \<open>$group\<close> stage as \<open>group_views\<close>, specified by the number of viewed
  documents of each category (\<open>views_of\<close>), and the percentages computed
  from it. The lemmas show that the groups are exactly the categories with
  their view counts, that the unrounded shares add up to 100 whenever some
  document is viewed, that with no view at all every share is NaN, and that
  \<open>toFixed(2)\<close> moves a share by at most half a hundredth.
\<close>

definition views_of :: "stats_doc list \<Rightarrow> jval \<Rightarrow> nat" where
  "views_of ds k = length (filter (\<lambda>d. st_view d \<and> mg_key (st_category d) = k) ds)"

subsection \<open>The grouping stage\<close>

lemma add_view_keys:
  "map fst (add_view gs d) =
     (if mg_key (st_category d) \<in> set (map fst gs) then map fst gs else map fst gs @ [mg_key (st_category d)])"
  by (induction gs d rule: add_view.induct) auto

lemma add_view_map_of:
  "map_of (add_view gs d) k =
     (if k = mg_key (st_category d)
      then Some ((case map_of gs k of None \<Rightarrow> 0 | Some n \<Rightarrow> n) + (if st_view d then 1 else 0))
      else map_of gs k)"
  by (induction gs d rule: add_view.induct) auto

lemma add_view_sum:
  "sum_list (map snd (add_view gs d)) = sum_list (map snd gs) + (if st_view d then 1 else 0)"
  by (induction gs d rule: add_view.induct) auto

lemma group_views_snoc: "group_views (ds @ [d]) = add_view (group_views ds) d"
  by (simp add: group_views_def)

lemma group_views_spec:
  "distinct (map fst (group_views ds)) \<and>
   map_of (group_views ds) = (\<lambda>k. if k \<in> mg_key ` st_category ` set ds then Some (views_of ds k) else None) \<and>
   sum_list (map snd (group_views ds)) = length (filter st_view ds)"
proof (induction ds rule: rev_induct)
  case Nil
  show ?case by (simp add: group_views_def fun_eq_iff)
next
  case (snoc d ds)
  have keys: "set (map fst (group_views ds)) = mg_key ` st_category ` set ds"
  proof -
    have "k \<in> set (map fst (group_views ds)) \<longleftrightarrow> map_of (group_views ds) k \<noteq> None" for k
      by (simp add: map_of_eq_None_iff)
    also have "\<dots> k \<longleftrightarrow> k \<in> mg_key ` st_category ` set ds" for k
      using snoc.IH by simp
    finally show ?thesis by blast
  qed
  show ?case
  proof (intro conjI)
    show "distinct (map fst (group_views (ds @ [d])))"
      using snoc.IH keys by (simp add: group_views_snoc add_view_keys)
    show "map_of (group_views (ds @ [d])) =
      (\<lambda>k. if k \<in> mg_key ` st_category ` set (ds @ [d]) then Some (views_of (ds @ [d]) k) else None)"
      using snoc.IH by (auto simp: fun_eq_iff group_views_snoc add_view_map_of views_of_def
          filter_empty_conv_all image_iff)
    show "sum_list (map snd (group_views (ds @ [d]))) = length (filter st_view (ds @ [d]))"
      using snoc.IH by (simp add: group_views_snoc add_view_sum)
  qed
qed

lemma add_view_ne: "add_view gs d \<noteq> []"
  by (induction gs d rule: add_view.induct) auto

lemma group_views_ne: "ds \<noteq> [] \<Longrightarrow> group_views ds \<noteq> []"
  by (cases ds rule: rev_cases) (simp_all add: group_views_snoc add_view_ne)

lemma sum_shares:
  "(\<Sum>(k, v)\<leftarrow>gs. of_nat v / of_nat t * (100::rat)) = of_nat (sum_list (map snd gs)) / of_nat t * 100"
  by (induction gs) (simp_all add: add_divide_distrib algebra_simps case_prod_unfold)

lemma to_fixed2_100: "to_fixed2 100 = 100"
  by (simp add: to_fixed2_def floor_eq_iff)

lemma to_fixed2_0: "to_fixed2 0 = 0"
  by (simp add: to_fixed2_def floor_eq_iff)

subsection \<open>Properties\<close>

text \<open>C29: whenever some document is viewed, GET /stats/percentageViews answers
  200 with one entry per category (missing categories as null), no category
  twice, and for each its share of all viewed documents, in percent, rounded
  to two decimals.\<close>

theorem percentage_views_lookup:
  assumes "st_online c" "0 < length (filter st_view (st_docs c))"
  shows "\<exists>ps. percentage_views c = (200, Stats_Percentages ps) \<and> distinct (map fst ps) \<and>
    map_of ps = (\<lambda>k. if k \<in> mg_key ` st_category ` set (st_docs c)
       then Some (Num (to_fixed2 (of_nat (views_of (st_docs c) k) /
                                  of_nat (length (filter st_view (st_docs c))) * 100)))
       else None)"
proof -
  let ?T = "length (filter st_view (st_docs c))"
  let ?g = "group_views (st_docs c)"
  let ?f = "\<lambda>v. Num (to_fixed2 (of_nat v / of_nat ?T * 100))"
  note g = group_views_spec[of "st_docs c"]
  have ne: "?g \<noteq> []" using g assms(2) by auto
  have p: "percentage_views c = (200, Stats_Percentages (map (\<lambda>(k, v). (k, ?f v)) ?g))"
    using assms g ne by (simp add: percentage_views_def Let_def)
  have "distinct (map fst (map (\<lambda>(k, v). (k, ?f v)) ?g))"
    using g by (simp add: case_prod_unfold comp_def)
  moreover have "map_of (map (\<lambda>(k, v). (k, ?f v)) ?g) = map_option ?f \<circ> map_of ?g"
    by (rule map_of_map)
  ultimately show ?thesis
    using p g by (auto simp: fun_eq_iff)
qed

theorem percentage_views_lookup_witness:
  "\<exists>ps. percentage_views demo_stats = (200, Stats_Percentages ps) \<and> distinct (map fst ps) \<and>
     map_of ps (JNum 3) = Some (Num 100) \<and> map_of ps (JNum 4) = Some (Num 0)"
proof -
  have "st_online demo_stats" "0 < length (filter st_view (st_docs demo_stats))"
    by (simp_all add: demo_stats_def demo_doc_def)
  from percentage_views_lookup[OF this] show ?thesis
    by (auto simp: demo_stats_def demo_doc_def views_of_def mg_key_def to_fixed2_100 to_fixed2_0)
qed

text \<open>Whenever some document is viewed, the unrounded shares the route
  computes add up to 100 percent.\<close>

theorem percentage_views_shares:
  assumes "st_online c" "0 < length (filter st_view (st_docs c))"
  shows "percentage_views c = (200, Stats_Percentages
      (map (\<lambda>(k, v). (k, Num (to_fixed2 (of_nat v / of_nat (length (filter st_view (st_docs c))) * 100))))
           (group_views (st_docs c)))) \<and>
    (\<Sum>(k, v)\<leftarrow>group_views (st_docs c). of_nat v / of_nat (length (filter st_view (st_docs c))) * (100::rat)) = 100"
proof -
  let ?T = "length (filter st_view (st_docs c))"
  have tot: "sum_list (map snd (group_views (st_docs c))) = ?T"
    using group_views_spec by blast
  then have ne: "group_views (st_docs c) \<noteq> []" using assms(2) by auto
  have "percentage_views c = (200, Stats_Percentages
      (map (\<lambda>(k, v). (k, Num (to_fixed2 (of_nat v / of_nat ?T * 100)))) (group_views (st_docs c))))"
    using assms ne tot by (simp add: percentage_views_def Let_def)
  moreover have "(\<Sum>(k, v)\<leftarrow>group_views (st_docs c). of_nat v / of_nat ?T * (100::rat)) = 100"
    using assms(2) unfolding sum_shares tot by simp
  ultimately show ?thesis by blast
qed

theorem percentage_views_shares_witness:
  "(\<Sum>(k, v)\<leftarrow>group_views (st_docs (demo_stats\<lparr>st_docs := st_docs demo_stats @ [demo_doc\<lparr>st_oid := 2, st_user := 2\<rparr>]\<rparr>)).
     of_nat v / of_nat 2 * (100::rat)) = 100"
proof -
  let ?c = "demo_stats\<lparr>st_docs := st_docs demo_stats @ [demo_doc\<lparr>st_oid := 2, st_user := 2\<rparr>]\<rparr>"
  have "st_online ?c" "0 < length (filter st_view (st_docs ?c))"
    "length (filter st_view (st_docs ?c)) = 2"
    by (simp_all add: demo_stats_def demo_doc_def)
  then have "(\<Sum>(k, v)\<leftarrow>group_views (st_docs ?c).
      of_nat v / of_nat (length (filter st_view (st_docs ?c))) * (100::rat)) = 100"
    using percentage_views_shares[of ?c] by blast
  then show ?thesis unfolding \<open>length (filter st_view (st_docs ?c)) = 2\<close> .
qed

text \<open>C30: when documents exist but none is viewed, the route still answers
  200, with NaN as the percentage of every category (0/0), not the 404 of the
  empty case.\<close>

theorem percentage_views_nan:
  assumes "st_online c" "st_docs c \<noteq> []" "\<forall>d\<in>set (st_docs c). \<not> st_view d"
  shows "percentage_views c = (200, Stats_Percentages (map (\<lambda>(k, v). (k, NaN)) (group_views (st_docs c))))"
proof -
  have z: "sum_list (map snd (group_views (st_docs c))) = 0"
    using group_views_spec[of "st_docs c"] assms(3) by (simp add: filter_empty_conv_all)
  show ?thesis using assms(1) group_views_ne[OF assms(2)] z
    by (simp add: percentage_views_def Let_def case_prod_unfold)
qed

theorem percentage_views_nan_witness:
  "percentage_views (demo_stats\<lparr>st_docs := [demo_doc\<lparr>st_view := False\<rparr>]\<rparr>) =
     (200, Stats_Percentages [(JNum 3, NaN)])"
proof -
  have "percentage_views (demo_stats\<lparr>st_docs := [demo_doc\<lparr>st_view := False\<rparr>]\<rparr>) =
      (200, Stats_Percentages (map (\<lambda>(k, v). (k, NaN))
         (group_views (st_docs (demo_stats\<lparr>st_docs := [demo_doc\<lparr>st_view := False\<rparr>]\<rparr>)))))"
    by (rule percentage_views_nan) (simp_all add: demo_stats_def demo_doc_def)
  then show ?thesis by (simp add: group_views_def demo_doc_def mg_key_def)
qed

text \<open>\<open>toFixed(2)\<close> as the route applies it moves a share by at most
  half a hundredth.\<close>

theorem to_fixed2_bound: "\<bar>to_fixed2 q - q\<bar> \<le> 1 / 200"
proof -
  define y where "y = q * 100 + 1 / 2"
  define f where "f = (of_int \<lfloor>y\<rfloor> :: rat)"
  have a: "f \<le> y" unfolding f_def by (rule of_int_floor_le)
  have b: "y < f + 1" unfolding f_def by linarith
  have e: "to_fixed2 q - q = f / 100 - q" by (simp add: to_fixed2_def f_def y_def)
  have u: "f / 100 - q \<le> 1 / 200" using a by (simp add: y_def field_simps)
  have l: "- (1 / 200) \<le> f / 100 - q" using b by (simp add: y_def field_simps)
  show ?thesis unfolding e abs_le_iff using u l by linarith
qed

end
