(* ===== verification/Reviews.thy ===== *)
theory Reviews
  imports Js_Values Middleware
begin

text \<open>
  The project review routes (src/src/routes/projectReviews.js) over the
  MongoDB collection of \<open>ReviewsProjects\<close> documents, whose schema is
  src/src/models/reviewsProjects.js. The collection is a list in natural
  (insertion) order, so \<open>find\<close> lists matches in that order and
  \<open>findOne\<close> is the first match. A document's \<open>_id\<close> is an ObjectId, here
  a number below \<open>16^24\<close> generated by a counter; a path parameter names it by
  its 24 hexadecimal digits (either case), and any other string fails the
  ObjectId cast (bson 5 and later). The four string fields of a review are
  taken as JSON strings or absent (\<open>field\<close>); \<open>idCreator\<close> and \<open>rating\<close> are
  any JSON value. A \<open>Number\<close> path receiving NaN, a \<open>Boolean\<close> path a value
  Mongoose cannot cast, and a required path receiving \<open>undefined\<close> or
  \<open>null\<close> make \<open>save\<close> throw.
\<close>

record review_doc =
  rv_oid :: nat
  rv_user :: rat
  rv_userUrl :: string
  rv_projectName :: string
  rv_creator :: rat
  rv_project :: rat
  rv_projectUrl :: string
  rv_body :: string
  rv_rating :: bool
  rv_creationDate :: nat

record review_coll =
  rv_docs :: "review_doc list"
  rv_next :: nat
  rv_online :: bool

datatype review_body =
    Review_Msg string
  | Review_Msg_Code string nat
  | Review_Doc review_doc
  | Review_List "review_doc list"
  | Review_Unauthorized

definition review_error :: "review_body response" where
  "review_error = (500, Review_Msg ''Internal Server Error'')"

definition review_auth :: "token option \<Rightarrow> string \<Rightarrow> nat \<Rightarrow> review_body response + uid" where
  "review_auth tok key now =
     (case verify_user_logged tok key now of Inl st \<Rightarrow> Inl (st, Review_Unauthorized) | Inr i \<Rightarrow> Inr i)"

subsection \<open>ObjectId casting\<close>

definition hex_char :: "nat \<Rightarrow> char" where
  "hex_char d = char_of (if d < 10 then 48 + d else 87 + d)"

fun hex_pad :: "nat \<Rightarrow> nat \<Rightarrow> string" where
  "hex_pad 0 n = []"
| "hex_pad (Suc w) n = hex_pad w (n div 16) @ [hex_char (n mod 16)]"

definition hex_val :: "char \<Rightarrow> nat option" where
  "hex_val c =
     (let n = (of_char c :: nat)
      in if 48 \<le> n \<and> n \<le> 57 then Some (n - 48)
         else if 97 \<le> n \<and> n \<le> 102 then Some (n - 87)
         else if 65 \<le> n \<and> n \<le> 70 then Some (n - 55) else None)"

fun hex_digits_val :: "nat \<Rightarrow> string \<Rightarrow> nat option" where
  "hex_digits_val acc [] = Some acc"
| "hex_digits_val acc (c # cs) =
     (case hex_val c of None \<Rightarrow> None | Some d \<Rightarrow> hex_digits_val (16 * acc + d) cs)"

definition oid_cast :: "string \<Rightarrow> nat option" where
  "oid_cast s = (if length s = 24 then hex_digits_val 0 s else None)"

text \<open>The cast of a required \<open>Boolean\<close> path: \<open>undefined\<close> and \<open>null\<close> fail
  the required validator.\<close>

definition mg_required_bool :: "jval \<Rightarrow> bool option" where
  "mg_required_bool v =
     (case v of
        JUndef \<Rightarrow> None
      | JNull \<Rightarrow> None
      | JBool b \<Rightarrow> Some b
      | JNum q \<Rightarrow> if q = 1 then Some True else if q = 0 then Some False else None
      | JStr s \<Rightarrow> if s \<in> {''true'', ''1'', ''yes''} then Some True
                 else if s \<in> {''false'', ''0'', ''no''} then Some False else None)"

text \<open>The \<open>Number\<close> cast of a query on a \<open>Number\<close> path (NaN fails).\<close>

definition mg_number :: "jsnum \<Rightarrow> rat option" where
  "mg_number n = (case n of Num q \<Rightarrow> Some q | NaN \<Rightarrow> None)"

text \<open>JavaScript truthiness of the array \<open>find\<close> resolves to: an array is an
  object, truthy even when empty.\<close>

definition array_truthy :: "'a list \<Rightarrow> bool" where
  "array_truthy xs = True"

subsection \<open>Handlers\<close>

text \<open>GET /:id/reviews, /reviewing/byUser/:id and /reviewed/byUser/:id
  (lines 9-48): the matching reviews in collection order. \<open>find\<close> always
  yields an array, so the \<open>!reviews\<close> branch answering 404 never runs.\<close>

definition reviews_query :: "(review_doc \<Rightarrow> rat) \<Rightarrow> string \<Rightarrow> review_coll \<Rightarrow> review_body response" where
  "reviews_query f pid c =
     (case mg_number (parse_number pid) of
        None \<Rightarrow> review_error
      | Some q \<Rightarrow>
          if \<not> rv_online c then review_error
          else let reviews = filter (\<lambda>d. f d = q) (rv_docs c)
               in if \<not> array_truthy reviews then (404, Review_Msg_Code ''Reviews not found'' 404)
                  else (200, Review_List reviews))"

definition reviews_by_project :: "string \<Rightarrow> review_coll \<Rightarrow> review_body response" where
  "reviews_by_project pid c = reviews_query rv_project pid c"

definition reviews_by_user :: "string \<Rightarrow> review_coll \<Rightarrow> review_body response" where
  "reviews_by_user uid c = reviews_query rv_user uid c"

definition reviews_by_creator :: "string \<Rightarrow> review_coll \<Rightarrow> review_body response" where
  "reviews_by_creator uid c = reviews_query rv_creator uid c"

text \<open>POST /:id/reviews (lines 50-72): five fields must be truthy (400);
  then the document is built, cast and validated by \<open>save\<close> (500 when
  \<open>Number(idCreator)\<close> or \<open>Number(req.params.id)\<close> is NaN or \<open>rating\<close>
  cannot be cast), and appended with a fresh \<open>_id\<close> and the current time as
  \<open>creationDate\<close>.\<close>

definition post_review ::
  "token option \<Rightarrow> string \<Rightarrow> nat \<Rightarrow> string \<Rightarrow> field \<Rightarrow> jval \<Rightarrow> field \<Rightarrow> field \<Rightarrow> jval \<Rightarrow> field \<Rightarrow>
   review_coll \<Rightarrow> review_body response \<times> review_coll" where
  "post_review tok key now pid body rating userUrl projectName idCreator projectUrl c =
     (case review_auth tok key now of
        Inl r \<Rightarrow> (r, c)
      | Inr i \<Rightarrow>
          if \<not> js_truthy body \<or> \<not> js_truthy userUrl \<or> \<not> js_truthy projectName \<or>
             \<not> jv_truthy idCreator \<or> \<not> js_truthy projectUrl
          then ((400, Review_Msg_Code ''Missing required fields'' 400), c)
          else (case (mg_number (js_number idCreator), mg_number (parse_number pid), mg_required_bool rating) of
                  (Some cr, Some q, Some b) \<Rightarrow>
                    if \<not> rv_online c then (review_error, c)
                    else let d = \<lparr>rv_oid = rv_next c, rv_user = of_nat i, rv_userUrl = fval userUrl,
                                 rv_projectName = fval projectName, rv_creator = cr, rv_project = q,
                                 rv_projectUrl = fval projectUrl, rv_body = fval body, rv_rating = b,
                                 rv_creationDate = now\<rparr>
                         in ((201, Review_Doc d),
                             c\<lparr>rv_docs := rv_docs c @ [d], rv_next := Suc (rv_next c)\<rparr>)
                | _ \<Rightarrow> (review_error, c)))"

text \<open>DELETE /:id/reviews/:idReview (lines 74-89): 404 when no review has the
  id, 403 when the caller is not its author, otherwise \<open>deleteOne\<close>. The
  project id of the path is not consulted.\<close>

definition delete_review ::
  "token option \<Rightarrow> string \<Rightarrow> nat \<Rightarrow> string \<Rightarrow> string \<Rightarrow> review_coll \<Rightarrow> review_body response \<times> review_coll" where
  "delete_review tok key now pid rid c =
     (case review_auth tok key now of
        Inl r \<Rightarrow> (r, c)
      | Inr i \<Rightarrow>
          (case oid_cast rid of
             None \<Rightarrow> ((500, Review_Msg_Code ''Internal Server Error'' 500), c)
           | Some oid \<Rightarrow>
               if \<not> rv_online c then ((500, Review_Msg_Code ''Internal Server Error'' 500), c)
               else (case find (\<lambda>d. rv_oid d = oid) (rv_docs c) of
                       None \<Rightarrow> ((404, Review_Msg_Code ''Review not found'' 404), c)
                     | Some d \<Rightarrow>
                         if rv_user d \<noteq> of_nat i then ((403, Review_Msg_Code ''Forbidden'' 403), c)
                         else ((200, Review_Msg_Code ''Review deleted'' 200),
                               c\<lparr>rv_docs := filter (\<lambda>d. rv_oid d \<noteq> oid) (rv_docs c)\<rparr>))))"

subsection \<open>Lemmas on ObjectId strings\<close>

lemma hex_val_hex_char: "d < 16 \<Longrightarrow> hex_val (hex_char d) = Some d"
  by (simp add: hex_char_def hex_val_def)

lemma hex_digits_val_append:
  "hex_digits_val acc (xs @ ys) = (case hex_digits_val acc xs of None \<Rightarrow> None | Some a \<Rightarrow> hex_digits_val a ys)"
  by (induction xs arbitrary: acc) (auto split: option.splits)

lemma length_hex_pad [simp]: "length (hex_pad w n) = w"
  by (induction w arbitrary: n) simp_all

lemma hex_digits_val_hex_pad:
  "n < 16 ^ w \<Longrightarrow> hex_digits_val acc (hex_pad w n) = Some (acc * 16 ^ w + n)"
proof (induction w arbitrary: n)
  case 0
  then show ?case by simp
next
  case (Suc w)
  have "n div 16 < 16 ^ w" using Suc.prems by (simp add: div_less_iff_less_mult mult.commute)
  then have "hex_digits_val acc (hex_pad w (n div 16)) = Some (acc * 16 ^ w + n div 16)"
    by (rule Suc.IH)
  moreover have "16 * (acc * 16 ^ w + n div 16) + n mod 16 = acc * 16 ^ Suc w + n"
    by (simp add: algebra_simps)
  ultimately show ?case by (simp add: hex_digits_val_append hex_val_hex_char)
qed

end
