(* ===== verification/Reviews_Props.thy ===== *)
theory Reviews_Props
  imports Reviews
begin

text \<open>
  The review collection as a state machine: the invariant \<open>reviews_wf\<close>
  (distinct \<open>_id\<close>s below the counter), every route of projectReviews.js as
  one step \<open>review_step\<close>, and the collections reachable from an empty one.
  The lemmas show that only a review's author deletes it, the answers of the
  create and delete routes on their branches, that a created review is listed
  by its project, that the listing routes never answer 404, and that the id a
  client reads from a created review names it again.
\<close>

definition reviews_wf :: "review_coll \<Rightarrow> bool" where
  "reviews_wf c \<longleftrightarrow> distinct (map rv_oid (rv_docs c)) \<and> (\<forall>d\<in>set (rv_docs c). rv_oid d < rv_next c)"

text \<open>The schema's validators (models/reviewsProjects.js lines 5-43): a
  required \<open>String\<close> path refuses the empty string, so the four string
  fields are non-empty; the author id is the natural number the identity
  middleware resolved.\<close>

definition review_schema_ok :: "review_doc \<Rightarrow> bool" where
  "review_schema_ok d \<longleftrightarrow>
     rv_userUrl d \<noteq> [] \<and> rv_projectName d \<noteq> [] \<and> rv_projectUrl d \<noteq> [] \<and> rv_body d \<noteq> [] \<and>
     (\<exists>n. rv_user d = of_nat n)"

datatype review_request =
    Get_Reviews string
  | Get_Reviews_By_User string
  | Get_Reviews_By_Creator string
  | Post_Review "token option" string field jval field field jval field
  | Delete_Review "token option" string string
  | Reviews_Online bool

fun review_step :: "string \<Rightarrow> nat \<Rightarrow> review_request \<Rightarrow> review_coll \<Rightarrow> review_coll" where
  "review_step key now (Get_Reviews pid) c = c"
| "review_step key now (Get_Reviews_By_User u) c = c"
| "review_step key now (Get_Reviews_By_Creator u) c = c"
| "review_step key now (Post_Review tok pid body rating uu pn ic pu) c =
     snd (post_review tok key now pid body rating uu pn ic pu c)"
| "review_step key now (Delete_Review tok pid rid) c = snd (delete_review tok key now pid rid c)"
| "review_step key now (Reviews_Online b) c = c\<lparr>rv_online := b\<rparr>"

inductive reviews_reachable :: "string \<Rightarrow> review_coll \<Rightarrow> bool" for key where
  init: "reviews_reachable key \<lparr>rv_docs = [], rv_next = 0, rv_online = True\<rparr>"
| step: "reviews_reachable key c \<Longrightarrow> reviews_reachable key (review_step key now rq c)"

text \<open>Sample collection: one review of project 7 by user 1.\<close>

definition demo_review :: review_doc where
  "demo_review = \<lparr>rv_oid = 0, rv_user = 1, rv_userUrl = ''bob'', rv_projectName = ''p'', rv_creator = 3,
     rv_project = 7, rv_projectUrl = ''p7'', rv_body = ''nice'', rv_rating = True, rv_creationDate = 5\<rparr>"

definition demo_reviews :: review_coll where
  "demo_reviews = \<lparr>rv_docs = [demo_review], rv_next = 1, rv_online = True\<rparr>"

subsection \<open>Lemmas\<close>

lemma review_auth_Inr: "review_auth tok key now = Inr i \<longleftrightarrow> verify_user_logged tok key now = Inr i"
  by (auto simp: review_auth_def split: sum.splits)

lemma post_review_cases:
  "snd (post_review tok key now pid body rating uu pn ic pu c) = c \<or>
   (\<exists>d. rv_oid d = rv_next c \<and>
      rv_docs (snd (post_review tok key now pid body rating uu pn ic pu c)) = rv_docs c @ [d] \<and>
      rv_next (snd (post_review tok key now pid body rating uu pn ic pu c)) = Suc (rv_next c))"
  by (auto simp: post_review_def Let_def split: sum.splits option.splits)

lemma delete_review_cases:
  "snd (delete_review tok key now pid rid c) = c \<or>
   (\<exists>oid. snd (delete_review tok key now pid rid c) = c\<lparr>rv_docs := filter (\<lambda>d. rv_oid d \<noteq> oid) (rv_docs c)\<rparr>)"
  by (auto simp: delete_review_def split: sum.splits option.splits)

lemma reviews_wf_append:
  "reviews_wf c \<Longrightarrow> rv_oid d = rv_next c \<Longrightarrow> rv_docs c' = rv_docs c @ [d] \<Longrightarrow>
   rv_next c' = Suc (rv_next c) \<Longrightarrow> reviews_wf c'"
  by (auto simp: reviews_wf_def less_Suc_eq)

lemma reviews_wf_filter:
  "reviews_wf c \<Longrightarrow> reviews_wf (c\<lparr>rv_docs := filter P (rv_docs c)\<rparr>)"
  by (auto simp: reviews_wf_def distinct_map_filter)

lemma review_step_wf: "reviews_wf c \<Longrightarrow> reviews_wf (review_step key now rq c)"
proof (cases rq)
  case (Post_Review tok pid body rating uu pn ic pu)
  moreover assume "reviews_wf c"
  ultimately show ?thesis
    using post_review_cases[of tok key now pid body rating uu pn ic pu c]
    by (auto intro: reviews_wf_append)
next
  case (Delete_Review tok pid rid)
  moreover assume "reviews_wf c"
  ultimately show ?thesis
    using delete_review_cases[of tok key now pid rid c] by (auto intro: reviews_wf_filter)
qed (simp_all add: reviews_wf_def)

lemma post_review_docs:
  "rv_docs (snd (post_review tok key now pid body rating uu pn ic pu c)) = rv_docs c \<or>
   (\<exists>d. review_schema_ok d \<and> rv_docs (snd (post_review tok key now pid body rating uu pn ic pu c)) = rv_docs c @ [d])"
  by (auto simp: post_review_def review_schema_ok_def js_truthy_iff Let_def split: sum.splits option.splits)

lemma review_step_schema:
  "\<forall>d\<in>set (rv_docs c). review_schema_ok d \<Longrightarrow>
   \<forall>d\<in>set (rv_docs (review_step key now rq c)). review_schema_ok d"
proof (cases rq)
  case (Post_Review tok pid body rating uu pn ic pu)
  moreover assume "\<forall>d\<in>set (rv_docs c). review_schema_ok d"
  ultimately show ?thesis using post_review_docs[of tok key now pid body rating uu pn ic pu c] by auto
next
  case (Delete_Review tok pid rid)
  moreover assume "\<forall>d\<in>set (rv_docs c). review_schema_ok d"
  ultimately show ?thesis using delete_review_cases[of tok key now pid rid c] by auto
qed simp_all

subsection \<open>Properties\<close>

text \<open>C31: DELETE /:id/reviews/:idReview changes the collection only when the
  caller's token resolves to the author of the review the id names; it then
  answers 200 and removes exactly the documents with that id.\<close>

theorem delete_review_only_owner:
  assumes "delete_review tok key now pid rid c = (r, c')" "c' \<noteq> c"
  shows "\<exists>i oid d. verify_user_logged tok key now = Inr i \<and> oid_cast rid = Some oid \<and>
    find (\<lambda>d. rv_oid d = oid) (rv_docs c) = Some d \<and> rv_user d = of_nat i \<and> fst r = 200 \<and>
    c' = c\<lparr>rv_docs := filter (\<lambda>d. rv_oid d \<noteq> oid) (rv_docs c)\<rparr>"
  using assms by (auto simp: delete_review_def review_auth_def split: sum.splits option.splits if_splits)

theorem delete_review_only_owner_witness:
  "snd (delete_review (Some (jwt_sign ''k'' 1 0 None)) ''k'' 0 ''7'' (hex_pad 24 0) demo_reviews) =
   demo_reviews\<lparr>rv_docs := []\<rparr>"
proof -
  have h: "oid_cast (hex_pad 24 0) = Some 0" by (simp add: oid_cast_def hex_digits_val_hex_pad)
  obtain r c' where e: "delete_review (Some (jwt_sign ''k'' 1 0 None)) ''k'' 0 ''7'' (hex_pad 24 0) demo_reviews = (r, c')"
    by (metis prod.exhaust)
  have "c' \<noteq> demo_reviews" using e
    by (auto simp: delete_review_def review_auth_def verify_user_logged_sign h demo_reviews_def demo_review_def)
  from delete_review_only_owner[OF e this] h have "c' = demo_reviews\<lparr>rv_docs := []\<rparr>"
    by (auto simp: demo_reviews_def demo_review_def)
  then show ?thesis by (simp only: e snd_conv)
qed

text \<open>A delete request by a logged-in user who is not the author of the
  named review is answered 403 and changes nothing.\<close>

theorem delete_review_forbidden:
  assumes "verify_user_logged tok key now = Inr i" "oid_cast rid = Some oid" "rv_online c"
    "find (\<lambda>d. rv_oid d = oid) (rv_docs c) = Some d" "rv_user d \<noteq> of_nat i"
  shows "delete_review tok key now pid rid c = ((403, Review_Msg_Code ''Forbidden'' 403), c)"
  using assms by (simp add: delete_review_def review_auth_def)

theorem delete_review_forbidden_witness:
  "delete_review (Some (jwt_sign ''k'' 2 0 None)) ''k'' 0 ''7'' (hex_pad 24 0) demo_reviews =
   ((403, Review_Msg_Code ''Forbidden'' 403), demo_reviews)"
  by (rule delete_review_forbidden[where d = demo_review])
    (auto simp: verify_user_logged_sign oid_cast_def hex_digits_val_hex_pad demo_reviews_def demo_review_def)

text \<open>C32: a review created with answer 201 carries the caller's id and the
  submitted body, takes the next id, is appended to the collection, and
  GET /:id/reviews for the same project then lists the earlier reviews of
  that project followed by it.\<close>

theorem post_review_then_list:
  assumes "post_review tok key now pid body rating uu pn ic pu c = ((201, b), c')"
  shows "\<exists>i d. verify_user_logged tok key now = Inr i \<and> b = Review_Doc d \<and>
    rv_user d = of_nat i \<and> rv_body d = fval body \<and> rv_oid d = rv_next c \<and> rv_docs c' = rv_docs c @ [d] \<and>
    reviews_by_project pid c' = (200, Review_List (filter (\<lambda>x. rv_project x = rv_project d) (rv_docs c) @ [d]))"
  using assms
  by (auto simp: post_review_def review_auth_def reviews_by_project_def reviews_query_def review_error_def
      array_truthy_def Let_def dest: verify_user_logged_Inl split: sum.splits option.splits if_splits)

theorem post_review_then_list_witness:
  "reviews_by_project ''7'' (snd (post_review (Some (jwt_sign ''k'' 1 0 None)) ''k'' 5 ''7'' (Some ''nice'')
     (JBool True) (Some ''bob'') (Some ''p'') (JNum 3) (Some ''p7'')
     \<lparr>rv_docs = [], rv_next = 0, rv_online = True\<rparr>)) =
   (200, Review_List [demo_review])"
proof -
  obtain r c' where e: "post_review (Some (jwt_sign ''k'' 1 0 None)) ''k'' 5 ''7'' (Some ''nice'')
     (JBool True) (Some ''bob'') (Some ''p'') (JNum 3) (Some ''p7'')
     \<lparr>rv_docs = [], rv_next = 0, rv_online = True\<rparr> = (r, c')"
    by (metis prod.exhaust)
  have p: "parse_number ''7'' = Num 7"
    by (simp add: parse_number_def trim_js_def unsigned_decimal_def digit_val_def is_js_space_def)
  have r: "r = (201, Review_Doc demo_review)" using e
    by (simp add: post_review_def review_auth_def verify_user_logged_sign p mg_number_def mg_required_bool_def
        demo_reviews_def demo_review_def Let_def)
  have e': "post_review (Some (jwt_sign ''k'' 1 0 None)) ''k'' 5 ''7'' (Some ''nice'')
     (JBool True) (Some ''bob'') (Some ''p'') (JNum 3) (Some ''p7'')
     \<lparr>rv_docs = [], rv_next = 0, rv_online = True\<rparr> = ((201, Review_Doc demo_review), c')"
    using e r by simp
  show ?thesis unfolding e snd_conv
    using post_review_then_list[OF e'] by (auto simp: demo_review_def)
qed

text \<open>C33: a review request from a logged-in user in which body, userUrl,
  projectName, idCreator or projectUrl is falsy is answered 400 and changes
  nothing.\<close>

theorem post_review_missing_fields:
  assumes "verify_user_logged tok key now = Inr i"
    "\<not> js_truthy body \<or> \<not> js_truthy uu \<or> \<not> js_truthy pn \<or> \<not> jv_truthy ic \<or> \<not> js_truthy pu"
  shows "post_review tok key now pid body rating uu pn ic pu c =
    ((400, Review_Msg_Code ''Missing required fields'' 400), c)"
  using assms by (auto simp: post_review_def review_auth_def)

theorem post_review_missing_fields_witness:
  "post_review (Some (jwt_sign ''k'' 1 0 None)) ''k'' 5 ''7'' (Some ''nice'') (JBool True) (Some ''bob'')
     (Some ''p'') (JNum 0) (Some ''p7'') demo_reviews =
   ((400, Review_Msg_Code ''Missing required fields'' 400), demo_reviews)"
  by (rule post_review_missing_fields) (simp_all add: verify_user_logged_sign)

text \<open>The three listing routes never answer 404: \<open>find\<close> resolves to an
  array, which is truthy even when empty, so their not-found branch is dead.\<close>

theorem reviews_lists_never_404:
  "fst (reviews_by_project pid c) \<noteq> 404 \<and> fst (reviews_by_user u c) \<noteq> 404 \<and>
   fst (reviews_by_creator u c) \<noteq> 404"
  by (simp add: reviews_by_project_def reviews_by_user_def reviews_by_creator_def reviews_query_def
      array_truthy_def review_error_def Let_def split: option.splits)

text \<open>The 24-digit hexadecimal string of a review id, as a client reads it
  from a created review, casts back to that id in the delete route.\<close>

theorem oid_cast_hex_pad: "n < 16 ^ 24 \<Longrightarrow> oid_cast (hex_pad 24 n) = Some n"
  by (simp add: oid_cast_def hex_digits_val_hex_pad)

theorem oid_cast_hex_pad_witness: "oid_cast (hex_pad 24 255) = Some 255"
  by (rule oid_cast_hex_pad) simp

text \<open>Every review collection reachable from an empty one by the review
  routes keeps distinct ids below the id counter.\<close>

theorem reviews_reachable_wf: "reviews_reachable key c \<Longrightarrow> reviews_wf c"
proof (induction rule: reviews_reachable.induct)
  case init
  show ?case by (simp add: reviews_wf_def)
next
  case (step c now rq)
  from step.IH show ?case by (rule review_step_wf)
qed

theorem reviews_reachable_wf_witness:
  "reviews_wf (review_step ''k'' 5 (Post_Review (Some (jwt_sign ''k'' 1 0 None)) ''7'' (Some ''nice'')
     (JBool True) (Some ''bob'') (Some ''p'') (JNum 3) (Some ''p7'')) \<lparr>rv_docs = [], rv_next = 0, rv_online = True\<rparr>)"
  by (rule reviews_reachable_wf[OF reviews_reachable.step[OF reviews_reachable.init]])

text \<open>C34: every review document in a collection reachable from an empty one
  satisfies the schema: its four string fields are non-empty and its author
  is a natural-number account id.\<close>

theorem reviews_reachable_schema:
  "reviews_reachable key c \<Longrightarrow> \<forall>d\<in>set (rv_docs c). review_schema_ok d"
proof (induction rule: reviews_reachable.induct)
  case init
  show ?case by simp
next
  case (step c now rq)
  from step.IH show ?case by (rule review_step_schema)
qed

theorem reviews_reachable_schema_witness:
  "review_schema_ok (last (rv_docs (review_step ''k'' 5 (Post_Review (Some (jwt_sign ''k'' 1 0 None)) ''7''
     (Some ''nice'') (JBool True) (Some ''bob'') (Some ''p'') (JNum 3) (Some ''p7''))
     \<lparr>rv_docs = [], rv_next = 0, rv_online = True\<rparr>)))"
proof -
  let ?c = "review_step ''k'' 5 (Post_Review (Some (jwt_sign ''k'' 1 0 None)) ''7''
     (Some ''nice'') (JBool True) (Some ''bob'') (Some ''p'') (JNum 3) (Some ''p7''))
     \<lparr>rv_docs = [], rv_next = 0, rv_online = True\<rparr>"
  have "\<forall>d\<in>set (rv_docs ?c). review_schema_ok d"
    by (rule reviews_reachable_schema[OF reviews_reachable.step[OF reviews_reachable.init]])
  moreover have "rv_docs ?c \<noteq> []"
    by (simp add: post_review_def review_auth_def verify_user_logged_sign parse_number_def trim_js_def
        unsigned_decimal_def digit_val_def is_js_space_def mg_number_def mg_required_bool_def Let_def)
  ultimately show ?thesis by simp
qed

end
