(* ===== verification/Accounts.thy ===== *)
theory Accounts
  imports Server
begin

text \<open>
  An abstract specification of the account store the auth routes promise:
  a finite map from account id to username, e-mail, password digest and
  verified flag, changed only by creating an account under an unused id with
  a username and an e-mail no account has and a bcrypt digest of the
  password, and by setting the verified flag of an existing account. The
  refinement lemma shows that every step of the auth server (\<open>auth_step\<close>),
  run one request at a time on a well-formed table, is such a change or none
  at all, under the mapping \<open>acct_abs\<close> that reads the rows of the table.
\<close>

record account =
  acc_username :: string
  acc_email :: string
  acc_password :: digest
  acc_verified :: bool

type_synonym accounts = "uid \<rightharpoonup> account"

definition row_account :: "user_row \<Rightarrow> account" where
  "row_account r = \<lparr>acc_username = username r, acc_email = email r, acc_password = hashPassword r,
     acc_verified = verifiedEmail r\<rparr>"

definition acct_abs :: "users_db \<Rightarrow> accounts" where
  "acct_abs d = map_of (map (\<lambda>r. (user_id r, row_account r)) (rows d))"

inductive acct_step :: "accounts \<Rightarrow> accounts \<Rightarrow> bool" where
  stutter: "acct_step A A"
| create: "i \<notin> dom A \<Longrightarrow> (\<forall>a\<in>ran A. acc_username a \<noteq> u \<and> acc_email a \<noteq> e) \<Longrightarrow>
    acct_step A (A(i \<mapsto> \<lparr>acc_username = u, acc_email = e, acc_password = bun_hash salt pw, acc_verified = False\<rparr>))"
| verify: "A i = Some a \<Longrightarrow> acct_step A (A(i \<mapsto> a\<lparr>acc_verified := True\<rparr>))"

subsection \<open>The mapping\<close>

lemma acct_abs_dom: "dom (acct_abs d) = user_id ` set (rows d)"
  by (simp add: acct_abs_def dom_map_of_conv_image_fst image_image)

lemma acct_abs_ran: "a \<in> ran (acct_abs d) \<Longrightarrow> \<exists>r\<in>set (rows d). a = row_account r"
  by (auto simp: acct_abs_def ran_def dest!: map_of_SomeD)

lemma acct_abs_append:
  "user_id r \<notin> user_id ` set (rows d) \<Longrightarrow>
   acct_abs (d\<lparr>rows := rows d @ [r], next_id := n\<rparr>) = (acct_abs d)(user_id r \<mapsto> row_account r)"
proof -
  assume "user_id r \<notin> user_id ` set (rows d)"
  then have "map_of (map (\<lambda>r. (user_id r, row_account r)) (rows d)) (user_id r) = None"
    by (simp add: map_of_eq_None_iff image_image)
  then show ?thesis
    by (simp add: acct_abs_def map_of_append map_add_def fun_eq_iff split: option.splits)
qed

lemma acct_abs_set_verified:
  "distinct (map user_id xs) \<Longrightarrow>
   map_of (map (\<lambda>r. (user_id r, row_account r)) (map (\<lambda>r. if user_id r = i then r\<lparr>verifiedEmail := True\<rparr> else r) xs)) =
   (case map_of (map (\<lambda>r. (user_id r, row_account r)) xs) i of
      None \<Rightarrow> map_of (map (\<lambda>r. (user_id r, row_account r)) xs)
    | Some a \<Rightarrow> (map_of (map (\<lambda>r. (user_id r, row_account r)) xs))(i \<mapsto> a\<lparr>acc_verified := True\<rparr>))"
  by (induction xs) (auto simp: row_account_def fun_eq_iff image_iff split: option.splits)

subsection \<open>Each step of the auth server\<close>

lemma register_db_fresh:
  "db (snd (register u e p cp salt k date s)) = db s \<or>
   (\<exists>i. fval u \<notin> username ` set (rows (db s)) \<and> fval e \<notin> email ` set (rows (db s)) \<and>
      insert_user 6 (fval u) (fval e) (bun_hash salt (fval p)) date (user_url (fval u)) (avatar_path k) (db s) =
        Inr (i, db (snd (register u e p cp salt k date s))))"
proof (cases "register_check u e p cp (db s)")
  case (Inl r)
  then show ?thesis by (simp add: register_def)
next
  case (Inr pd)
  note ok = register_check_Inr[OF Inr]
  then show ?thesis using Inr
    by (auto simp: register_def register_insert_def Let_def split: sum.splits)
qed

lemma acct_step_insert:
  assumes "ids_wf d" "u \<notin> username ` set (rows d)" "e \<notin> email ` set (rows d)"
    "insert_user n u e (bun_hash salt pw) date sl pic d = Inr (i, d')"
  shows "acct_step (acct_abs d) (acct_abs d')"
proof -
  from assms(4) have i: "i = next_id d" and d': "d' = d\<lparr>rows := rows d @ [\<lparr>user_id = i, username = u, email = e,
      hashPassword = bun_hash salt pw, registerDate = date, url = sl, verifiedEmail = False,
      profilePictureSrc = pic\<rparr>], next_id := Suc i\<rparr>"
    by (auto dest: insert_user_Inr)
  have fresh: "i \<notin> user_id ` set (rows d)" using assms(1) i by (auto simp: ids_wf_def)
  have "acct_abs d' = (acct_abs d)(i \<mapsto> \<lparr>acc_username = u, acc_email = e, acc_password = bun_hash salt pw,
      acc_verified = False\<rparr>)"
    using acct_abs_append[of _ d] fresh unfolding d' by (simp add: row_account_def)
  moreover have "i \<notin> dom (acct_abs d)" using fresh by (simp add: acct_abs_dom)
  moreover have "\<forall>a\<in>ran (acct_abs d). acc_username a \<noteq> u \<and> acc_email a \<noteq> e"
    using assms(2,3) by (auto simp: row_account_def dest!: acct_abs_ran)
  ultimately show ?thesis by (auto intro: acct_step.create)
qed

lemma acct_step_update:
  assumes "ids_wf d" "update_verified i d = Inr (n, d')"
  shows "acct_step (acct_abs d) (acct_abs d')"
proof -
  from assms(2) have d': "d' = d\<lparr>rows := map (\<lambda>r. if user_id r = i then r\<lparr>verifiedEmail := True\<rparr> else r) (rows d)\<rparr>"
    by (auto dest: update_verified_Inr)
  have "distinct (map user_id (rows d))" using assms(1) by (simp add: ids_wf_def)
  then have "acct_abs d' = (case acct_abs d i of None \<Rightarrow> acct_abs d | Some a \<Rightarrow> (acct_abs d)(i \<mapsto> a\<lparr>acc_verified := True\<rparr>))"
    unfolding d' acct_abs_def by (simp del: map_map add: acct_abs_set_verified)
  then show ?thesis by (auto intro: acct_step.intros split: option.splits)
qed

lemma acct_abs_online: "acct_abs (d\<lparr>online := b\<rparr>) = acct_abs d"
  by (simp add: acct_abs_def)

subsection \<open>Refinement\<close>

text \<open>C3: on a well-formed table, every request and event of the auth server
  (one at a time) changes the accounts as the abstract specification allows:
  it creates one account under an unused id, with a fresh username and
  e-mail, a bcrypt digest and the flag unset; or it sets the verified flag of
  an existing account; or it leaves them as they are.\<close>

theorem auth_step_refines:
  assumes "users_wf (db s)"
  shows "acct_step (acct_abs (db s)) (acct_abs (db (auth_step api rq s)))"
proof -
  have ids: "ids_wf (db s)" using assms by (simp add: users_wf_def ids_wf_def)
  show ?thesis
  proof (cases rq)
    case (Register u e p cp salt k date)
    from register_db_fresh[of u e p cp salt k date s] show ?thesis
    proof
      assume "db (snd (register u e p cp salt k date s)) = db s"
      with Register show ?thesis by (simp add: acct_step.stutter)
    next
      assume "\<exists>i. fval u \<notin> username ` set (rows (db s)) \<and> fval e \<notin> email ` set (rows (db s)) \<and>
        insert_user 6 (fval u) (fval e) (bun_hash salt (fval p)) date (user_url (fval u)) (avatar_path k) (db s) =
          Inr (i, db (snd (register u e p cp salt k date s)))"
      with Register ids show ?thesis by (auto intro: acct_step_insert)
    qed
  next
    case (Verify_Code c dt)
    from verify_email_code_db[of c dt s] show ?thesis
      using Verify_Code ids by (auto intro: acct_step.stutter acct_step_update)
  qed (simp_all add: login_google_db verify_email_post_db acct_abs_online acct_step.stutter)
qed

theorem auth_step_refines_witness:
  "acct_step (acct_abs (db sample_server))
     (acct_abs (db (auth_step google_stub (Register (Some ''carol'') (Some ''c@d.org'') (Some ''password'')
        (Some ''password'') 3 1 ''02/01/2024'') sample_server)))"
  by (rule auth_step_refines) (simp add: users_wf_def sample_server_def alice_row_def)

end
