(* ===== verification/Http.thy ===== *)
theory Http
  imports Js_Values "HOL-Library.While_Combinator"
begin

text \<open>
  The request pipeline of an Express 4 application, as src/server.js builds
  it. Express and its middleware are libraries the sources only call; their
  behaviour is modelled from their documentation: body-parser 1.x
  (\<open>express.json\<close>, \<open>express.urlencoded\<close>), cors, serve-static, and the
  router's \<open>next()\<close> loop over the application's stack. A request is its
  method, its path (the pathname, without query string), its body as the body
  parser reads it, and its Authorization header. A layer either passes the
  request on (\<open>Go\<close>, with the body parsed so far), passes an error on
  (\<open>Failed\<close>, with its status), or answers (\<open>Stop\<close>).
\<close>

text \<open>A body as the parsers see it: a JSON text is an object, an array, a bare
  primitive (refused in strict mode) or malformed; a form body is its list of
  key/value pairs (keys taken distinct and unbracketed).\<close>

datatype json_text = J_Object "(string \<times> jval) list" | J_Array | J_Primitive | J_Malformed

datatype req_body = No_Body | Json_Body json_text | Form_Body "(string \<times> string) list" | Other_Body

record http_request =
  rq_method :: string
  rq_path :: string
  rq_body :: req_body
  rq_authorization :: "string option"

datatype http_body = Empty | Text string | File string

datatype 'r flow = Go "(string \<times> jval) list" | Failed status | Stop 'r

datatype layer = Json_Parser | Cors | Url_Encoded | Static string string | Error_Handler | Routes

subsection \<open>Paths\<close>

fun split_on :: "char \<Rightarrow> string \<Rightarrow> string list" where
  "split_on c [] = [[]]"
| "split_on c (x # xs) =
     (if x = c then [] # split_on c xs
      else (case split_on c xs of s # ss \<Rightarrow> (x # s) # ss | [] \<Rightarrow> [[x]]))"

text \<open>The segments of a pathname \<open>/a/b\<close>; routes are not strict, so one
  trailing slash is dropped.\<close>

definition path_segments :: "string \<Rightarrow> string list" where
  "path_segments p =
     (let segs = split_on CHR ''/'' (drop 1 p)
      in if segs \<noteq> [] \<and> last segs = [] then butlast segs else segs)"

text \<open>Route paths are matched case-insensitively (Express's default).\<close>

definition seg_eq :: "string \<Rightarrow> string \<Rightarrow> bool" where
  "seg_eq a b \<longleftrightarrow> to_lower a = to_lower b"

datatype pseg = Lit string | Par

fun match_prefix :: "string list \<Rightarrow> string list \<Rightarrow> string list option" where
  "match_prefix [] ss = Some ss"
| "match_prefix (m # ms) [] = None"
| "match_prefix (m # ms) (s # ss) = (if seg_eq m s then match_prefix ms ss else None)"

text \<open>A route pattern such as \<open>/:id/reviews/:idReview\<close> against the segments
  left after the mount path: the parameters in order, or no match. A
  parameter matches one non-empty segment.\<close>

fun match_pattern :: "pseg list \<Rightarrow> string list \<Rightarrow> string list option" where
  "match_pattern [] [] = Some []"
| "match_pattern (Lit l # ps) (s # ss) = (if seg_eq l s then match_pattern ps ss else None)"
| "match_pattern (Par # ps) (s # ss) =
     (if s = [] then None else map_option (Cons s) (match_pattern ps ss))"
| "match_pattern _ _ = None"

definition method_matches :: "string \<Rightarrow> string \<Rightarrow> bool" where
  "method_matches m rm \<longleftrightarrow> m = rm \<or> (m = ''HEAD'' \<and> rm = ''GET'')"

subsection \<open>Layers\<close>

text \<open>\<open>express.json()\<close>: parses a JSON body; a malformed or primitive text is
  a 400 error passed to \<open>next\<close>; any other body leaves \<open>req.body\<close> as it is
  (\<open>{}\<close> to start with).\<close>

definition json_parser :: "req_body \<Rightarrow> (string \<times> jval) list \<Rightarrow> 'r flow" where
  "json_parser rb b =
     (case rb of
        Json_Body (J_Object obj) \<Rightarrow> Go obj
      | Json_Body J_Array \<Rightarrow> Go []
      | Json_Body J_Primitive \<Rightarrow> Failed 400
      | Json_Body J_Malformed \<Rightarrow> Failed 400
      | _ \<Rightarrow> Go b)"

definition url_encoded :: "req_body \<Rightarrow> (string \<times> jval) list \<Rightarrow> 'r flow" where
  "url_encoded rb b = (case rb of Form_Body kv \<Rightarrow> Go (map (\<lambda>(k, v). (k, JStr v)) kv) | _ \<Rightarrow> Go b)"

text \<open>\<open>express.static(dir)\<close> mounted at a path: a GET or HEAD for an existing
  file below the mount path is served; anything else falls through, also a
  path with a segment starting with a dot (dot files are ignored, \<open>..\<close> is
  refused, both as 4xx errors that fall through).\<close>

definition static_file :: "string \<Rightarrow> string \<Rightarrow> string set \<Rightarrow> http_request \<Rightarrow> string option" where
  "static_file mnt dir files r =
     (if rq_method r \<notin> {''GET'', ''HEAD''} then None
      else case match_prefix (path_segments mnt) (path_segments (rq_path r)) of
        None \<Rightarrow> None
      | Some rest \<Rightarrow>
          let f = dir @ concat (map (\<lambda>s. ''/'' @ s) rest)
          in if rest \<noteq> [] \<and> (\<forall>s\<in>set rest. s \<noteq> [] \<and> hd s \<noteq> CHR ''.'') \<and> f \<in> files then Some f else None)"

text \<open>One layer applied to the flow. \<open>answer\<close> embeds the pipeline's own
  answers; \<open>route\<close> is the router mounted last, answering or falling through.
  An error skips every layer but error handlers; an error handler answers only
  an error.\<close>

fun layer_apply ::
  "(status \<Rightarrow> http_body \<Rightarrow> 'r) \<Rightarrow> ((string \<times> jval) list \<Rightarrow> 'r option) \<Rightarrow> string set \<Rightarrow>
   http_request \<Rightarrow> layer \<Rightarrow> 'r flow \<Rightarrow> 'r flow" where
  "layer_apply answer route files r l (Stop x) = Stop x"
| "layer_apply answer route files r Error_Handler (Failed st) = Stop (answer 500 (Text ''Something went wrong!''))"
| "layer_apply answer route files r l (Failed st) = Failed st"
| "layer_apply answer route files r Json_Parser (Go b) = json_parser (rq_body r) b"
| "layer_apply answer route files r Url_Encoded (Go b) = url_encoded (rq_body r) b"
| "layer_apply answer route files r Cors (Go b) =
     (if rq_method r = ''OPTIONS'' then Stop (answer 204 Empty) else Go b)"
| "layer_apply answer route files r (Static mnt dir) (Go b) =
     (case static_file mnt dir files r of Some f \<Rightarrow> Stop (answer 200 (File f)) | None \<Rightarrow> Go b)"
| "layer_apply answer route files r Error_Handler (Go b) = Go b"
| "layer_apply answer route files r Routes (Go b) =
     (case route b of Some x \<Rightarrow> Stop x | None \<Rightarrow> Go b)"

definition is_stop :: "'r flow \<Rightarrow> bool" where
  "is_stop f = (case f of Stop _ \<Rightarrow> True | _ \<Rightarrow> False)"

text \<open>The \<open>next()\<close> loop: the index into the stack and the flow, run while
  layers remain and nobody answered.\<close>

definition stack_loop ::
  "(status \<Rightarrow> http_body \<Rightarrow> 'r) \<Rightarrow> ((string \<times> jval) list \<Rightarrow> 'r option) \<Rightarrow> string set \<Rightarrow>
   http_request \<Rightarrow> layer list \<Rightarrow> (nat \<times> 'r flow) option" where
  "stack_loop answer route files r stack =
     while_option (\<lambda>(i, f). i < length stack \<and> \<not> is_stop f)
       (\<lambda>(i, f). (Suc i, layer_apply answer route files r (stack ! i) f)) (0, Go [])"

text \<open>After the stack, Express's final handler: 404 \<open>Cannot METHOD path\<close>, or
  the status of an unhandled error.\<close>

definition final_handler :: "(status \<Rightarrow> http_body \<Rightarrow> 'r) \<Rightarrow> http_request \<Rightarrow> 'r flow \<Rightarrow> 'r" where
  "final_handler answer r f =
     (case f of
        Stop x \<Rightarrow> x
      | Go b \<Rightarrow> answer 404 (Text (''Cannot '' @ rq_method r @ '' '' @ rq_path r))
      | Failed st \<Rightarrow> answer st (Text ''Error''))"

end
