(* ===== verification/App.thy ===== *)
theory App
  imports Http Server Stats_Props Reviews_Props
begin

text \<open>
  The application of src/server.js: its middleware stack (lines 10-23 and
  57), the three routers mounted under it (src/src/routes/routes.js is not
  among the staged sources: the auth router is mounted at \<open>/auth\<close>, as the
  specification's HTTP table says, and the statistics and review routers at
  \<open>/projects\<close>, an assumption), and the dispatch of a matched route to the
  handler of its component, with the body fields, path parameters and bearer
  token it reads. The application state holds the three stores; the auth
  server's secret and clock are the ones every \<open>verifyUserLogged\<close> uses.
  jsonwebtoken's compact form is a parameter \<open>decode\<close> (the token a string
  denotes); the Google service, the random salt and avatar and the date
  string are inputs as in the auth model, and the controller getProjectStats
  (not staged) is a parameter \<open>ctrl\<close>. A field of a kind a handler's model
  does not cover (a JSON number where a string is read, an object, an array)
  makes the outcome \<open>Unmodelled\<close>.
\<close>

record app_state =
  a_srv :: server
  a_stats :: stats_coll
  a_reviews :: review_coll

record req_env =
  e_salt :: nat
  e_avatar :: nat
  e_date :: string
  e_delay :: nat

datatype app_body = Http_B http_body | Auth_B auth_body | Stats_B stats_body | Review_B review_body

datatype outcome = Answer status app_body | No_Answer | Unmodelled

datatype endpoint =
    E_Register | E_Login | E_Login_Google | E_Verify_Request | E_Verify_Code
  | E_User_Stats | E_Project_Stats | E_Post_View | E_Put_Views | E_Post_Like | E_Put_Evaluate
  | E_Percentages
  | E_Reviews_Project | E_Reviews_By_User | E_Reviews_By_Creator | E_Post_Review | E_Delete_Review

type_synonym route = "string \<times> pseg list \<times> endpoint"

subsection \<open>Route tables\<close>

definition auth_routes :: "route list" where
  "auth_routes =
     [(''POST'', [Lit ''register''], E_Register),
      (''POST'', [Lit ''login''], E_Login),
      (''POST'', [Lit ''login'', Lit ''google''], E_Login_Google),
      (''POST'', [Lit ''verifyEmail''], E_Verify_Request),
      (''GET'', [Lit ''verifyEmail'', Par], E_Verify_Code)]"

definition stats_routes :: "route list" where
  "stats_routes =
     [(''GET'', [Par, Lit ''stats'', Lit ''user''], E_User_Stats),
      (''GET'', [Par, Lit ''stats''], E_Project_Stats),
      (''POST'', [Par, Lit ''stats''], E_Post_View),
      (''PUT'', [Par, Lit ''stats'', Lit ''views''], E_Put_Views),
      (''POST'', [Par, Lit ''stats'', Lit ''like''], E_Post_Like),
      (''PUT'', [Par, Lit ''stats''], E_Put_Evaluate),
      (''GET'', [Lit ''stats'', Lit ''percentageViews''], E_Percentages)]"

definition review_routes :: "route list" where
  "review_routes =
     [(''GET'', [Par, Lit ''reviews''], E_Reviews_Project),
      (''GET'', [Lit ''reviewing'', Lit ''byUser'', Par], E_Reviews_By_User),
      (''GET'', [Lit ''reviewed'', Lit ''byUser'', Par], E_Reviews_By_Creator),
      (''POST'', [Par, Lit ''reviews''], E_Post_Review),
      (''DELETE'', [Par, Lit ''reviews'', Par], E_Delete_Review)]"

definition mounts :: "(string list \<times> route list) list" where
  "mounts = [([''auth''], auth_routes), ([''projects''], stats_routes), ([''projects''], review_routes)]"

text \<open>The first route, in mount and declaration order, whose method and path
  match.\<close>

definition route_match :: "string \<Rightarrow> string list \<Rightarrow> route \<Rightarrow> string list option" where
  "route_match m segs rt =
     (case rt of (rm, pat, e) \<Rightarrow> if method_matches m rm then match_pattern pat segs else None)"

fun first_route :: "string \<Rightarrow> string list \<Rightarrow> route list \<Rightarrow> (endpoint \<times> string list) option" where
  "first_route m segs [] = None"
| "first_route m segs (rt # rts) =
     (case route_match m segs rt of Some ps \<Rightarrow> Some (snd (snd rt), ps) | None \<Rightarrow> first_route m segs rts)"

fun find_route :: "string \<Rightarrow> string list \<Rightarrow> (string list \<times> route list) list \<Rightarrow> (endpoint \<times> string list) option" where
  "find_route m segs [] = None"
| "find_route m segs ((mnt, rts) # ms) =
     (case match_prefix mnt segs of
        Some rest \<Rightarrow> (case first_route m rest rts of Some x \<Rightarrow> Some x | None \<Rightarrow> find_route m segs ms)
      | None \<Rightarrow> find_route m segs ms)"

subsection \<open>Reading the request\<close>

text \<open>\<open>req.body.k\<close> as a JSON value (\<open>undefined\<close> when absent), and as a field
  of the string-typed handlers: absent, a string, or outside their model.\<close>

definition body_val :: "(string \<times> jval) list \<Rightarrow> string \<Rightarrow> jval" where
  "body_val b k = (case map_of b k of None \<Rightarrow> JUndef | Some v \<Rightarrow> v)"

definition body_field :: "(string \<times> jval) list \<Rightarrow> string \<Rightarrow> field option" where
  "body_field b k = (case map_of b k of None \<Rightarrow> Some None | Some (JStr s) \<Rightarrow> Some (Some s) | Some _ \<Rightarrow> None)"

definition body_fields :: "(string \<times> jval) list \<Rightarrow> string list \<Rightarrow> field list option" where
  "body_fields b ks = those (map (body_field b) ks)"

definition auth_answer :: "auth_body response \<Rightarrow> outcome" where
  "auth_answer r = Answer (fst r) (Auth_B (snd r))"

definition stats_answer :: "stats_body response \<Rightarrow> outcome" where
  "stats_answer r = Answer (fst r) (Stats_B (snd r))"

definition review_answer :: "review_body response \<Rightarrow> outcome" where
  "review_answer r = Answer (fst r) (Review_B (snd r))"

subsection \<open>Dispatch\<close>

text \<open>The handler of a matched route with its parameters, on the body the
  parsers left. Protected routes run \<open>verifyUserLogged\<close> before their
  handler reads the body.\<close>

definition run_endpoint ::
  "(string \<Rightarrow> token) \<Rightarrow> google_api \<Rightarrow> stats_ctrl \<Rightarrow> req_env \<Rightarrow> http_request \<Rightarrow> (string \<times> jval) list \<Rightarrow>
   endpoint \<Rightarrow> string list \<Rightarrow> app_state \<Rightarrow> outcome \<times> app_state" where
  "run_endpoint decode api ctrl env r b e ps st =
     (let srv = a_srv st; key = secret srv; now = clock srv;
          tok = map_option decode (rq_authorization r)
      in case (e, ps) of
        (E_Register, []) \<Rightarrow>
          (case body_fields b [''username'', ''email'', ''password'', ''confirmationPassword''] of
             Some [u, em, p, cp] \<Rightarrow>
               let (resp, s') = register u em p cp (e_salt env) (e_avatar env) (e_date env) srv
               in (auth_answer resp, st\<lparr>a_srv := s'\<rparr>)
           | _ \<Rightarrow> (Unmodelled, st))
      | (E_Login, []) \<Rightarrow>
          (case body_fields b [''username'', ''password''] of
             Some [u, p] \<Rightarrow> (auth_answer (login u p srv), st)
           | _ \<Rightarrow> (Unmodelled, st))
      | (E_Login_Google, []) \<Rightarrow>
          (case body_fields b [''token''] of
             Some [t] \<Rightarrow>
               let (resp, s') = login_google t api (e_avatar env) (e_date env) srv
               in (auth_answer resp, st\<lparr>a_srv := s'\<rparr>)
           | _ \<Rightarrow> (Unmodelled, st))
      | (E_Verify_Request, []) \<Rightarrow>
          let (ro, s') = verify_email_post tok srv
          in (case ro of None \<Rightarrow> No_Answer | Some resp \<Rightarrow> auth_answer resp, st\<lparr>a_srv := s'\<rparr>)
      | (E_Verify_Code, [code]) \<Rightarrow>
          let (resp, s') = verify_email_code (decode code) (e_delay env) srv in (auth_answer resp, st\<lparr>a_srv := s'\<rparr>)
      | (E_User_Stats, [pid]) \<Rightarrow> (stats_answer (get_user_stats tok key now pid (a_stats st)), st)
      | (E_Project_Stats, [pid]) \<Rightarrow> (stats_answer (get_project_stats ctrl pid (a_stats st)), st)
      | (E_Post_View, [pid]) \<Rightarrow>
          let (resp, c') = post_view tok key now pid (body_val b ''idCategory'') (a_stats st)
          in (stats_answer resp, st\<lparr>a_stats := c'\<rparr>)
      | (E_Put_Views, [pid]) \<Rightarrow>
          let (ro, c') = put_views tok key now pid (a_stats st)
          in (case ro of None \<Rightarrow> No_Answer | Some resp \<Rightarrow> stats_answer resp, st\<lparr>a_stats := c'\<rparr>)
      | (E_Post_Like, [pid]) \<Rightarrow>
          let (resp, c') = post_like tok key now pid (body_val b ''idCategory'') (a_stats st)
          in (stats_answer resp, st\<lparr>a_stats := c'\<rparr>)
      | (E_Put_Evaluate, [pid]) \<Rightarrow>
          let (resp, c') = put_evaluate tok key now pid (body_val b ''evaluation'') (body_val b ''fund'')
                             (body_val b ''collaboration'') (body_val b ''evaluationStatus'') (a_stats st)
          in (stats_answer resp, st\<lparr>a_stats := c'\<rparr>)
      | (E_Percentages, []) \<Rightarrow> (stats_answer (percentage_views (a_stats st)), st)
      | (E_Reviews_Project, [pid]) \<Rightarrow> (review_answer (reviews_by_project pid (a_reviews st)), st)
      | (E_Reviews_By_User, [u]) \<Rightarrow> (review_answer (reviews_by_user u (a_reviews st)), st)
      | (E_Reviews_By_Creator, [u]) \<Rightarrow> (review_answer (reviews_by_creator u (a_reviews st)), st)
      | (E_Post_Review, [pid]) \<Rightarrow>
          (case body_fields b [''body'', ''userUrl'', ''projectName'', ''projectUrl''] of
             Some [bd, uu, pn, pu] \<Rightarrow>
               let (resp, c') = post_review tok key now pid bd (body_val b ''rating'') uu pn
                                  (body_val b ''idCreator'') pu (a_reviews st)
               in (review_answer resp, st\<lparr>a_reviews := c'\<rparr>)
           | _ \<Rightarrow> (case review_auth tok key now of Inl resp \<Rightarrow> review_answer resp | Inr i \<Rightarrow> Unmodelled, st))
      | (E_Delete_Review, [pid, rid]) \<Rightarrow>
          let (resp, c') = delete_review tok key now pid rid (a_reviews st)
          in (review_answer resp, st\<lparr>a_reviews := c'\<rparr>)
      | _ \<Rightarrow> (Unmodelled, st))"

text \<open>The stack of server.js in registration order: the two body parsers and
  cors (lines 10-12), the four static directories (lines 13-16), the global
  error handler (lines 20-23), and the routes (line 57).\<close>

definition app_stack :: "layer list" where
  "app_stack =
     [Json_Parser, Cors, Url_Encoded,
      Static ''/uploads/projects'' ''uploads/projects'',
      Static ''/uploads/profiles'' ''uploads/profiles'',
      Static ''/uploads/defaultAvatars'' ''uploads/defaultAvatars'',
      Static ''/uploads/defaultBanners'' ''uploads/defaultBanners'',
      Error_Handler, Routes]"

definition app_route ::
  "(string \<Rightarrow> token) \<Rightarrow> google_api \<Rightarrow> stats_ctrl \<Rightarrow> req_env \<Rightarrow> http_request \<Rightarrow> app_state \<Rightarrow>
   (string \<times> jval) list \<Rightarrow> (outcome \<times> app_state) option" where
  "app_route decode api ctrl env r st b =
     map_option (\<lambda>(e, ps). run_endpoint decode api ctrl env r b e ps st)
       (find_route (rq_method r) (path_segments (rq_path r)) mounts)"

definition app_answer :: "app_state \<Rightarrow> status \<Rightarrow> http_body \<Rightarrow> outcome \<times> app_state" where
  "app_answer st s bd = (Answer s (Http_B bd), st)"

text \<open>What the two body parsers leave: the body, or the status of the parse
  error (lines 10 and 12).\<close>

definition parse_body :: "req_body \<Rightarrow> status + (string \<times> jval) list" where
  "parse_body rb =
     (case rb of
        Json_Body (J_Object obj) \<Rightarrow> Inr obj
      | Json_Body J_Array \<Rightarrow> Inr []
      | Json_Body J_Primitive \<Rightarrow> Inl 400
      | Json_Body J_Malformed \<Rightarrow> Inl 400
      | Form_Body kv \<Rightarrow> Inr (map (\<lambda>(k, v). (k, JStr v)) kv)
      | _ \<Rightarrow> Inr [])"

text \<open>The first of the four static directories (lines 13-16) holding the
  requested file.\<close>

definition static_serve :: "string set \<Rightarrow> http_request \<Rightarrow> string option" where
  "static_serve files r =
     (case static_file ''/uploads/projects'' ''uploads/projects'' files r of Some f \<Rightarrow> Some f | None \<Rightarrow>
      case static_file ''/uploads/profiles'' ''uploads/profiles'' files r of Some f \<Rightarrow> Some f | None \<Rightarrow>
      case static_file ''/uploads/defaultAvatars'' ''uploads/defaultAvatars'' files r of Some f \<Rightarrow> Some f | None \<Rightarrow>
      static_file ''/uploads/defaultBanners'' ''uploads/defaultBanners'' files r)"

text \<open>One request through the application: the loop over the stack, then the
  final handler.\<close>

definition app_handle ::
  "(string \<Rightarrow> token) \<Rightarrow> google_api \<Rightarrow> stats_ctrl \<Rightarrow> string set \<Rightarrow> req_env \<Rightarrow> http_request \<Rightarrow> app_state \<Rightarrow>
   outcome \<times> app_state" where
  "app_handle decode api ctrl files env r st =
     (case stack_loop (app_answer st) (app_route decode api ctrl env r st) files r app_stack of
        Some (i, f) \<Rightarrow> final_handler (app_answer st) r f
      | None \<Rightarrow> (No_Answer, st))"

text \<open>The outcomes a route handler can give: never one of the pipeline's own
  answers, and no answer only from the two handlers whose failures escape
  (POST /auth/verifyEmail and PUT /:id/stats/views).\<close>

definition handler_outcome :: "endpoint \<Rightarrow> outcome \<Rightarrow> bool" where
  "handler_outcome e o' =
     (case o' of
        Answer st (Http_B x) \<Rightarrow> False
      | Answer st _ \<Rightarrow> True
      | No_Answer \<Rightarrow> e = E_Verify_Request \<or> e = E_Put_Views
      | Unmodelled \<Rightarrow> True)"

subsection \<open>The composed system\<close>

text \<open>The three stores' invariants together, the initial state (an empty
  table and two empty collections), and the states reachable by requests and
  by the environment: the clock, the MySQL connection, and the one Mongoose
  connection both collections share.\<close>

definition app_wf :: "app_state \<Rightarrow> bool" where
  "app_wf st \<longleftrightarrow> users_wf (db (a_srv st)) \<and> stats_wf (a_stats st) \<and> reviews_wf (a_reviews st)"

definition init_app :: "string \<Rightarrow> nat \<Rightarrow> app_state" where
  "init_app key t = \<lparr>a_srv = init_server key t, a_stats = \<lparr>st_docs = [], st_next = 0, st_online = True\<rparr>,
     a_reviews = \<lparr>rv_docs = [], rv_next = 0, rv_online = True\<rparr>\<rparr>"

inductive app_reachable :: "(string \<Rightarrow> token) \<Rightarrow> google_api \<Rightarrow> stats_ctrl \<Rightarrow> string set \<Rightarrow> app_state \<Rightarrow> bool"
  for decode api ctrl files where
  init: "app_reachable decode api ctrl files (init_app key t)"
| request: "app_reachable decode api ctrl files st \<Longrightarrow>
    app_reachable decode api ctrl files (snd (app_handle decode api ctrl files env r st))"
| clock: "app_reachable decode api ctrl files st \<Longrightarrow>
    app_reachable decode api ctrl files (st\<lparr>a_srv := auth_step api (Advance d) (a_srv st)\<rparr>)"
| mysql: "app_reachable decode api ctrl files st \<Longrightarrow>
    app_reachable decode api ctrl files (st\<lparr>a_srv := auth_step api (Set_Online b) (a_srv st)\<rparr>)"
| mongo: "app_reachable decode api ctrl files st \<Longrightarrow>
    app_reachable decode api ctrl files
      (st\<lparr>a_stats := (a_stats st)\<lparr>st_online := b\<rparr>, a_reviews := (a_reviews st)\<lparr>rv_online := b\<rparr>\<rparr>)"

subsection \<open>The loop and the stack\<close>

lemma foldl_layer_stop: "foldl (\<lambda>f l. layer_apply answer route files r l f) (Stop x) ls = Stop x"
  by (induction ls) simp_all

lemma stack_loop_from:
  "i \<le> length stack \<Longrightarrow>
   \<exists>j. while_option (\<lambda>(i, f). i < length stack \<and> \<not> is_stop f)
        (\<lambda>(i, f). (Suc i, layer_apply answer route files r (stack ! i) f)) (i, f) =
      Some (j, foldl (\<lambda>f l. layer_apply answer route files r l f) f (drop i stack))"
proof (induction "length stack - i" arbitrary: i f)
  case 0
  then show ?case by (simp add: while_option_unfold[of _ _ "(i, f)"])
next
  case (Suc n)
  show ?case
  proof (cases "is_stop f")
    case True
    then obtain x where "f = Stop x" by (cases f) (simp_all add: is_stop_def)
    then show ?thesis by (simp add: while_option_unfold[of _ _ "(i, Stop x)"] foldl_layer_stop is_stop_def)
  next
    case False
    have lt: "i < length stack" using Suc by arith
    have "\<exists>j. while_option (\<lambda>(i, f). i < length stack \<and> \<not> is_stop f)
        (\<lambda>(i, f). (Suc i, layer_apply answer route files r (stack ! i) f))
        (Suc i, layer_apply answer route files r (stack ! i) f) =
      Some (j, foldl (\<lambda>f l. layer_apply answer route files r l f)
                (layer_apply answer route files r (stack ! i) f) (drop (Suc i) stack))"
      using Suc lt by (intro Suc.hyps) auto
    moreover have "drop i stack = stack ! i # drop (Suc i) stack"
      using lt by (simp add: Cons_nth_drop_Suc)
    ultimately show ?thesis
      using lt False by (simp add: while_option_unfold[of _ _ "(i, f)"])
  qed
qed

lemma stack_loop_fold:
  "\<exists>j. stack_loop answer route files r stack =
     Some (j, foldl (\<lambda>f l. layer_apply answer route files r l f) (Go []) stack)"
  unfolding stack_loop_def using stack_loop_from[of 0 stack] by simp

lemma app_handle_eq:
  "app_handle decode api ctrl files env r st =
     (case parse_body (rq_body r) of
        Inl e \<Rightarrow> (Answer 500 (Http_B (Text ''Something went wrong!'')), st)
      | Inr b \<Rightarrow>
          if rq_method r = ''OPTIONS'' then (Answer 204 (Http_B Empty), st)
          else case static_serve files r of
            Some f \<Rightarrow> (Answer 200 (Http_B (File f)), st)
          | None \<Rightarrow>
              (case app_route decode api ctrl env r st b of
                 Some x \<Rightarrow> x
               | None \<Rightarrow> (Answer 404 (Http_B (Text (''Cannot '' @ rq_method r @ '' '' @ rq_path r))), st)))"
proof -
  obtain j where
    "stack_loop (app_answer st) (app_route decode api ctrl env r st) files r app_stack =
       Some (j, foldl (\<lambda>f l. layer_apply (app_answer st) (app_route decode api ctrl env r st) files r l f) (Go []) app_stack)"
    using stack_loop_fold by blast
  then show ?thesis
    by (auto simp: app_handle_def app_stack_def parse_body_def static_serve_def json_parser_def url_encoded_def
        final_handler_def app_answer_def split: req_body.splits json_text.splits option.splits)
qed

lemma run_endpoint_outcome: "handler_outcome e (fst (run_endpoint decode api ctrl env r b e ps st))"
  by (cases e; cases ps rule: list.exhaust; simp add: run_endpoint_def Let_def handler_outcome_def
      auth_answer_def stats_answer_def review_answer_def case_prod_unfold
      split: option.splits list.splits sum.splits)

lemma app_route_outcome:
  assumes "app_route decode api ctrl env r st b = Some (o', st')"
  shows "\<exists>e ps. find_route (rq_method r) (path_segments (rq_path r)) mounts = Some (e, ps) \<and>
    handler_outcome e o'"
proof -
  obtain e ps where f: "find_route (rq_method r) (path_segments (rq_path r)) mounts = Some (e, ps)"
    and x: "run_endpoint decode api ctrl env r b e ps st = (o', st')"
    using assms by (auto simp: app_route_def)
  have "handler_outcome e (fst (run_endpoint decode api ctrl env r b e ps st))"
    by (rule run_endpoint_outcome)
  with f x show ?thesis by auto
qed

lemma auth_step_ex:
  "\<exists>rq. s = auth_step api rq s"
  "\<exists>rq. snd (register u e p cp salt k date s) = auth_step api rq s"
  "\<exists>rq. snd (login_google t api k date s) = auth_step api rq s"
  "\<exists>rq. snd (verify_email_post tok s) = auth_step api rq s"
  "\<exists>rq. snd (verify_email_code c dt s) = auth_step api rq s"
  by (rule exI[of _ "Login None None"], simp) (rule exI, rule auth_step.simps[symmetric])+

lemma stats_step_ex:
  "\<exists>rq. c = stats_step key now rq c"
  "\<exists>rq. snd (post_view tok key now pid cat c) = stats_step key now rq c"
  "\<exists>rq. snd (put_views tok key now pid c) = stats_step key now rq c"
  "\<exists>rq. snd (post_like tok key now pid cat c) = stats_step key now rq c"
  "\<exists>rq. snd (put_evaluate tok key now pid ev fund co es c) = stats_step key now rq c"
  by (rule exI[of _ Get_Percentages], simp) (rule exI, rule stats_step.simps[symmetric])+

lemma review_step_ex:
  "\<exists>rq. c = review_step key now rq c"
  "\<exists>rq. snd (post_review tok key now pid bd rating uu pn ic pu c) = review_step key now rq c"
  "\<exists>rq. snd (delete_review tok key now pid rid c) = review_step key now rq c"
  by (rule exI[of _ "Get_Reviews []"], simp) (rule exI, rule review_step.simps[symmetric])+

lemma run_endpoint_steps:
  "(\<exists>rq. a_srv (snd (run_endpoint decode api ctrl env r b e ps st)) = auth_step api rq (a_srv st)) \<and>
   (\<exists>rq. a_stats (snd (run_endpoint decode api ctrl env r b e ps st)) =
      stats_step (secret (a_srv st)) (clock (a_srv st)) rq (a_stats st)) \<and>
   (\<exists>rq. a_reviews (snd (run_endpoint decode api ctrl env r b e ps st)) =
      review_step (secret (a_srv st)) (clock (a_srv st)) rq (a_reviews st))"
  by (cases e; cases ps rule: list.exhaust; simp add: run_endpoint_def Let_def case_prod_unfold
      auth_step_ex stats_step_ex review_step_ex split: option.splits list.splits sum.splits)

lemma app_handle_state:
  "snd (app_handle decode api ctrl files env r st) = st \<or>
   (\<exists>b e ps. snd (app_handle decode api ctrl files env r st) = snd (run_endpoint decode api ctrl env r b e ps st))"
  by (auto simp: app_handle_eq app_route_def split: sum.splits option.splits)

lemma app_handle_wf: "app_wf st \<Longrightarrow> app_wf (snd (app_handle decode api ctrl files env r st))"
proof -
  assume wf: "app_wf st"
  from app_handle_state[of decode api ctrl files env r st] show ?thesis
  proof
    assume "snd (app_handle decode api ctrl files env r st) = st"
    with wf show ?thesis by simp
  next
    assume "\<exists>b e ps. snd (app_handle decode api ctrl files env r st) = snd (run_endpoint decode api ctrl env r b e ps st)"
    then obtain b e ps where e: "snd (app_handle decode api ctrl files env r st) = snd (run_endpoint decode api ctrl env r b e ps st)"
      by blast
    from run_endpoint_steps[of decode api ctrl env r b e ps st] obtain q1 q2 q3 where
      "a_srv (snd (run_endpoint decode api ctrl env r b e ps st)) = auth_step api q1 (a_srv st)"
      "a_stats (snd (run_endpoint decode api ctrl env r b e ps st)) =
         stats_step (secret (a_srv st)) (clock (a_srv st)) q2 (a_stats st)"
      "a_reviews (snd (run_endpoint decode api ctrl env r b e ps st)) =
         review_step (secret (a_srv st)) (clock (a_srv st)) q3 (a_reviews st)"
      by blast
    with wf show ?thesis unfolding e app_wf_def
      by (simp add: auth_step_wf stats_step_wf review_step_wf)
  qed
qed

end
