(* ===== verification/App_Props.thy ===== *)
theory App_Props
  imports App
begin

text \<open>
  Properties of the whole application of server.js: the request loop
  terminates, the pipeline's own answers (the global error handler, cors
  preflight) and their reach, which requests go unanswered, the invariants
  of all three stores in every reachable state of the composed system, and a
  registration through the HTTP surface whose token the review routes accept
  as the new account.
\<close>

text \<open>Requests used by the properties: a JSON registration, and a JSON review
  of project 7 with a given Authorization header.\<close>

definition register_request :: "string \<Rightarrow> string \<Rightarrow> string \<Rightarrow> http_request" where
  "register_request u e p =
     \<lparr>rq_method = ''POST'', rq_path = ''/auth/register'',
      rq_body = Json_Body (J_Object [(''username'', JStr u), (''email'', JStr e),
        (''password'', JStr p), (''confirmationPassword'', JStr p)]),
      rq_authorization = None\<rparr>"

definition review_request :: "string \<Rightarrow> string \<Rightarrow> http_request" where
  "review_request w bd =
     \<lparr>rq_method = ''POST'', rq_path = ''/projects/7/reviews'',
      rq_body = Json_Body (J_Object [(''body'', JStr bd), (''rating'', JBool True), (''userUrl'', JStr ''u''),
        (''projectName'', JStr ''p''), (''idCreator'', JNum 3), (''projectUrl'', JStr ''q'')]),
      rq_authorization = Some w\<rparr>"

text \<open>A sample application state and request environment; the sample
  decoding reads two compact tokens, for accounts 1 and 2.\<close>

definition demo_app :: app_state where
  "demo_app = \<lparr>a_srv = sample_server, a_stats = demo_stats, a_reviews = demo_reviews\<rparr>"

definition demo_env :: req_env where
  "demo_env = \<lparr>e_salt = 3, e_avatar = 1, e_date = ''02/01/2024'', e_delay = 0\<rparr>"

definition demo_ctrl :: stats_ctrl where
  "demo_ctrl n c = Inr (Ctrl_Prim JNull)"

definition demo_decode :: "string \<Rightarrow> token" where
  "demo_decode w =
     (if w = ''tokA'' then jwt_sign ''k'' 1 0 None
      else if w = ''tokB'' then jwt_sign ''k'' 2 1000 None else Malformed w)"

subsection \<open>Routing lemmas\<close>

lemmas route_eval = path_segments_def seg_eq_def to_lower_def js_lower_def mounts_def auth_routes_def
  stats_routes_def review_routes_def route_match_def method_matches_def static_serve_def static_file_def

lemma register_request_route:
  "app_handle decode api ctrl files env (register_request u e p) st =
     (let (resp, s') = register (Some u) (Some e) (Some p) (Some p) (e_salt env) (e_avatar env) (e_date env) (a_srv st)
      in (auth_answer resp, st\<lparr>a_srv := s'\<rparr>))"
  by (simp add: app_handle_eq register_request_def parse_body_def app_route_def route_eval run_endpoint_def
      body_fields_def body_field_def)

lemma review_request_route:
  "app_handle decode api ctrl files env (review_request w bd) st =
     (let (resp, c') = post_review (Some (decode w)) (secret (a_srv st)) (clock (a_srv st)) ''7'' (Some bd)
          (JBool True) (Some ''u'') (Some ''p'') (JNum 3) (Some ''q'') (a_reviews st)
      in (review_answer resp, st\<lparr>a_reviews := c'\<rparr>))"
  by (simp add: app_handle_eq review_request_def parse_body_def app_route_def route_eval run_endpoint_def
      body_fields_def body_field_def body_val_def Let_def)

subsection \<open>Properties\<close>

text \<open>The Express loop over the application's stack (the router's next()
  iteration) ends for every request and every stack: it returns a state.\<close>

theorem stack_loop_terminates: "\<exists>t. stack_loop answer route files r stack = Some t"
  unfolding stack_loop_def
  by (rule measure_while_option_Some[where f = "\<lambda>(i, f). length stack - i" and P = "\<lambda>_. True"]) auto

text \<open>C20: a request whose JSON body is malformed, or a bare primitive refused by
  strict parsing, is answered 500 "Something went wrong!" by the global error
  handler, whatever its method and path, and changes nothing; the parser's
  own status 400 is lost.\<close>

theorem malformed_json_500:
  assumes "rq_body r = Json_Body J_Malformed \<or> rq_body r = Json_Body J_Primitive"
  shows "app_handle decode api ctrl files env r st = (Answer 500 (Http_B (Text ''Something went wrong!'')), st)"
  using assms by (auto simp: app_handle_eq parse_body_def)

theorem malformed_json_500_witness:
  "app_handle demo_decode google_stub demo_ctrl {} demo_env
     \<lparr>rq_method = ''POST'', rq_path = ''/auth/register'', rq_body = Json_Body J_Malformed,
      rq_authorization = None\<rparr> demo_app =
   (Answer 500 (Http_B (Text ''Something went wrong!'')), demo_app)"
  by (rule malformed_json_500) simp

text \<open>The global error handler answers only body-parse errors: registered
  before the routes, it is never reached by a request whose body parsed.\<close>

theorem error_handler_parse_only:
  assumes "parse_body (rq_body r) = Inr b"
  shows "fst (app_handle decode api ctrl files env r st) \<noteq> Answer 500 (Http_B (Text ''Something went wrong!''))"
  using assms
  by (auto simp: app_handle_eq handler_outcome_def dest!: app_route_outcome
      split: option.splits outcome.splits app_body.splits)

theorem error_handler_parse_only_witness:
  "fst (app_handle demo_decode google_stub demo_ctrl {} demo_env
     \<lparr>rq_method = ''GET'', rq_path = ''/nowhere'', rq_body = No_Body, rq_authorization = None\<rparr> demo_app)
   \<noteq> Answer 500 (Http_B (Text ''Something went wrong!''))"
  by (rule error_handler_parse_only[where b = "[]"]) (simp add: parse_body_def)

text \<open>Every OPTIONS request with a parsable body is answered 204 by cors and
  changes nothing, whatever its path; no route handler or identity check
  runs.\<close>

theorem options_preflight:
  assumes "parse_body (rq_body r) = Inr b" "rq_method r = ''OPTIONS''"
  shows "app_handle decode api ctrl files env r st = (Answer 204 (Http_B Empty), st)"
  using assms by (simp add: app_handle_eq)

theorem options_preflight_witness:
  "app_handle demo_decode google_stub demo_ctrl {} demo_env
     \<lparr>rq_method = ''OPTIONS'', rq_path = ''/projects/7/reviews/x'', rq_body = No_Body, rq_authorization = None\<rparr>
     demo_app = (Answer 204 (Http_B Empty), demo_app)"
  by (rule options_preflight[where b = "[]"]) (simp_all add: parse_body_def)

text \<open>C21: every request is answered, except by the two handlers whose failure
  paths escape: a request with no answer was routed to POST /auth/verifyEmail
  or PUT /:id/stats/views.\<close>

theorem app_request_answered:
  assumes "fst (app_handle decode api ctrl files env r st) = No_Answer"
  shows "\<exists>ps. find_route (rq_method r) (path_segments (rq_path r)) mounts \<in>
    {Some (E_Verify_Request, ps), Some (E_Put_Views, ps)}"
  using assms
  by (auto simp: app_handle_eq handler_outcome_def dest!: app_route_outcome
      split: option.splits sum.splits if_splits prod.splits)

theorem app_request_answered_witness:
  "\<exists>ps. find_route ''PUT'' (path_segments ''/projects/abc/stats/views'') mounts \<in>
     {Some (E_Verify_Request, ps), Some (E_Put_Views, ps)}"
proof -
  have "fst (app_handle demo_decode google_stub demo_ctrl {} demo_env
     \<lparr>rq_method = ''PUT'', rq_path = ''/projects/abc/stats/views'', rq_body = No_Body,
      rq_authorization = Some ''tokA''\<rparr> demo_app) = No_Answer"
    by (simp add: app_handle_eq parse_body_def static_serve_def static_file_def path_segments_def seg_eq_def
        to_lower_def js_lower_def app_route_def mounts_def auth_routes_def stats_routes_def route_match_def
        method_matches_def run_endpoint_def put_views_def stats_auth_def demo_decode_def demo_app_def
        sample_server_def verify_user_logged_sign mg_param_def parse_number_def trim_js_def
        unsigned_decimal_def digit_val_def is_js_space_def)
  from app_request_answered[OF this] show ?thesis by simp
qed

text \<open>In every state of the whole application reachable from empty stores by
  HTTP requests, clock ticks and connection changes, the accounts table, the
  statistics collection and the review collection each keep their
  invariant.\<close>

theorem app_reachable_wf: "app_reachable decode api ctrl files st \<Longrightarrow> app_wf st"
proof (induction rule: app_reachable.induct)
  case (init key t)
  show ?case by (simp add: app_wf_def init_app_def init_server_def users_wf_def stats_wf_def reviews_wf_def)
next
  case (request st env r)
  from request.IH show ?case by (rule app_handle_wf)
next
  case (clock st d)
  then show ?case by (simp add: app_wf_def auth_step_wf)
next
  case (mysql st b)
  then show ?case by (simp add: app_wf_def users_wf_def)
next
  case (mongo st b)
  then show ?case by (simp add: app_wf_def stats_wf_def reviews_wf_def)
qed

theorem app_reachable_wf_witness:
  "app_wf (snd (app_handle demo_decode google_stub demo_ctrl {} demo_env
     \<lparr>rq_method = ''POST'', rq_path = ''/auth/register'',
      rq_body = Json_Body (J_Object [(''username'', JStr ''carol''), (''email'', JStr ''c@d.org''),
        (''password'', JStr ''password''), (''confirmationPassword'', JStr ''password'')]),
      rq_authorization = None\<rparr> (init_app ''k'' 0)))"
  by (rule app_reachable_wf[OF app_reachable.request[OF app_reachable.init]])

text \<open>C2: a valid registration sent as JSON to POST /auth/register is answered
  201 with a token; sending that token as the Authorization header of a
  review of project 7 creates the review, answered 201, with the new
  account's id as its author. The route's Swagger comment (auth.js lines
  59-65) documents success as 200 with an array of \<open>NewUser\<close>: the code
  answers 201 with \<open>{ token, userUrl }\<close>, which is what the client must read
  the token from.\<close>

theorem app_register_then_review:
  assumes v: "u \<noteq> []" "e \<noteq> []" "email_re e" "8 \<le> length p" "online (db (a_srv st))"
    and fresh: "u \<notin> username ` set (rows (db (a_srv st)))" "e \<notin> email ` set (rows (db (a_srv st)))"
    and r1: "app_handle decode api ctrl files env (register_request u e p) st = (o1, st1)"
    and w: "decode w = jwt_sign (secret (a_srv st)) (next_id (db (a_srv st))) (now_s (a_srv st)) None"
    and rv: "rv_online (a_reviews st)" "bd \<noteq> []"
  shows "o1 = Answer 201 (Auth_B (Token_Url (decode w) (user_url u))) \<and>
    (\<exists>d st2. app_handle decode api ctrl files env (review_request w bd) st1 =
       (Answer 201 (Review_B (Review_Doc d)), st2) \<and>
       rv_user d = of_nat (next_id (db (a_srv st))) \<and> rv_body d = bd)"
proof -
  let ?T = "jwt_sign (secret (a_srv st)) (next_id (db (a_srv st))) (now_s (a_srv st)) None"
  obtain srv' where reg: "register (Some u) (Some e) (Some p) (Some p) (e_salt env) (e_avatar env) (e_date env) (a_srv st) =
      ((201, Token_Url ?T (user_url u)), srv')" and sec: "secret srv' = secret (a_srv st)"
  proof -
    have "p \<noteq> []" using v(4) by auto
    then have "register (Some u) (Some e) (Some p) (Some p) (e_salt env) (e_avatar env) (e_date env) (a_srv st) =
      ((201, Token_Url ?T (user_url u)),
       (a_srv st)\<lparr>db := (db (a_srv st))\<lparr>rows := rows (db (a_srv st)) @
           [new_row \<lparr>rp_username = u, rp_email = e, rp_password = p\<rparr>
              (e_salt env) (e_avatar env) (e_date env) (next_id (db (a_srv st)))],
         next_id := Suc (next_id (db (a_srv st)))\<rparr>\<rparr>)"
      using register_fresh_result[of "Some u" "Some e" "Some p" "Some p" "a_srv st" "e_salt env" "e_avatar env"
          "e_date env"] v fresh by simp
    then show ?thesis by (rule that) simp
  qed
  have st1: "o1 = Answer 201 (Auth_B (Token_Url ?T (user_url u)))" "st1 = st\<lparr>a_srv := srv'\<rparr>"
    using r1 by (simp_all add: register_request_route reg auth_answer_def)
  have tok: "verify_user_logged (Some (decode w)) (secret srv') (clock srv') = Inr (next_id (db (a_srv st)))"
    by (simp add: w sec verify_user_logged_sign)
  have "app_handle decode api ctrl files env (review_request w bd) st1 =
      (Answer 201 (Review_B (Review_Doc
         \<lparr>rv_oid = rv_next (a_reviews st), rv_user = of_nat (next_id (db (a_srv st))), rv_userUrl = ''u'',
          rv_projectName = ''p'', rv_creator = 3, rv_project = 7, rv_projectUrl = ''q'', rv_body = bd,
          rv_rating = True, rv_creationDate = clock srv'\<rparr>)),
       st1\<lparr>a_reviews := (a_reviews st)\<lparr>rv_docs := rv_docs (a_reviews st) @
         [\<lparr>rv_oid = rv_next (a_reviews st), rv_user = of_nat (next_id (db (a_srv st))), rv_userUrl = ''u'',
          rv_projectName = ''p'', rv_creator = 3, rv_project = 7, rv_projectUrl = ''q'', rv_body = bd,
          rv_rating = True, rv_creationDate = clock srv'\<rparr>], rv_next := Suc (rv_next (a_reviews st))\<rparr>\<rparr>)"
    using tok rv by (simp add: review_request_route st1(2) post_review_def review_auth_def parse_number_7
        mg_number_def mg_required_bool_def review_answer_def Let_def)
  then show ?thesis using st1(1) w by auto
qed

theorem app_register_then_review_witness:
  "fst (app_handle demo_decode google_stub demo_ctrl {} demo_env (register_request ''carol'' ''c@d.org'' ''password'') demo_app) =
     Answer 201 (Auth_B (Token_Url (demo_decode ''tokB'') (user_url ''carol''))) \<and>
   (\<exists>d st2. app_handle demo_decode google_stub demo_ctrl {} demo_env (review_request ''tokB'' ''nice'')
       (snd (app_handle demo_decode google_stub demo_ctrl {} demo_env (register_request ''carol'' ''c@d.org'' ''password'') demo_app)) =
       (Answer 201 (Review_B (Review_Doc d)), st2) \<and> rv_user d = of_nat 2 \<and> rv_body d = ''nice'')"
proof -
  obtain o1 st1 where r1:
    "app_handle demo_decode google_stub demo_ctrl {} demo_env (register_request ''carol'' ''c@d.org'' ''password'') demo_app =
       (o1, st1)" by (metis prod.exhaust)
  have em: "email_re ''c@d.org''" by (simp add: email_re_def re_plain_def is_js_space_def)
  have "o1 = Answer 201 (Auth_B (Token_Url (demo_decode ''tokB'') (user_url ''carol''))) \<and>
    (\<exists>d st2. app_handle demo_decode google_stub demo_ctrl {} demo_env (review_request ''tokB'' ''nice'') st1 =
       (Answer 201 (Review_B (Review_Doc d)), st2) \<and>
       rv_user d = of_nat (next_id (db (a_srv demo_app))) \<and> rv_body d = ''nice'')"
    by (rule app_register_then_review[OF _ _ em _ _ _ _ r1])
      (simp_all add: demo_app_def sample_server_def alice_row_def demo_decode_def now_s_def secs_def
        demo_reviews_def)
  then show ?thesis using r1 by (simp add: demo_app_def sample_server_def)
qed

end
