(* ===== verification/Startup.thy ===== *)
theory Startup
  imports Js_Values
begin

text \<open>
  The start-up of src/server.js (lines 25-66). Configuration is read from
  \<open>process.env\<close> with \<open>??\<close>: an unset variable takes the default, a set
  one is kept, even when it is the empty string. The synchronous part of the
  script calls \<open>app.listen\<close> and \<open>db.connect\<close>, which only register
  callbacks, mounts the routes, calls \<open>mongoose.connect\<close> without awaiting
  the promise it returns and logs the MongoDB line at once. Then the event
  loop runs what is pending in an order the model leaves open: the listen
  callback logs the URL; the MySQL connect callback either logs and exits
  with status 1 or issues the test query, whose callback either logs and
  exits with status 1 or logs the connection; the MongoDB promise settles,
  and a rejection, which no handler catches, ends the process with status 1
  (the runtime's default for an unhandled rejection, which Node since version
  15 and Bun share). \<open>process.exit\<close> ends the process: nothing runs after
  it. \<open>mongoose.connect\<close> is an \<open>async\<close> function, so it never throws
  synchronously and the \<open>catch\<close> of lines 64-66 is dead: the MongoDB line is
  always the success line. The outcomes of MySQL and MongoDB are parameters;
  the log is structured (its lines as values).
  The lemmas give an invariant of every run (rule induction on
  \<open>boot_reach\<close>), from it the exit status and the log of every settled
  run, and a weight that every callback lowers, so that a run settles after
  at most four callbacks.
\<close>

type_synonym proc_env = "string \<Rightarrow> string option"

definition env_or :: "proc_env \<Rightarrow> string \<Rightarrow> jval \<Rightarrow> jval" where
  "env_or env k d = (case env k of None \<Rightarrow> d | Some v \<Rightarrow> JStr v)"

definition server_port :: "proc_env \<Rightarrow> jval" where
  "server_port env = env_or env ''SERVER_PORT'' (JNum 3001)"

definition server_host :: "proc_env \<Rightarrow> jval" where
  "server_host env = env_or env ''SERVER_HOST'' (JStr ''http://localhost'')"

record db_config =
  dc_host :: jval
  dc_port :: jval
  dc_user :: jval
  dc_password :: jval
  dc_database :: jval

definition db_config_of :: "proc_env \<Rightarrow> db_config" where
  "db_config_of env =
     \<lparr>dc_host = env_or env ''DB_HOST'' (JStr ''localhost''), dc_port = env_or env ''DB_PORT'' (JNum 3306),
      dc_user = env_or env ''DB_USER'' (JStr ''some_user''),
      dc_password = env_or env ''DB_PASSWORD'' (JStr ''some_password''),
      dc_database = env_or env ''DB_NAME'' (JStr ''fundflow'')\<rparr>"

datatype log_line =
    Mongo_Connected
  | Url_Line jval jval
  | Mysql_Connect_Failed
  | Mysql_Query_Failed
  | Mysql_Connected jval string
  | Unhandled_Rejection string

text \<open>What the MySQL server does with the connection and the test query
  \<open>SELECT NOW()\<close>: refuse the connection, fail the query, or answer it with
  the date; and how the MongoDB connection promise settles.\<close>

datatype mysql_result = Mysql_Connect_Error | Mysql_Query_Error | Mysql_Ok string

definition mysql_fails :: "mysql_result \<Rightarrow> bool" where
  "mysql_fails m = (case m of Mysql_Ok d \<Rightarrow> False | _ \<Rightarrow> True)"

datatype mongo_result = Mongo_Resolved | Mongo_Rejected string

definition mongo_fails :: "mongo_result \<Rightarrow> bool" where
  "mongo_fails g = (g \<noteq> Mongo_Resolved)"

datatype boot_event = Listen_Ready | Mysql_Connect_Done | Mysql_Query_Done | Mongo_Settled

record boot =
  b_log :: "log_line list"
  b_exit :: "nat option"
  b_pending :: "boot_event list"

text \<open>The synchronous part (lines 28, 39, 59-66): the listen and connect
  callbacks registered, the MongoDB promise pending, and the MongoDB line
  logged.\<close>

definition boot_start :: boot where
  "boot_start =
     \<lparr>b_log = [Mongo_Connected], b_exit = None,
      b_pending = [Listen_Ready, Mysql_Connect_Done, Mongo_Settled]\<rparr>"

text \<open>One callback run by the event loop (lines 28, 39-53, 61).\<close>

fun boot_fire :: "proc_env \<Rightarrow> mysql_result \<Rightarrow> mongo_result \<Rightarrow> boot_event \<Rightarrow> boot \<Rightarrow> boot" where
  "boot_fire env m g Listen_Ready b =
     b\<lparr>b_log := b_log b @ [Url_Line (server_host env) (server_port env)],
       b_pending := remove1 Listen_Ready (b_pending b)\<rparr>"
| "boot_fire env m g Mysql_Connect_Done b =
     (if m = Mysql_Connect_Error
      then b\<lparr>b_log := b_log b @ [Mysql_Connect_Failed], b_exit := Some 1,
             b_pending := remove1 Mysql_Connect_Done (b_pending b)\<rparr>
      else b\<lparr>b_pending := remove1 Mysql_Connect_Done (b_pending b) @ [Mysql_Query_Done]\<rparr>)"
| "boot_fire env m g Mysql_Query_Done b =
     (case m of
        Mysql_Ok date \<Rightarrow>
          b\<lparr>b_log := b_log b @ [Mysql_Connected (dc_database (db_config_of env)) date],
            b_pending := remove1 Mysql_Query_Done (b_pending b)\<rparr>
      | _ \<Rightarrow> b\<lparr>b_log := b_log b @ [Mysql_Query_Failed], b_exit := Some 1,
               b_pending := remove1 Mysql_Query_Done (b_pending b)\<rparr>)"
| "boot_fire env m g Mongo_Settled b =
     (case g of
        Mongo_Resolved \<Rightarrow> b\<lparr>b_pending := remove1 Mongo_Settled (b_pending b)\<rparr>
      | Mongo_Rejected err \<Rightarrow>
          b\<lparr>b_log := b_log b @ [Unhandled_Rejection err], b_exit := Some 1,
            b_pending := remove1 Mongo_Settled (b_pending b)\<rparr>)"

inductive boot_reach :: "proc_env \<Rightarrow> mysql_result \<Rightarrow> mongo_result \<Rightarrow> boot \<Rightarrow> bool"
  for env m g where
  start: "boot_reach env m g boot_start"
| fire: "boot_reach env m g b \<Longrightarrow> b_exit b = None \<Longrightarrow> ev \<in> set (b_pending b) \<Longrightarrow>
    boot_reach env m g (boot_fire env m g ev b)"

text \<open>A start-up has settled when the process has exited or nothing is
  pending.\<close>

definition settled :: "boot \<Rightarrow> bool" where
  "settled b \<longleftrightarrow> b_exit b \<noteq> None \<or> b_pending b = []"

text \<open>The invariant of the start-up: the log only grows behind the MongoDB
  line; a pending MySQL callback or the pending MongoDB promise is what stands
  between a failure and the exit; a callback that has run has left its
  line.\<close>

definition boot_inv :: "proc_env \<Rightarrow> mysql_result \<Rightarrow> mongo_result \<Rightarrow> boot \<Rightarrow> bool" where
  "boot_inv env m g b \<longleftrightarrow>
     b_log b \<noteq> [] \<and> hd (b_log b) = Mongo_Connected \<and> distinct (b_pending b) \<and>
     (Mysql_Query_Done \<in> set (b_pending b) \<longrightarrow> Mysql_Connect_Done \<notin> set (b_pending b)) \<and>
     (b_exit b \<noteq> None \<longrightarrow> b_exit b = Some 1 \<and> (mysql_fails m \<or> mongo_fails g)) \<and>
     (b_exit b = None \<and> mysql_fails m \<longrightarrow>
        Mysql_Connect_Done \<in> set (b_pending b) \<or> Mysql_Query_Done \<in> set (b_pending b)) \<and>
     (b_exit b = None \<and> mongo_fails g \<longrightarrow> Mongo_Settled \<in> set (b_pending b)) \<and>
     (b_exit b = None \<and> Listen_Ready \<notin> set (b_pending b) \<longrightarrow>
        Url_Line (server_host env) (server_port env) \<in> set (b_log b)) \<and>
     (b_exit b = None \<and> Mysql_Connect_Done \<notin> set (b_pending b) \<and> Mysql_Query_Done \<notin> set (b_pending b) \<longrightarrow>
        (\<exists>d. m = Mysql_Ok d \<and> Mysql_Connected (dc_database (db_config_of env)) d \<in> set (b_log b)))"

text \<open>A measure of the work left: each pending callback weighs what it can
  still run (the connect callback also its query), and an exited process has
  none.\<close>

primrec event_weight :: "boot_event \<Rightarrow> nat" where
  "event_weight Listen_Ready = 1"
| "event_weight Mysql_Connect_Done = 2"
| "event_weight Mysql_Query_Done = 1"
| "event_weight Mongo_Settled = 1"

definition boot_weight :: "boot \<Rightarrow> nat" where
  "boot_weight b = (if b_exit b = None then sum_list (map event_weight (b_pending b)) else 0)"

lemma boot_inv_start: "boot_inv env m g boot_start"
  by (simp add: boot_inv_def boot_start_def mongo_fails_def)

lemma boot_inv_fire:
  assumes "boot_inv env m g b" "b_exit b = None" "ev \<in> set (b_pending b)"
  shows "boot_inv env m g (boot_fire env m g ev b)"
  using assms
  by (cases ev; cases m; cases g) (auto simp: boot_inv_def mysql_fails_def mongo_fails_def)

lemma boot_reach_inv: "boot_reach env m g b \<Longrightarrow> boot_inv env m g b"
  by (induction rule: boot_reach.induct) (simp_all add: boot_inv_start boot_inv_fire)

text \<open>C22: Whatever order the event loop runs the callbacks in, once the
  start-up has settled the process has exited, with status 1, exactly when
  MySQL refused the connection or the test query or the MongoDB connection
  was rejected; the log opens with "Connected to MongoDB" in every case,
  a rejected connection included; and when both databases worked the log
  holds the URL line with the configured host and port and the line naming
  the configured database and the date the query returned.\<close>

theorem boot_settled:
  assumes "boot_reach env m g b" "settled b"
  shows "b_exit b = (if mysql_fails m \<or> mongo_fails g then Some 1 else None) \<and>
    hd (b_log b) = Mongo_Connected \<and>
    (\<not> mysql_fails m \<and> \<not> mongo_fails g \<longrightarrow>
       Url_Line (server_host env) (server_port env) \<in> set (b_log b) \<and>
       (\<exists>d. m = Mysql_Ok d \<and> Mysql_Connected (dc_database (db_config_of env)) d \<in> set (b_log b)))"
  using boot_reach_inv[OF assms(1)] assms(2)
  by (auto simp: boot_inv_def settled_def)

theorem boot_settled_witness:
  "b_exit (boot_fire (\<lambda>k. None) (Mysql_Ok ''2026-11-09'') Mongo_Resolved Mongo_Settled
     (boot_fire (\<lambda>k. None) (Mysql_Ok ''2026-11-09'') Mongo_Resolved Mysql_Query_Done
      (boot_fire (\<lambda>k. None) (Mysql_Ok ''2026-11-09'') Mongo_Resolved Mysql_Connect_Done
        (boot_fire (\<lambda>k. None) (Mysql_Ok ''2026-11-09'') Mongo_Resolved Listen_Ready boot_start)))) = None"
proof -
  define env :: proc_env where "env = (\<lambda>k. None)"
  define m where "m = Mysql_Ok ''2026-11-09''"
  define g where "g = Mongo_Resolved"
  define b1 where "b1 = boot_fire env m g Listen_Ready boot_start"
  define b2 where "b2 = boot_fire env m g Mysql_Connect_Done b1"
  define b3 where "b3 = boot_fire env m g Mysql_Query_Done b2"
  define b4 where "b4 = boot_fire env m g Mongo_Settled b3"
  have r0: "boot_reach env m g boot_start" by (rule boot_reach.start)
  have r1: "boot_reach env m g b1"
    unfolding b1_def by (rule boot_reach.fire[OF r0]) (simp_all add: boot_start_def)
  have r2: "boot_reach env m g b2"
    unfolding b2_def by (rule boot_reach.fire[OF r1]) (simp_all add: b1_def boot_start_def)
  have r3: "boot_reach env m g b3"
    unfolding b3_def by (rule boot_reach.fire[OF r2]) (simp_all add: b2_def b1_def boot_start_def m_def)
  have r4: "boot_reach env m g b4"
    unfolding b4_def by (rule boot_reach.fire[OF r3]) (simp_all add: b3_def b2_def b1_def boot_start_def m_def)
  have s: "settled b4"
    by (simp add: b4_def b3_def b2_def b1_def settled_def boot_start_def m_def g_def)
  have "b_exit b4 = None"
    using boot_settled[OF r4 s] by (simp add: m_def g_def mysql_fails_def mongo_fails_def)
  then show ?thesis by (simp add: b4_def b3_def b2_def b1_def env_def m_def g_def)
qed

text \<open>The event loop settles: a run starts with weight 4, every callback
  lowers the weight, and a state is settled exactly at weight 0, so at most
  four callbacks run.\<close>

lemma boot_fire_weight:
  assumes "b_exit b = None" "ev \<in> set (b_pending b)"
  shows "boot_weight (boot_fire env m g ev b) < boot_weight b"
  using assms sum_list_map_remove1[of ev "b_pending b" event_weight]
  by (cases ev; cases m; cases g) (auto simp: boot_weight_def)

lemma boot_weight_start: "boot_weight boot_start = 4"
  by (simp add: boot_weight_def boot_start_def)

lemma settled_weight: "settled b \<longleftrightarrow> boot_weight b = 0"
proof -
  have "\<forall>e. 0 < event_weight e" by (intro allI, case_tac e) simp_all
  then show ?thesis
    by (cases "b_pending b") (auto simp: settled_def boot_weight_def)
qed

end
