(* ===== verification/Spec2Isabelle.thy ===== *)
theory Spec2Isabelle
  imports Register_Race Stats_Views Reviews_Props Accounts App_Props Startup
begin

text \<open>
  \<^bold>\<open>Verification development of the fundflow backend\<close> (arcedo/fundflow-Backend),
  a crowdfunding REST backend written for Bun/Express over MySQL (accounts)
  and MongoDB (reviews and statistics).

  \<^bold>\<open>Parts and how they interact.\<close> A client registers or logs in
  (src/src/routes/auth.js), receives a signed token, and presents it to the
  protected routes, whose middleware \<open>verifyUserLogged\<close> verifies it and
  hands the numeric account id to the route. Registration validates the
  fields, checks uniqueness with a \<open>SELECT\<close>, hashes the password and
  inserts the row; login looks the account up by e-mail or username and
  verifies the password; the federated login asks Google's tokeninfo service
  for the e-mail and logs in or registers it; the verification request mails a
  one-hour code, whose redemption sets \<open>verifiedEmail\<close>. The statistics
  routes (src/src/routes/projectStats.js) and the review routes
  (src/src/routes/projectReviews.js, schema src/src/models/reviewsProjects.js)
  sit behind the same middleware and keep their documents in MongoDB; they
  share nothing with the accounts table but the numeric id. src/server.js
  assembles the Express application: two body parsers, cors, four static
  directories, a global error handler, and the routers, through which every
  request passes in that order; at start-up it reads its configuration from
  the environment, starts listening, connects to MySQL (exiting with status 1
  when the connection or its test query fails) and to MongoDB.

  \<^bold>\<open>Theories.\<close>
  \<^item> \<open>Prelude\<close>: body fields as \<open>string option\<close> with JavaScript truthiness,
    response type, the caught error types, shared list lemmas, the
    \<open>handler_defs\<close> and \<open>store_simps\<close> collections.
  \<^item> \<open>Js_Strings\<close>: the e-mail pattern of line 88 as a matcher
    (\<open>email_re\<close>) and its language (\<open>email_lang\<close>), the url slug of lines
    112/202 (\<open>user_url\<close>), login's e-mail test of line 163
    (\<open>login_is_email\<close>), \<open>split('@')[0]\<close> of line 201. Strings are Latin-1
    code units, on which \<open>\s\<close>, \<open>indexOf\<close>, \<open>lastIndexOf\<close> and
    \<open>toLowerCase\<close> are written out exactly.
  \<^item> \<open>Tokens\<close>: the libraries' contracts, jsonwebtoken (\<open>jwt_sign\<close>,
    \<open>jwt_verify\<close>, expiry at \<open>now >= exp\<close>) and Bun.password (\<open>bun_hash\<close>,
    \<open>bun_verify\<close>), symbolic: a token records its key and claims, a digest its
    salt and password.
  \<^item> \<open>User_Store\<close>: the \<open>users\<close> table (\<open>user_row\<close>, \<open>users_db\<close> with
    its AUTO_INCREMENT counter and connection flag) and the five statements of
    auth.js; the invariant \<open>users_wf\<close> (distinct ids below the counter,
    unique usernames and e-mails) and the growth relation \<open>verified_mono\<close>.
  \<^item> \<open>Middleware\<close>: \<open>verifyUserLogged\<close>, which is not among the staged
    sources, modelled from the specification (section 4.9).
  \<^item> \<open>Auth_Routes\<close>: the server state (\<open>server\<close>: table, secret, clock in
    milliseconds, mailbox of verification e-mails) and one definition per
    handler: \<open>register\<close> (= \<open>register_check\<close> then \<open>register_insert\<close>, split
    at its awaits), \<open>login\<close>, \<open>login_google\<close>, \<open>verify_email_post\<close> /
    \<open>verify_email_request\<close> (whose unawaited \<open>resend.emails.send\<close> is
    \<open>resend_send\<close>, a hand-over to the mailbox), \<open>verify_email_code\<close>. Random and environment
    inputs (salt, avatar number, date string, the Google service) are
    parameters; thrown errors are the handlers' 500 answers.
  \<^item> \<open>Auth_Register\<close>, \<open>Auth_Login\<close>, \<open>Auth_Verify\<close>: functional behaviour
    of each handler on every branch, errors included, and the findings.
  \<^item> \<open>Server\<close>: all requests as one step function \<open>auth_step\<close> plus clock and
    connection events; \<open>reachable\<close> states from an empty table; the table
    invariant in every reachable state (rule induction) and monotonicity of
    every step.
  \<^item> \<open>Register_Race\<close>: interleavings of registration halves with other
    requests (\<open>conc_reach\<close>); ids stay distinct, uniqueness of e-mails does
    not.
  \<^item> \<open>Js_Values\<close>: JSON body values (\<open>jval\<close>), their truthiness, and
    \<open>Number()\<close> on strings (\<open>parse_number\<close>) with numbers as exact
    rationals or NaN; \<open>dec_string\<close> prints a numeric id.
  \<^item> \<open>Stats\<close>: the statistics document and collection, Mongoose's casts,
    and one definition per route: \<open>get_user_stats\<close>,
    \<open>get_project_stats\<close> (over the unstaged controller getProjectStats,
    a parameter \<open>ctrl\<close>), \<open>post_view\<close>,
    \<open>put_views\<close>, \<open>post_like\<close>, \<open>put_evaluate\<close> (with its three
    updates \<open>apply_evaluation\<close>, \<open>apply_fund\<close>, \<open>apply_collaboration\<close>),
    \<open>percentage_views\<close> (with the \<open>$group\<close> stage \<open>group_views\<close> and
    \<open>to_fixed2\<close>).
  \<^item> \<open>Stats_Props\<close>: the routes as one step \<open>stats_step\<close>, reachable
    collections, the invariant \<open>stats_wf\<close> by rule induction, the frame
    property that a request touches only its caller's documents, and the
    route behaviours and findings.
  \<^item> \<open>Stats_Views\<close>: the grouping stage against its specification
    \<open>views_of\<close>, the percentages, their sum, the NaN case and the rounding
    bound.
  \<^item> \<open>Reviews\<close>, \<open>Reviews_Props\<close>: the review schema and collection,
    ObjectId strings (\<open>hex_pad\<close>, \<open>oid_cast\<close>), the three listing routes,
    \<open>post_review\<close> and \<open>delete_review\<close>; owner-only deletion, creation then
    listing, validation, the dead 404 branch, the id round trip, and the
    invariant of reachable collections.
  \<^item> \<open>Accounts\<close>: an abstract specification of the account store (a map
    from id to username, e-mail, digest and verified flag, with the steps
    create and verify) and the refinement lemma that every \<open>auth_step\<close> is
    one of them or none.
  \<^item> \<open>Http\<close>: the Express request pipeline as server.js uses it, from the
    libraries' documentation: requests, body parsing (\<open>json_parser\<close>,
    \<open>url_encoded\<close>), cors, \<open>static_file\<close>, the error handler, path
    matching (\<open>path_segments\<close>, \<open>match_pattern\<close>, case-insensitive), and
    the router's \<open>next()\<close> loop over the stack as \<open>while_option\<close>
    (\<open>stack_loop\<close>).
  \<^item> \<open>App\<close>: server.js itself: \<open>app_stack\<close> (lines 10-23, 57), the route
    tables of the three routers (\<open>auth_routes\<close>, \<open>stats_routes\<close>,
    \<open>review_routes\<close>) and their mounts, \<open>run_endpoint\<close> dispatching a
    matched route to its component's handler, \<open>app_handle\<close> for one
    request, the composed state \<open>app_state\<close> and its reachable states
    (\<open>app_reachable\<close>); the loop is shown equal to a fold over the stack
    and every handler to act on its store as that component's step.
  \<^item> \<open>App_Props\<close>: termination of the loop, the pipeline's answers
    (parse errors, preflight), which requests go unanswered, the invariants of
    all stores in the composed system, and registration then review across
    the HTTP surface.
  \<^item> \<open>Startup\<close>: the start-up of server.js (lines 25-66): the
    configuration read with \<open>??\<close> (\<open>server_port\<close>, \<open>server_host\<close>,
    \<open>db_config_of\<close>), the synchronous part (\<open>boot_start\<close>: callbacks
    registered, MongoDB line logged), each callback the event loop runs
    (\<open>boot_fire\<close>: listen, MySQL connect, test query, with
    \<open>process.exit(1)\<close>, and the settling of the unawaited MongoDB
    promise, whose rejection is unhandled and ends the process with status
    1), and the runs in any order (\<open>boot_reach\<close>); an invariant by rule
    induction gives the exit status and log of every settled run, and a
    weight bounds a run to four callbacks.
  \<^item> this theory: the properties that span components (registration, then
    login, then the middleware).

  \<^bold>\<open>Bounds and time.\<close> There is no loop with an unbounded iteration count
  in the code; every recursion of the model is structural or on
  \<open>measure length\<close>, and the one loop kept as a loop, Express's walk
  over the stack, is a \<open>while_option\<close> whose termination is proved with
  the measure \<open>length stack - i\<close>, so no fuel is used. Times are natural numbers: the
  server clock in milliseconds, JWT times in seconds (\<open>secs\<close> is
  \<open>now div 1000\<close>); the verification code lives 3600 seconds. GET
  /verifyEmail/:code reads the clock twice, in \<open>jwt.verify\<close> and on line
  247; the second read is \<open>dt\<close> milliseconds after the first, a
  parameter of \<open>verify_email_code\<close> (in the application, a field of the
  request's environment \<open>req_env\<close>). Document
  stores have counters for their ids: statistics \<open>_id\<close>s are plain numbers
  (no route reads them back), review ids are printed as 24 hexadecimal
  digits, and the round trip is proved for every id below \<open>16^24\<close>, the
  size of an ObjectId.

  \<^bold>\<open>Not modelled.\<close> GET /:id/stats calls the controller
  getProjectStats, which is not among the staged sources: it is a parameter,
  and the route is proved for every controller; the statistics
  schema (models/statsProjects) is not staged either and is read off the
  routes; JavaScript numbers are exact rationals, so IEEE rounding and the
  exponent and hexadecimal forms of \<open>Number()\<close> are outside the model, and
  \<open>toFixed(2)\<close> yields the rounded number rather than its string; the
  string fields of a review are JSON strings or absent; ObjectIds are counters
  rather than time-stamped random values; of server.js's start-up, the
  socket behind \<open>app.listen\<close>, the MySQL driver (its outcome is a
  parameter, as is the outcome of the MongoDB promise) are not
  modelled, log lines are values rather than formatted text, and the
  application is taken to be Express 4 with body-parser 1.x (a rejected
  async handler leaves the request unanswered), the package manifest not
  being staged; src/src/routes/routes.js is not staged: the routers are
  mounted at \<open>/auth\<close> and \<open>/projects\<close>; URL percent-decoding of path
  parameters, query strings, nested form keys, static directory redirects
  and response headers are not modelled; jsonwebtoken's compact form is a
  parameter \<open>decode\<close>; the MySQL
  \<open>role\<close> column is never used by these routes; e-mail delivery is a
  hand-over to the mailbox; JavaScript strings beyond Latin-1 and JSON values
  other than strings in the auth bodies are outside the model; the avatar
  number \<open>Math.floor(Math.random() * 6)\<close> is a parameter of the handlers,
  not constrained to 0-5, which no property depends on; MySQL
  collations are taken as binary; the federated provider is trusted as given.

  \<^bold>\<open>Findings\<close> (each proved; claim ids as in the theories' text
  blocks): registration answers 201 and both auth routes answer
  \<open>{ token, userUrl }\<close>, against their Swagger comments (C1, C2, C7);
  first-time Google logins always fail (C12); the token a registration
  returns redeems as a verification code without any mail (C16); the
  explicit expiry check answers only when the expiry falls between its two
  clock reads (C15); e-mail-shaped usernames cannot log in by username (C11);
  duplicate reports flag one field only (C9); concurrent registrations
  duplicate e-mails (C19); a malformed JSON body is answered 500 by the
  global error handler (C20), which, registered before the routes, handles
  nothing else; "Connected to MongoDB" is logged whatever the connection
  does, and a failed MongoDB connection is an unhandled rejection that ends
  the process (C22); PUT /:id/stats/views sends no response when its catch
  block runs (C27); funding accepts negative amounts (C26); an empty result
  of GET /:id/stats is answered 200 with an empty body (C28); with no views
  the percentages are NaN (C30). The review listings' 404 branch is dead
  (\<open>reviews_lists_never_404\<close> in \<open>Reviews_Props\<close>: \<open>find\<close> resolves to
  an array, which is always truthy), and likes are recorded again on every
  request (\<open>post_like_duplicates\<close> in \<open>Stats_Props\<close>).
\<close>

text \<open>C1: a registration followed by a login: on a well-formed table that is
  reachable, valid and fresh registration input is answered 201, logging in
  with the same e-mail and password then answers 200 with a token for the new
  account, and the identity middleware accepts that token at any later time,
  resolving it to the new id. Both answers are \<open>{ token, userUrl }\<close>,
  against the Swagger comments, which document registration as 200 with an
  array of \<open>NewUser\<close> (auth.js lines 59-65) and login as 200 with an array
  of \<open>AuthUser\<close> (lines 145-151).\<close>

theorem register_then_login:
  assumes wf: "users_wf (db s)"
    and v: "js_truthy u" "js_truthy e" "js_truthy p" "js_truthy cp"
    "email_re (fval e)" "8 \<le> length (fval p)" "fval p = fval cp" "online (db s)"
    and fresh: "fval u \<notin> username ` set (rows (db s))" "fval e \<notin> email ` set (rows (db s))"
    and reg: "register u e p cp salt k date s = (resp, s')"
  shows "fst resp = 201 \<and>
    login e p s' =
      (200, Token_Url (jwt_sign (secret s) (next_id (db s)) (now_s s) None) (user_url (fval u))) \<and>
    verify_user_logged (Some (jwt_sign (secret s) (next_id (db s)) (now_s s) None)) (secret s') t
      = Inr (next_id (db s))"
proof -
  let ?pd = "\<lparr>rp_username = fval u, rp_email = fval e, rp_password = fval p\<rparr>"
  let ?r = "new_row ?pd salt k date (next_id (db s))"
  have eq: "resp = (201, Token_Url (jwt_sign (secret s) (next_id (db s)) (now_s s) None) (user_url (fval u)))"
    "s' = s\<lparr>db := (db s)\<lparr>rows := rows (db s) @ [?r], next_id := Suc (next_id (db s))\<rparr>\<rparr>"
    using register_fresh_result[OF v fresh] reg by simp_all
  have "filter (\<lambda>r. email r = fval e) (rows (db s')) = [?r]"
    using fresh(2) by (auto simp: eq(2) new_row_def filter_empty_conv_all image_iff)
  moreover have "login_is_email (fval e)"
    by (rule email_re_imp_login_is_email[OF v(5)])
  moreover obtain ev pv where "e = Some ev" "p = Some pv" "ev \<noteq> []" "pv \<noteq> []"
    using v(2,3) by (auto simp: js_truthy_iff)
  ultimately have "login e p s' =
      (200, Token_Url (jwt_sign (secret s') (user_id ?r) (now_s s') None) (url ?r))"
    using v(8) login_email_single[where s = s' and r = ?r and salt = salt]
    by (simp add: eq(2) new_row_def)
  then show ?thesis
    by (simp add: eq new_row_def now_s_def verify_user_logged_sign)
qed

theorem register_then_login_witness:
  "login (Some ''c@d.org'') (Some ''password'')
     (snd (register (Some ''carol'') (Some ''c@d.org'') (Some ''password'') (Some ''password'')
            3 1 ''02/01/2024'' sample_server)) =
   (200, Token_Url (jwt_sign ''k'' 2 1000 None) ''carol'')"
proof -
  have em: "email_re ''c@d.org''" by (simp add: email_re_def re_plain_def is_js_space_def)
  have wf: "users_wf (db sample_server)"
    by (simp add: users_wf_def sample_server_def alice_row_def)
  obtain resp s' where reg: "register (Some ''carol'') (Some ''c@d.org'') (Some ''password'')
      (Some ''password'') 3 1 ''02/01/2024'' sample_server = (resp, s')"
    by (cases "register (Some ''carol'') (Some ''c@d.org'') (Some ''password'')
      (Some ''password'') 3 1 ''02/01/2024'' sample_server")
  have "login (Some ''c@d.org'') (Some ''password'') s' =
      (200, Token_Url (jwt_sign (secret sample_server) (next_id (db sample_server))
         (now_s sample_server) None) (user_url ''carol''))"
    using register_then_login[OF wf _ _ _ _ _ _ _ _ _ _ reg, of 0] em
    by (simp add: sample_server_def alice_row_def)
  then show ?thesis
    using reg by (simp add: sample_server_def now_s_def secs_def user_url_def to_lower_def
        js_lower_def is_js_space_def Let_def)
qed

end
